(* ===== verification/Prelude.thy ===== *)
theory Prelude
  imports Complex_Main "HOL-Library.Sublist" "HOL-Library.Char_ord"
begin

text \<open>
  Shared vocabulary of the BookTube model.  Every component theory imports this one.
  It holds the collection \<open>model_simps\<close> (the evaluation equations of the model's small
  operations, used by \<open>simp add: model_simps\<close> in the component proofs), the
  list idiom that all React state setters of the sources use
  (\<^verbatim>\<open>prev.map(x => x.id === id ? {...x, ...} : x)\<close>, here \<open>map_where\<close>), and the two
  JavaScript truthiness conventions the handlers rely on: \<^verbatim>\<open>x || d\<close> on an optional number
  (\<open>or_default\<close>) and \<^verbatim>\<open>!x\<close> on an optional boolean (\<open>truthy\<close>).
\<close>

named_theorems model_simps "evaluation equations of the model's operations"

type_synonym id = string

definition map_where :: "('a \<Rightarrow> bool) \<Rightarrow> ('a \<Rightarrow> 'a) \<Rightarrow> 'a list \<Rightarrow> 'a list" where
  "map_where P f xs = map (\<lambda>x. if P x then f x else x) xs"

definition or_default :: "nat option \<Rightarrow> nat \<Rightarrow> nat" where
  "or_default x d = (case x of None \<Rightarrow> d | Some n \<Rightarrow> if n = 0 then d else n)"

definition truthy :: "bool option \<Rightarrow> bool" where
  "truthy b = (case b of None \<Rightarrow> False | Some v \<Rightarrow> v)"

subsection \<open>The \<open>map_where\<close> idiom\<close>

lemma map_where_Nil [simp]: "map_where P f [] = []"
  by (simp add: map_where_def)

lemma map_where_Cons [simp]:
  "map_where P f (x # xs) = (if P x then f x else x) # map_where P f xs"
  by (simp add: map_where_def)

lemma map_where_append [simp]:
  "map_where P f (xs @ ys) = map_where P f xs @ map_where P f ys"
  by (simp add: map_where_def)

lemma length_map_where [simp]: "length (map_where P f xs) = length xs"
  by (simp add: map_where_def)

lemma nth_map_where [simp]:
  "i < length xs \<Longrightarrow> map_where P f xs ! i = (if P (xs ! i) then f (xs ! i) else xs ! i)"
  by (simp add: map_where_def)

lemma map_where_no_match:
  "\<forall>x\<in>set xs. \<not> P x \<Longrightarrow> map_where P f xs = xs"
  by (induction xs) auto

lemma set_map_where_ball:
  "(\<forall>x\<in>set xs. Q x) \<Longrightarrow> (\<forall>x\<in>set xs. P x \<longrightarrow> Q (f x)) \<Longrightarrow> \<forall>y\<in>set (map_where P f xs). Q y"
  by (induction xs) auto

lemma list_all_map_where:
  "list_all Q xs \<Longrightarrow> (\<And>x. Q x \<Longrightarrow> P x \<Longrightarrow> Q (f x)) \<Longrightarrow> list_all Q (map_where P f xs)"
  by (induction xs) auto

lemma map_where_keeps_key:
  assumes "\<And>x. k (f x) = k x"
  shows "map k (map_where P f xs) = map k xs"
  using assms by (induction xs) auto

lemma map_where_other:
  "i < length xs \<Longrightarrow> \<not> P (xs ! i) \<Longrightarrow> map_where P f xs ! i = xs ! i"
  by simp

lemma filter_eq_distinct:
  "distinct xs \<Longrightarrow> x \<in> set xs \<Longrightarrow> filter (\<lambda>i. i = x) xs = [x]"
  by (induction xs) (auto simp: filter_empty_conv)

lemma length_filter_neq_distinct:
  "distinct xs \<Longrightarrow> length (filter (\<lambda>y. y \<noteq> x) xs) = length xs - (if x \<in> set xs then 1 else 0)"
  by (induction xs) (auto simp: filter_id_conv dest: length_pos_if_in_set)

subsection \<open>JavaScript truthiness\<close>

lemma or_default_simps [simp, model_simps]:
  "or_default None d = d"
  "or_default (Some n) d = (if n = 0 then d else n)"
  by (simp_all add: or_default_def)

lemma or_default_pos [intro]: "0 < d \<Longrightarrow> 0 < or_default x d"
  by (cases x) auto

lemma truthy_simps [simp, model_simps]:
  "truthy None = False"
  "truthy (Some b) = b"
  by (simp_all add: truthy_def)

end
