(* ===== verification/Js_Builtins.thy ===== *)
theory Js_Builtins
  imports Prelude
begin

text \<open>
  The JavaScript built-ins that the sources call on strings and arrays, modelled from the
  ECMAScript definitions on single-byte characters (HOL's \<open>char\<close> is a byte):
  \<^item> \<^verbatim>\<open>s.trim()\<close> removes leading and trailing white space; \<open>js_trim\<close> removes the
    ASCII white-space characters (space, tab, LF, VT, FF, CR);
  \<^item> \<^verbatim>\<open>s.toLowerCase()\<close> maps \<^verbatim>\<open>A..Z\<close> to \<^verbatim>\<open>a..z\<close> (\<open>js_lower\<close>);
  \<^item> \<^verbatim>\<open>s.includes(q)\<close> holds when \<open>q\<close> occurs at some index of \<open>s\<close>
    (\<open>js_includes\<close>, a scan of the start positions), proved equal to the library's
    \<open>sublist\<close>;
  \<^item> \<^verbatim>\<open>[...new Set(xs)]\<close> keeps the first occurrence of each element, in order
    (\<open>js_set_list\<close>);
  \<^item> \<^verbatim>\<open>xs.slice(a, b)\<close> with non-negative bounds keeps the elements at indices
    \<open>a\<close> to \<open>b - 1\<close> that exist (\<open>js_slice\<close>);
  \<^item> \<^verbatim>\<open>xs[i]\<close> is the element at index \<open>i\<close> or \<^verbatim>\<open>undefined\<close> (\<open>js_index\<close>,
    \<open>None\<close> for \<^verbatim>\<open>undefined\<close>), and \<^verbatim>\<open>s.charAt(i)\<close> the one-character string at
    \<open>i\<close> or the empty string (\<open>js_char_at\<close>);
  \<^item> \<^verbatim>\<open>n.toString()\<close> on a non-negative integer is its decimal numeral
    (\<open>nat_str\<close>), with its inverse \<open>str_nat\<close>.
  Unicode white space and non-ASCII case mappings are outside the model.
\<close>

definition is_js_space :: "char \<Rightarrow> bool" where
  "is_js_space c \<longleftrightarrow> of_char c = (32::nat) \<or> (9 \<le> (of_char c::nat) \<and> (of_char c::nat) \<le> 13)"

definition js_trim :: "string \<Rightarrow> string" where
  "js_trim s = rev (dropWhile is_js_space (rev (dropWhile is_js_space s)))"

definition js_blank :: "string \<Rightarrow> bool" where
  "js_blank s \<longleftrightarrow> js_trim s = []"

definition js_lower_char :: "char \<Rightarrow> char" where
  "js_lower_char c =
     (let n = (of_char c :: nat) in if 65 \<le> n \<and> n \<le> 90 then char_of (n + 32) else c)"

definition js_lower :: "string \<Rightarrow> string" where
  "js_lower s = map js_lower_char s"

fun starts_with :: "'a list \<Rightarrow> 'a list \<Rightarrow> bool" where
  "starts_with [] q = (q = [])"
| "starts_with (c # s) q = (case q of [] \<Rightarrow> True | d # q' \<Rightarrow> c = d \<and> starts_with s q')"

fun js_includes :: "'a list \<Rightarrow> 'a list \<Rightarrow> bool" where
  "js_includes [] q = (q = [])"
| "js_includes (c # s) q = (starts_with (c # s) q \<or> js_includes s q)"

fun js_set_list_acc :: "'a list \<Rightarrow> 'a list \<Rightarrow> 'a list" where
  "js_set_list_acc seen [] = rev seen"
| "js_set_list_acc seen (x # xs) =
     (if x \<in> set seen then js_set_list_acc seen xs else js_set_list_acc (x # seen) xs)"

definition js_set_list :: "'a list \<Rightarrow> 'a list" where
  "js_set_list xs = js_set_list_acc [] xs"

definition js_slice :: "'a list \<Rightarrow> nat \<Rightarrow> nat \<Rightarrow> 'a list" where
  "js_slice xs a b = take (b - a) (drop a xs)"

definition js_index :: "'a list \<Rightarrow> nat \<Rightarrow> 'a option" where
  "js_index xs i = (if i < length xs then Some (xs ! i) else None)"

definition js_char_at :: "string \<Rightarrow> nat \<Rightarrow> string" where
  "js_char_at s i = (if i < length s then [s ! i] else [])"

definition digit_char :: "nat \<Rightarrow> char" where
  "digit_char d = char_of (48 + d)"

fun nat_str :: "nat \<Rightarrow> string" where
  "nat_str n = (if n < 10 then [digit_char n] else nat_str (n div 10) @ [digit_char (n mod 10)])"

definition char_digit :: "char \<Rightarrow> nat" where
  "char_digit c = of_char c - 48"

definition str_nat :: "string \<Rightarrow> nat" where
  "str_nat s = foldl (\<lambda>acc c. 10 * acc + char_digit c) 0 s"

declare nat_str.simps [simp del]

definition is_numeral :: "string \<Rightarrow> bool" where
  "is_numeral s \<longleftrightarrow> nat_str (str_nat s) = s"

subsection \<open>\<open>includes\<close> is the substring relation\<close>

lemma starts_with_prefix: "starts_with s q \<longleftrightarrow> prefix q s"
  by (induction s q rule: starts_with.induct) (auto split: list.splits)

lemma js_includes_sublist: "js_includes s q \<longleftrightarrow> sublist q s"
  by (induction s) (auto simp: starts_with_prefix sublist_Cons_right)

lemma js_includes_Nil [simp]: "js_includes s []"
  by (simp add: js_includes_sublist)

lemma js_includes_trans:
  "js_includes s q \<Longrightarrow> js_includes q r \<Longrightarrow> js_includes s r"
  by (auto simp: js_includes_sublist intro: sublist_order.order_trans)

subsection \<open>White space and case\<close>

lemma js_lower_length [simp]: "length (js_lower s) = length s"
  by (simp add: js_lower_def)

lemma js_lower_append [simp]: "js_lower (s @ t) = js_lower s @ js_lower t"
  by (simp add: js_lower_def)

lemma js_trim_Nil [simp]: "js_trim [] = []"
  by (simp add: js_trim_def)

lemma js_blank_Nil [simp]: "js_blank []"
  by (simp add: js_blank_def)

lemma js_trim_sublist: "sublist (js_trim s) s"
proof -
  let ?t = "dropWhile is_js_space s"
  have "sublist (dropWhile is_js_space (rev ?t)) (rev ?t)"
    by (rule suffix_imp_sublist [OF suffix_dropWhile])
  then have "sublist (js_trim s) ?t"
    by (simp add: js_trim_def sublist_rev_left)
  moreover have "sublist ?t s"
    by (rule suffix_imp_sublist [OF suffix_dropWhile])
  ultimately show ?thesis by (rule sublist_order.order_trans)
qed

lemma ball_dropWhile_self:
  "(\<forall>x\<in>set (dropWhile P s). P x) \<longleftrightarrow> (\<forall>x\<in>set s. P x)"
  by (induction s) auto

lemma js_trim_Nil_iff: "js_trim s = [] \<longleftrightarrow> (\<forall>c\<in>set s. is_js_space c)"
  by (simp add: js_trim_def dropWhile_eq_Nil_conv ball_dropWhile_self)

lemma js_blank_iff: "js_blank s \<longleftrightarrow> (\<forall>c\<in>set s. is_js_space c)"
  by (simp add: js_blank_def js_trim_Nil_iff)

lemma last_dropWhile: "dropWhile P xs \<noteq> [] \<Longrightarrow> last (dropWhile P xs) = last xs"
  by (induction xs) auto

lemma js_trim_idem [simp]: "js_trim (js_trim s) = js_trim s"
proof (cases "js_trim s = []")
  case True
  then show ?thesis by simp
next
  case False
  define u where "u = dropWhile is_js_space s"
  define w where "w = dropWhile is_js_space (rev u)"
  have t: "js_trim s = rev w" by (simp add: js_trim_def u_def w_def)
  with False have "w \<noteq> []" by simp
  then have "u \<noteq> []" by (auto simp: w_def)
  have "\<not> is_js_space (hd (rev w))"
    using \<open>w \<noteq> []\<close> \<open>u \<noteq> []\<close> hd_dropWhile [of is_js_space s]
    by (simp add: hd_rev last_dropWhile w_def last_rev u_def)
  then have "dropWhile is_js_space (rev w) = rev w" by (simp add: dropWhile_eq_self_iff)
  moreover have "dropWhile is_js_space w = w"
    using \<open>w \<noteq> []\<close> hd_dropWhile [of is_js_space "rev u"] by (simp add: dropWhile_eq_self_iff w_def)
  ultimately show ?thesis unfolding t by (simp add: js_trim_def)
qed
subsection \<open>\<open>Set\<close> order\<close>

lemma js_set_list_acc_set: "set (js_set_list_acc seen xs) = set seen \<union> set xs"
  by (induction seen xs rule: js_set_list_acc.induct) auto

lemma js_set_list_acc_distinct:
  "distinct seen \<Longrightarrow> distinct (js_set_list_acc seen xs)"
  by (induction seen xs rule: js_set_list_acc.induct) auto

lemma js_set_list_set [simp]: "set (js_set_list xs) = set xs"
  by (simp add: js_set_list_def js_set_list_acc_set)

lemma js_set_list_distinct [simp]: "distinct (js_set_list xs)"
  by (simp add: js_set_list_def js_set_list_acc_distinct)

subsection \<open>Decimal numerals\<close>

lemma char_digit_digit_char [simp]: "d < 10 \<Longrightarrow> char_digit (digit_char d) = d"
  by (simp add: char_digit_def digit_char_def)

lemma str_nat_snoc: "str_nat (s @ [c]) = 10 * str_nat s + char_digit c"
  by (simp add: str_nat_def)

lemma str_nat_nat_str [simp]: "str_nat (nat_str n) = n"
proof (induction n rule: nat_str.induct)
  case (1 n)
  show ?case
  proof (cases "n < 10")
    case True
    then show ?thesis by (simp add: nat_str.simps [of n] str_nat_def)
  next
    case False
    with "1.IH" show ?thesis by (simp add: nat_str.simps [of n] str_nat_snoc)
  qed
qed

lemma nat_str_inj: "nat_str m = nat_str n \<longleftrightarrow> m = n"
  by (metis str_nat_nat_str)

lemma is_numeral_nat_str [simp]: "is_numeral (nat_str n)"
  by (simp add: is_numeral_def)

lemma nat_str_nonempty [simp]: "nat_str n \<noteq> []"
  by (subst nat_str.simps) simp

lemma digit_char_not_dash: "d < 10 \<Longrightarrow> digit_char d \<noteq> CHR ''-''"
proof
  assume "d < 10" and eq: "digit_char d = CHR ''-''"
  then have "of_char (digit_char d) = (of_char (CHR ''-'') :: nat)" by simp
  with \<open>d < 10\<close> show False by (simp add: digit_char_def)
qed

lemma nat_str_digits: "set (nat_str n) \<subseteq> digit_char ` {..<10}"
proof (induction n rule: nat_str.induct)
  case (1 n)
  then show ?case
    by (cases "n < 10") (auto simp: nat_str.simps [of n])
qed

lemma dash_notin_nat_str [simp]: "CHR ''-'' \<notin> set (nat_str n)"
proof
  assume "CHR ''-'' \<in> set (nat_str n)"
  with nat_str_digits obtain d where "d < 10" and "CHR ''-'' = digit_char d"
    by blast
  with digit_char_not_dash show False by metis
qed

end
