(* ===== verification/Sidebar.thy ===== *)
theory Sidebar
  imports Prelude
begin

text \<open>
  The sidebar, \<^verbatim>\<open>components/Sidebar.tsx\<close>.  It has no state of its own: it renders
  the main entries always and the library and discover entries and the settings button
  only while open (\<open>sidebar_visible_ids\<close>), highlights the entries whose id equals the
  page's \<^verbatim>\<open>currentPage\<close> (\<open>sidebar_highlighted\<close>) and reports a click by calling
  \<^verbatim>\<open>onPageChange(id)\<close>, which each page handles in its own way.
\<close>

definition main_nav_items :: "id list" where
  "main_nav_items = [''home'', ''shorts'', ''subscriptions'']"

definition library_items :: "id list" where
  "library_items = [''library'', ''history'', ''favorites'', ''reading-list'']"

definition discover_items :: "id list" where
  "discover_items = [''trending'', ''authors'', ''genres'']"

definition sidebar_visible_ids :: "bool \<Rightarrow> id list" where
  "sidebar_visible_ids is_open =
     main_nav_items @ (if is_open then library_items @ discover_items @ [''settings''] else [])"

definition sidebar_highlighted :: "bool \<Rightarrow> string \<Rightarrow> id list" where
  "sidebar_highlighted is_open current = filter (\<lambda>i. i = current) (sidebar_visible_ids is_open)"

lemma sidebar_ids_distinct: "distinct (sidebar_visible_ids b)"
  by (simp add: sidebar_visible_ids_def main_nav_items_def library_items_def discover_items_def)

lemma sidebar_highlighted_select:
  "pg \<in> set (sidebar_visible_ids b) \<Longrightarrow> sidebar_highlighted b pg = [pg]"
  unfolding sidebar_highlighted_def by (rule filter_eq_distinct [OF sidebar_ids_distinct])

lemma home_visible [simp]: "''home'' \<in> set (sidebar_visible_ids b)"
  by (simp add: sidebar_visible_ids_def main_nav_items_def)

end
