(* ===== verification/Upload.thy ===== *)
theory Upload
  imports Js_Builtins Sidebar
begin

text \<open>
  The upload page, \<^verbatim>\<open>app/upload/page.tsx\<close>, together with the part of the client router
  it depends on.  The page state (\<open>upload_page\<close>) is the sidebar flag, the selected
  sidebar entry, the form (\<open>upload_form\<close>: the files \<^verbatim>\<open>file\<close> and
  \<^verbatim>\<open>thumbnail\<close> are their names, \<^verbatim>\<open>null\<close> is \<open>None\<close>), the tag input and \<^verbatim>\<open>isUploading\<close>.  \<^verbatim>\<open>handleSubmit\<close> validates the form
  (an error is the value \<open>Inl MissingInformation\<close>, shown as a toast) and schedules a
  3000 ms \<^verbatim>\<open>setTimeout\<close> that clears \<^verbatim>\<open>isUploading\<close> and pushes \<^verbatim>\<open>/\<close>.  That
  callback lives outside the component, so the model is the application state
  \<open>upload_app\<close>: the current route, the page state, a mount counter that names the
  current instance of the page, and the queue of pending timeouts, each the instance that
  scheduled it.  All timeouts have the same delay, so they fire in the order they were
  scheduled.  A client push (\<^verbatim>\<open>router.push\<close>) to another route unmounts the page but keeps
  the timeouts; a full document load (\<^verbatim>\<open>window.location.href\<close>, used by the home page to
  open a book) drops them.  Entering the upload route mounts a fresh instance.
\<close>

datatype route = HomeRoute | BookRoute id | ProfileRoute | UploadRoute

record upload_form =
  title :: string
  author :: string
  description :: string
  tags :: "string list"
  category :: string
  book_file :: "string option"
  thumbnail :: "string option"

record upload_page =
  sidebar_open :: bool
  current_nav :: string
  form :: upload_form
  tag_input :: string
  is_uploading :: bool

record upload_app =
  location :: route
  page :: upload_page
  mount :: nat
  timers :: "nat list"

datatype form_field = FTitle | FAuthor | FDescription | FCategory

datatype file_field = FBook | FCover

datatype upload_error = MissingInformation

datatype upload_event =
    InputChange form_field string | FileChosen file_field string | TagInputChange string
  | AddTag | RemoveTag string | Submit | SidebarToggle | SidebarSelect string

datatype app_event = OnUpload upload_event | TimerFires | Push route | Load route

definition upload_init :: upload_page where
  "upload_init = \<lparr>sidebar_open = True, current_nav = ''upload'',
     form = \<lparr>title = [], author = [], description = [], tags = [], category = [],
             book_file = None, thumbnail = None\<rparr>,
     tag_input = [], is_uploading = False\<rparr>"

definition handle_input_change :: "form_field \<Rightarrow> string \<Rightarrow> upload_page \<Rightarrow> upload_page" where
  "handle_input_change fld v p = p\<lparr>form :=
     (case fld of FTitle \<Rightarrow> (form p)\<lparr>title := v\<rparr> | FAuthor \<Rightarrow> (form p)\<lparr>author := v\<rparr>
      | FDescription \<Rightarrow> (form p)\<lparr>description := v\<rparr> | FCategory \<Rightarrow> (form p)\<lparr>category := v\<rparr>)\<rparr>"

definition handle_file_upload :: "file_field \<Rightarrow> string \<Rightarrow> upload_page \<Rightarrow> upload_page" where
  "handle_file_upload fld f p = p\<lparr>form :=
     (case fld of FBook \<Rightarrow> (form p)\<lparr>book_file := Some f\<rparr> | FCover \<Rightarrow> (form p)\<lparr>thumbnail := Some f\<rparr>)\<rparr>"

definition handle_add_tag :: "upload_page \<Rightarrow> upload_page" where
  "handle_add_tag p =
     (if js_trim (tag_input p) \<noteq> [] \<and> js_trim (tag_input p) \<notin> set (tags (form p))
      then p\<lparr>form := (form p)\<lparr>tags := tags (form p) @ [js_trim (tag_input p)]\<rparr>, tag_input := []\<rparr>
      else p)"

definition handle_remove_tag :: "string \<Rightarrow> upload_page \<Rightarrow> upload_page" where
  "handle_remove_tag t p = p\<lparr>form := (form p)\<lparr>tags := filter (\<lambda>x. x \<noteq> t) (tags (form p))\<rparr>\<rparr>"

definition validate_upload :: "upload_form \<Rightarrow> upload_error + unit" where
  "validate_upload f =
     (if title f = [] \<or> author f = [] \<or> book_file f = None then Inl MissingInformation else Inr ())"

text \<open>Client navigation: a push to the current route does nothing, entering the upload
  route mounts a fresh instance of the page.\<close>

definition push :: "route \<Rightarrow> upload_app \<Rightarrow> upload_app" where
  "push r a =
     (if r = location a then a
      else if r = UploadRoute then a\<lparr>location := r, mount := Suc (mount a), page := upload_init\<rparr>
      else a\<lparr>location := r\<rparr>)"

definition full_load :: "route \<Rightarrow> upload_app \<Rightarrow> upload_app" where
  "full_load r a = a\<lparr>location := r, mount := Suc (mount a), page := upload_init, timers := []\<rparr>"

definition handle_submit :: "upload_app \<Rightarrow> upload_error + upload_app" where
  "handle_submit a =
     (case validate_upload (form (page a)) of
        Inl err \<Rightarrow> Inl err
      | Inr _ \<Rightarrow> Inr (a\<lparr>page := (page a)\<lparr>is_uploading := True\<rparr>, timers := timers a @ [mount a]\<rparr>))"

definition handle_page_change :: "string \<Rightarrow> upload_app \<Rightarrow> upload_app" where
  "handle_page_change pg a =
     (let a' = a\<lparr>page := (page a)\<lparr>current_nav := pg\<rparr>\<rparr> in
      if pg = ''home'' then push HomeRoute a' else a')"

text \<open>The oldest pending timeout fires: \<^verbatim>\<open>setIsUploading(false)\<close> reaches the page only
  if the instance that scheduled it is still mounted, and \<^verbatim>\<open>router.push('/')\<close> runs in
  any case.\<close>

definition timer_fires :: "upload_app \<Rightarrow> upload_app" where
  "timer_fires a =
     (case timers a of
        [] \<Rightarrow> a
      | g # gs \<Rightarrow>
          push HomeRoute
            (if g = mount a \<and> location a = UploadRoute
             then a\<lparr>timers := gs, page := (page a)\<lparr>is_uploading := False\<rparr>\<rparr>
             else a\<lparr>timers := gs\<rparr>))"

definition upload_page_step :: "upload_event \<Rightarrow> upload_app \<Rightarrow> upload_app" where
  "upload_page_step e a =
     (case e of
        InputChange fld v \<Rightarrow> a\<lparr>page := handle_input_change fld v (page a)\<rparr>
      | FileChosen fld f \<Rightarrow> a\<lparr>page := handle_file_upload fld f (page a)\<rparr>
      | TagInputChange v \<Rightarrow> a\<lparr>page := (page a)\<lparr>tag_input := v\<rparr>\<rparr>
      | AddTag \<Rightarrow> a\<lparr>page := handle_add_tag (page a)\<rparr>
      | RemoveTag t \<Rightarrow> a\<lparr>page := handle_remove_tag t (page a)\<rparr>
      | Submit \<Rightarrow>
          (if is_uploading (page a) then a
           else case handle_submit a of Inl _ \<Rightarrow> a | Inr a' \<Rightarrow> a')
      | SidebarToggle \<Rightarrow> a\<lparr>page := (page a)\<lparr>sidebar_open := \<not> sidebar_open (page a)\<rparr>\<rparr>
      | SidebarSelect pg \<Rightarrow>
          (if pg \<in> set (sidebar_visible_ids (sidebar_open (page a))) then handle_page_change pg a
           else a))"

text \<open>Page events act only while the upload page is shown; the submit button (and with
  it implicit submission by Enter) is disabled while uploading; the sidebar reports only
  the entries it renders.\<close>

fun upload_step :: "upload_app \<Rightarrow> app_event \<Rightarrow> upload_app" where
  "upload_step a (OnUpload e) = (if location a = UploadRoute then upload_page_step e a else a)"
| "upload_step a TimerFires = timer_fires a"
| "upload_step a (Push r) = push r a"
| "upload_step a (Load r) = full_load r a"

fun upload_run :: "upload_app \<Rightarrow> app_event list \<Rightarrow> upload_app" where
  "upload_run a [] = a"
| "upload_run a (e # es) = upload_run (upload_step a e) es"

definition app_init :: "route \<Rightarrow> upload_app" where
  "app_init r = \<lparr>location = r, page = upload_init, mount = 0, timers = []\<rparr>"

text \<open>The invariant: each mounted instance has at most one pending timeout, the page shows
  \<^verbatim>\<open>isUploading\<close> exactly when its own timeout is pending, and the tags are distinct,
  non-empty and trimmed.\<close>

definition tags_ok :: "string list \<Rightarrow> bool" where
  "tags_ok ts \<longleftrightarrow> distinct ts \<and> (\<forall>t\<in>set ts. t \<noteq> [] \<and> js_trim t = t)"

definition upload_inv :: "upload_app \<Rightarrow> bool" where
  "upload_inv a \<longleftrightarrow> distinct (timers a) \<and> (\<forall>g\<in>set (timers a). g \<le> mount a)
     \<and> (location a = UploadRoute \<longrightarrow> (is_uploading (page a) \<longleftrightarrow> mount a \<in> set (timers a)))
     \<and> tags_ok (tags (form (page a)))"

text \<open>The events that leave the pending timeouts alone: everything but a timeout firing and
  a full document load.\<close>

fun client_event :: "app_event \<Rightarrow> bool" where
  "client_event TimerFires = False"
| "client_event (Load r) = False"
| "client_event e = True"

subsection \<open>Helper facts\<close>

lemma location_push_home [simp]: "location (push HomeRoute a) = HomeRoute"
  by (simp add: push_def)

lemma push_frame [simp]:
  "timers (push r a) = timers a" "mount a \<le> mount (push r a)"
  by (simp_all add: push_def)

lemma tags_input_change [simp]: "tags (form (handle_input_change fld v p)) = tags (form p)"
  by (cases fld) (simp_all add: handle_input_change_def)

lemma tags_file_upload [simp]: "tags (form (handle_file_upload fld f p)) = tags (form p)"
  by (cases fld) (simp_all add: handle_file_upload_def)

lemma upload_inv_init [simp]: "upload_inv (app_init r)"
  by (simp add: upload_inv_def app_init_def upload_init_def tags_ok_def)

lemma upload_inv_push: "upload_inv a \<Longrightarrow> upload_inv (push r a)"
  by (auto simp: upload_inv_def push_def upload_init_def tags_ok_def)

lemma upload_inv_full_load: "upload_inv a \<Longrightarrow> upload_inv (full_load r a)"
  by (simp add: upload_inv_def full_load_def upload_init_def tags_ok_def)

lemma upload_inv_timer_fires: "upload_inv a \<Longrightarrow> upload_inv (timer_fires a)"
proof (cases "timers a")
  case (Cons g gs)
  assume "upload_inv a"
  then have "upload_inv (if g = mount a \<and> location a = UploadRoute
             then a\<lparr>timers := gs, page := (page a)\<lparr>is_uploading := False\<rparr>\<rparr>
             else a\<lparr>timers := gs\<rparr>)"
    using Cons by (auto simp: upload_inv_def)
  then have "upload_inv (push HomeRoute (if g = mount a \<and> location a = UploadRoute
             then a\<lparr>timers := gs, page := (page a)\<lparr>is_uploading := False\<rparr>\<rparr>
             else a\<lparr>timers := gs\<rparr>))"
    by (rule upload_inv_push)
  with Cons show ?thesis by (simp add: timer_fires_def)
qed (simp add: timer_fires_def)

lemma upload_inv_submit:
  "upload_inv a \<Longrightarrow> location a = UploadRoute \<Longrightarrow> \<not> is_uploading (page a) \<Longrightarrow> handle_submit a = Inr a'
   \<Longrightarrow> upload_inv a'"
  by (auto simp: upload_inv_def handle_submit_def split: sum.splits if_splits)

lemma upload_inv_page_step:
  assumes "upload_inv a" "location a = UploadRoute"
  shows "upload_inv (upload_page_step e a)"
proof (cases e)
  case Submit
  with assms upload_inv_submit [OF assms] show ?thesis
    by (auto simp: upload_page_step_def split: sum.splits)
next
  case (SidebarSelect pg)
  have "upload_inv (a\<lparr>page := (page a)\<lparr>current_nav := pg\<rparr>\<rparr>)"
    using assms(1) by (simp add: upload_inv_def)
  with SidebarSelect assms(1) show ?thesis
    by (auto simp: upload_page_step_def handle_page_change_def Let_def intro: upload_inv_push)
qed (use assms in \<open>auto simp: upload_page_step_def upload_inv_def tags_ok_def
       handle_input_change_def handle_file_upload_def handle_add_tag_def handle_remove_tag_def
       split: form_field.splits file_field.splits\<close>)

lemma upload_inv_step: "upload_inv a \<Longrightarrow> upload_inv (upload_step a e)"
  by (cases e) (simp_all add: upload_inv_page_step upload_inv_timer_fires upload_inv_push
      upload_inv_full_load)

lemma upload_inv_run: "upload_inv a \<Longrightarrow> upload_inv (upload_run a es)"
  by (induction es arbitrary: a) (simp_all add: upload_inv_step)

lemma upload_run_append [simp]: "upload_run a (es @ fs) = upload_run (upload_run a es) fs"
  by (induction es arbitrary: a) simp_all

lemma client_event_timers:
  "client_event e \<Longrightarrow> prefix (timers a) (timers (upload_step a e))"
  by (cases e) (auto simp: upload_page_step_def handle_submit_def handle_page_change_def Let_def
      handle_input_change_def handle_file_upload_def handle_add_tag_def handle_remove_tag_def
      split: upload_event.splits sum.splits)

lemma client_run_timers:
  "list_all client_event es \<Longrightarrow> prefix (timers a) (timers (upload_run a es))"
  by (induction es arbitrary: a) (auto intro: prefix_order.trans client_event_timers)


subsection \<open>Properties of the upload page\<close>

text \<open>
  C7.  From any route, after any sequence of page events, navigations and timeouts, each
  instance of the upload page has at most one pending upload timeout, the page shows
  "Uploading..." exactly when its own timeout is pending, and the tags are distinct,
  non-empty and trimmed.
\<close>

theorem upload_invariant: "upload_inv (upload_run (app_init r) es)"
  by (rule upload_inv_run) simp

text \<open>
  C8.  Submitting validates only that title, author and book file are present: the
  submission is rejected, leaving the state unchanged, exactly when one of them is empty;
  otherwise the page shows "Uploading..." and one timeout of this instance is scheduled
  behind the pending ones, so that exactly one of this instance is pending.  A title of
  blanks counts as present.
\<close>

theorem submit_validation:
  assumes "location a = UploadRoute" "\<not> is_uploading (page a)" "upload_inv a"
  shows "(upload_step a (OnUpload Submit) = a
            \<longleftrightarrow> title (form (page a)) = [] \<or> author (form (page a)) = [] \<or> book_file (form (page a)) = None)
         \<and> (is_uploading (page (upload_step a (OnUpload Submit)))
            \<longleftrightarrow> \<not> (title (form (page a)) = [] \<or> author (form (page a)) = [] \<or> book_file (form (page a)) = None))
         \<and> timers (upload_step a (OnUpload Submit)) =
             (if title (form (page a)) = [] \<or> author (form (page a)) = [] \<or> book_file (form (page a)) = None
              then timers a else timers a @ [mount a])
         \<and> count_list (timers (upload_step a (OnUpload Submit))) (mount a) \<le> 1"
proof -
  from assms have "mount a \<notin> set (timers a)" by (simp add: upload_inv_def)
  then have "count_list (timers a) (mount a) = 0" by (simp add: count_list_0_iff)
  with assms show ?thesis
    by (auto simp: upload_page_step_def handle_submit_def validate_upload_def
        dest: arg_cong [where f = "\<lambda>x. length (timers x)"])
qed

theorem submit_validation_witness:
  "is_uploading (page (upload_step (upload_run (app_init UploadRoute)
      [OnUpload (InputChange FTitle ''   ''), OnUpload (InputChange FAuthor ''Ann''),
       OnUpload (FileChosen FBook ''book.pdf'')]) (OnUpload Submit)))"
proof -
  let ?a = "upload_run (app_init UploadRoute)
      [OnUpload (InputChange FTitle ''   ''), OnUpload (InputChange FAuthor ''Ann''),
       OnUpload (FileChosen FBook ''book.pdf'')]"
  have h: "location ?a = UploadRoute" "\<not> is_uploading (page ?a)" "upload_inv ?a"
    by (simp_all add: app_init_def upload_init_def upload_page_step_def handle_input_change_def
        handle_file_upload_def upload_inv_def tags_ok_def)
  have v: "title (form (page ?a)) = ''   ''" "author (form (page ?a)) = ''Ann''"
    "book_file (form (page ?a)) = Some ''book.pdf''"
    by (simp_all add: app_init_def upload_init_def upload_page_step_def handle_input_change_def
        handle_file_upload_def)
  from submit_validation [OF h] v show ?thesis by simp
qed

text \<open>
  C6.  The upload timeout is never cancelled: once one is pending, whatever client
  navigation and page events follow, the next timeout sends the user to the home route,
  even after the upload page has been left (only a full document load drops it).
\<close>

theorem pending_upload_redirects:
  assumes "timers a \<noteq> []" "list_all client_event es"
  shows "location (upload_run a (es @ [TimerFires])) = HomeRoute"
proof -
  from client_run_timers [OF assms(2), of a] assms(1)
  obtain g gs where "timers (upload_run a es) = g # gs"
    by (cases "timers (upload_run a es)") auto
  then show ?thesis by (simp add: timer_fires_def)
qed

theorem pending_upload_redirects_witness:
  "location (upload_run (app_init UploadRoute)
     [OnUpload (InputChange FTitle ''T''), OnUpload (InputChange FAuthor ''A''),
      OnUpload (FileChosen FBook ''b.pdf''), OnUpload Submit, Push ProfileRoute, Push (BookRoute ''1''),
      TimerFires]) = HomeRoute"
proof -
  let ?a = "upload_run (app_init UploadRoute)
     [OnUpload (InputChange FTitle ''T''), OnUpload (InputChange FAuthor ''A''),
      OnUpload (FileChosen FBook ''b.pdf''), OnUpload Submit]"
  have h: "timers ?a \<noteq> []"
    by (simp add: app_init_def upload_init_def upload_page_step_def handle_input_change_def
        handle_file_upload_def handle_submit_def validate_upload_def)
  have c: "list_all client_event [Push ProfileRoute, Push (BookRoute ''1'')]" by simp
  from pending_upload_redirects [OF h c] show ?thesis by simp
qed


lemma timers_timer_fires [simp]: "timers (timer_fires a) = tl (timers a)"
  by (cases "timers a") (simp_all add: timer_fires_def)

lemma timers_fire_n: "timers (upload_run a (replicate n TimerFires)) = drop n (timers a)"
  by (induction n arbitrary: a) (simp_all add: drop_Suc tl_drop)

text \<open>
  C10.  The tag list refines the spec's tag set: on well-formed tags, "Add" inserts the
  trimmed input when it is not blank, and removing a tag deletes exactly that element, so
  the list shrinks by one exactly when the tag was present.
\<close>

theorem tags_refine_set:
  assumes "tags_ok (tags (form p))"
  shows "set (tags (form (handle_add_tag p))) =
           (if js_trim (tag_input p) = [] then set (tags (form p))
            else insert (js_trim (tag_input p)) (set (tags (form p))))
         \<and> set (tags (form (handle_remove_tag t p))) = set (tags (form p)) - {t}
         \<and> length (tags (form (handle_remove_tag t p)))
             = length (tags (form p)) - (if t \<in> set (tags (form p)) then 1 else 0)"
  using assms length_filter_neq_distinct [of "tags (form p)" t]
  by (auto simp: handle_add_tag_def handle_remove_tag_def tags_ok_def)


theorem tags_refine_set_witness:
  "set (tags (form (handle_add_tag (upload_init\<lparr>tag_input := '' sci ''\<rparr>)))) = {''sci''}
   \<and> length (tags (form (handle_remove_tag ''sci''
       (handle_add_tag (upload_init\<lparr>tag_input := '' sci ''\<rparr>))))) = 0"
proof -
  have t: "js_trim '' sci '' = ''sci''" "js_trim ''sci'' = ''sci''" by code_simp+
  have h0: "tags_ok (tags (form (upload_init\<lparr>tag_input := '' sci ''\<rparr>)))"
    by (simp add: upload_init_def tags_ok_def)
  have a: "tags (form (handle_add_tag (upload_init\<lparr>tag_input := '' sci ''\<rparr>))) = [''sci'']"
    using t by (simp add: handle_add_tag_def upload_init_def)
  have h1: "tags_ok (tags (form (handle_add_tag (upload_init\<lparr>tag_input := '' sci ''\<rparr>))))"
    using a t by (simp add: tags_ok_def)
  from tags_refine_set [OF h0] tags_refine_set [OF h1, of "''sci''"] t a show ?thesis by simp
qed

text \<open>
  C9.  Every pending upload completes: after as many timeouts as are pending, none is
  pending and no mounted upload page still shows "Uploading...".
\<close>

theorem uploads_drain:
  assumes "upload_inv a"
  shows "timers (upload_run a (replicate (length (timers a)) TimerFires)) = []
         \<and> \<not> (location (upload_run a (replicate (length (timers a)) TimerFires)) = UploadRoute
              \<and> is_uploading (page (upload_run a (replicate (length (timers a)) TimerFires))))"
proof -
  let ?b = "upload_run a (replicate (length (timers a)) TimerFires)"
  have "timers ?b = []" by (simp add: timers_fire_n)
  moreover have "upload_inv ?b" using assms by (rule upload_inv_run)
  ultimately show ?thesis by (simp add: upload_inv_def)
qed

theorem uploads_drain_witness:
  "timers (upload_run (app_init UploadRoute)
     [OnUpload (InputChange FTitle ''T''), OnUpload (InputChange FAuthor ''A''),
      OnUpload (FileChosen FBook ''b.pdf''), OnUpload Submit, TimerFires]) = []
   \<and> location (upload_run (app_init UploadRoute)
     [OnUpload (InputChange FTitle ''T''), OnUpload (InputChange FAuthor ''A''),
      OnUpload (FileChosen FBook ''b.pdf''), OnUpload Submit, TimerFires]) = HomeRoute"
proof -
  let ?es = "[OnUpload (InputChange FTitle ''T''), OnUpload (InputChange FAuthor ''A''),
      OnUpload (FileChosen FBook ''b.pdf''), OnUpload Submit]"
  let ?a = "upload_run (app_init UploadRoute) ?es"
  have inv: "upload_inv ?a" by (rule upload_inv_run) simp
  have n: "length (timers ?a) = 1"
    by (simp add: app_init_def upload_init_def upload_page_step_def handle_input_change_def
        handle_file_upload_def handle_submit_def validate_upload_def)
  have "timers (upload_run ?a [TimerFires]) = []"
    using uploads_drain [OF inv] n by simp
  moreover have "location (upload_run ?a [TimerFires]) = HomeRoute"
    using n by (cases "timers ?a") (simp_all add: timer_fires_def)
  ultimately show ?thesis by (simp only: upload_run_append [symmetric]) simp
qed

end
