(* ===== verification/Catalog.thy ===== *)
theory Catalog
  imports Js_Builtins
begin

text \<open>
  The book catalog and what the sources compute from it alone.
  \<^item> \<open>book\<close>: a record of \<^verbatim>\<open>src/data/mockData\<close> (not in the sources given: modelled from
    the spec's data model and from the fields that \<^verbatim>\<open>BookGrid.tsx\<close>, \<^verbatim>\<open>BookCard.tsx\<close>,
    \<^verbatim>\<open>SearchResults.tsx\<close> and \<^verbatim>\<open>app/book/[bookId]/page.tsx\<close> read).  The catalog is a
    parameter \<open>cat :: book list\<close> of every operation, so the theorems hold for any
    catalog, not only for the mock one.
  \<^item> \<open>find_book\<close>: \<^verbatim>\<open>mockBooks.find(b => b.id === bookId)\<close> (page.tsx), the first match.
  \<^item> \<open>recommendations\<close>: \<^verbatim>\<open>mockBooks.filter(book => book.id !== currentBookId)\<close>
    (BookRecommendations.tsx).
  \<^item> \<open>format_duration\<close>: the "h:mm" badge of a recommendation, 2.5 minutes per page,
    with \<open>hm_minutes\<close> reading an \<open>h:mm\<close> badge back.
\<close>

record book =
  book_id :: id
  book_title :: string
  book_author :: string
  book_cover_image :: string
  book_description :: string
  book_uploader :: string
  book_uploader_avatar :: string
  book_views :: nat
  book_upload_date :: string
  book_duration :: string
  book_tags :: "string list"
  book_total_pages :: nat
  book_current_page :: "nat option"

definition find_book :: "book list \<Rightarrow> id \<Rightarrow> book option" where
  "find_book cat bid = find (\<lambda>b. book_id b = bid) cat"

definition recommendations :: "book list \<Rightarrow> id \<Rightarrow> book list" where
  "recommendations cat current_id = filter (\<lambda>b. book_id b \<noteq> current_id) cat"

definition pad_start :: "nat \<Rightarrow> char \<Rightarrow> string \<Rightarrow> string" where
  "pad_start n c s = replicate (n - length s) c @ s"

definition duration_of_pages :: "nat \<Rightarrow> nat" where
  "duration_of_pages pages = (pages * 5) div 2"

definition format_duration :: "nat \<Rightarrow> string" where
  "format_duration pages =
     (let minutes = duration_of_pages pages;
          hours = minutes div 60;
          remaining = minutes mod 60
      in if 0 < hours then nat_str hours @ '':'' @ pad_start 2 (CHR ''0'') (nat_str remaining)
         else nat_str minutes @ '':00'')"

definition hm_minutes :: "string \<Rightarrow> nat" where
  "hm_minutes s =
     (let h = takeWhile (\<lambda>c. c \<noteq> CHR '':'') s;
          m = drop 1 (dropWhile (\<lambda>c. c \<noteq> CHR '':'') s)
      in 60 * str_nat h + str_nat m)"

text \<open>
  The page container keeps two numbers for the open book:
  \<^verbatim>\<open>currentPage: book?.currentPage || 1\<close> and \<^verbatim>\<open>totalPages: book?.totalPages || 120\<close>.
  A catalog entry is well formed when its start page does not pass its page count.
\<close>

definition start_page :: "book option \<Rightarrow> nat" where
  "start_page b = or_default (Option.bind b book_current_page) 1"

definition page_count :: "book option \<Rightarrow> nat" where
  "page_count b = or_default (map_option book_total_pages b) 120"

definition book_wf :: "book \<Rightarrow> bool" where
  "book_wf b \<longleftrightarrow> start_page (Some b) \<le> page_count (Some b)"

subsection \<open>Lookup and recommendations\<close>

lemma find_book_Some: "find_book cat bid = Some b \<Longrightarrow> b \<in> set cat \<and> book_id b = bid"
  by (auto simp: find_book_def find_Some_iff)

lemma find_book_None: "find_book cat bid = None \<longleftrightarrow> bid \<notin> book_id ` set cat"
  by (auto simp: find_book_def find_None_iff)

lemma page_count_pos [simp]: "0 < page_count b"
  by (simp add: page_count_def or_default_pos)

lemma start_page_pos [simp]: "0 < start_page b"
  by (simp add: start_page_def or_default_pos)

lemma set_recommendations:
  "set (recommendations cat cur) = {b \<in> set cat. book_id b \<noteq> cur}"
  by (auto simp: recommendations_def)

subsection \<open>Duration badge\<close>

lemma length_nat_str_small: "n < 10 \<Longrightarrow> nat_str n = [digit_char n]"
  by (simp add: nat_str.simps)

lemma colon_notin_nat_str [simp]: "CHR '':'' \<notin> set (nat_str n)"
proof
  assume "CHR '':'' \<in> set (nat_str n)"
  with nat_str_digits obtain d where "d < 10" and eq: "CHR '':'' = digit_char d"
    by blast
  then have "(of_char (CHR '':'') :: nat) = of_char (digit_char d)" by simp
  with \<open>d < 10\<close> show False by (simp add: digit_char_def)
qed

lemma nat_str_not_colon: "x \<in> set (nat_str n) \<Longrightarrow> x \<noteq> CHR '':''"
  using colon_notin_nat_str by metis

lemma takeWhile_not_colon:
  "takeWhile (\<lambda>c. c \<noteq> CHR '':'') (nat_str n @ CHR '':'' # s) = nat_str n"
  by (simp add: takeWhile_append2 [OF nat_str_not_colon])

lemma dropWhile_not_colon:
  "dropWhile (\<lambda>c. c \<noteq> CHR '':'') (nat_str n @ CHR '':'' # s) = CHR '':'' # s"
  by (simp add: dropWhile_append2 [OF nat_str_not_colon])

lemma str_nat_pad_start:
  "str_nat (pad_start k (CHR ''0'') s) = str_nat s"
proof -
  have "str_nat (replicate j (CHR ''0'') @ s) = str_nat s" for j
    by (induction j) (simp_all add: str_nat_def char_digit_def)
  then show ?thesis by (simp add: pad_start_def)
qed


subsection \<open>Properties of the duration badge\<close>

text \<open>
  C27.  A recommendation of at least an hour shows its duration as \<open>h:mm\<close> with the
  minutes padded to two digits; reading the badge back as hours and minutes gives exactly
  the minutes computed from the page count.
\<close>

theorem format_duration_hm_roundtrip:
  assumes "60 \<le> duration_of_pages p"
  shows "hm_minutes (format_duration p) = duration_of_pages p"
proof -
  let ?m = "duration_of_pages p"
  let ?pad = "pad_start 2 (CHR ''0'') (nat_str (?m mod 60))"
  have pos: "0 < ?m div 60" using assms by simp
  have fmt: "format_duration p = nat_str (?m div 60) @ CHR '':'' # ?pad"
    using pos by (simp add: format_duration_def Let_def)
  have "hm_minutes (format_duration p) = 60 * (?m div 60) + ?m mod 60"
    by (simp add: fmt hm_minutes_def takeWhile_not_colon dropWhile_not_colon str_nat_pad_start)
  then show ?thesis by simp
qed

theorem format_duration_hm_roundtrip_witness:
  "60 \<le> duration_of_pages 100 \<and> hm_minutes (format_duration 100) = 250"
proof -
  have h: "60 \<le> duration_of_pages 100" by (simp add: duration_of_pages_def)
  from format_duration_hm_roundtrip [OF h] h show ?thesis by (simp add: duration_of_pages_def)
qed

text \<open>
  The badge is ambiguous: durations under an hour print as \<open>m:00\<close> (minutes
  followed by a literal \<open>:00\<close>) and longer ones as \<open>h:mm\<close>, so a one-page book
  (2 minutes) and a 48-page book (2 hours) both show \<open>2:00\<close>.
\<close>

theorem format_duration_ambiguous:
  "format_duration 1 = format_duration 48 \<and> duration_of_pages 1 \<noteq> duration_of_pages 48"
proof
  show "format_duration 1 = format_duration 48" by code_simp
  show "duration_of_pages 1 \<noteq> duration_of_pages 48" by (simp add: duration_of_pages_def)
qed

end
