(* ===== verification/Numbers.thy ===== *)
theory Numbers
  imports Js_Builtins "HOL-Library.Log_Nat" "HOL-Library.Code_Target_Nat"
begin

text \<open>
  JavaScript numbers as far as the views compute with them.  A double is the pair
  \<open>(m, k)\<close> of an integer mantissa and a binary scale, denoting \<open>m / 2^k\<close>.  Only
  non-negative values occur: view counts and their quotients.
  \<^item> \<open>js_round a b\<close> is the double nearest to the quotient \<open>a / b\<close> of two integers, as
    IEEE 754 division \<^verbatim>\<open>a / b\<close> computes it (both operands are exact doubles below
    \<open>2^53\<close>): the binary exponent \<open>e\<close> of \<open>a / b\<close> (\<open>log2_floor_frac\<close>, from \<open>bitlen\<close>) fixes
    the scale \<open>k = 52 - e\<close> that gives a 53-bit mantissa, which is rounded to nearest with
    ties to even (\<open>rne_div\<close>).  A numeric literal such as \<^verbatim>\<open>0.05\<close> is the same rounding
    of its decimal value (\<open>js_round 1 20\<close>).
  \<^item> \<open>js_mul v x\<close> is \<^verbatim>\<open>v * x\<close> for an integer \<open>v\<close>: the exact product rounded once.
  \<^item> \<open>js_floor\<close> is \<^verbatim>\<open>Math.floor\<close>, and \<open>js_to_fixed1\<close> is \<^verbatim>\<open>toFixed(1)\<close>: ECMAScript takes
    the integer \<open>n\<close> for which \<open>n / 10 - x\<close> is closest to zero, the larger \<open>n\<close> on a
    tie, that is \<open>\<lfloor>10 x + 1/2\<rfloor>\<close> computed exactly on the double's value, and prints it
    with one decimal.
  The main lemmas: the rounding error is at most half a unit in the last place
  (\<open>rne_div_bounds\<close>), a quotient with one exact decimal prints as that decimal
  (\<open>to_fixed1_exact\<close>), and a rounded quotient strictly inside \<open>[K, K + 1)\<close> with enough
  room to the upper end floors to \<open>K\<close> (\<open>js_floor_round\<close>).
\<close>

type_synonym js_num = "int \<times> int"

definition rne_div :: "int \<Rightarrow> int \<Rightarrow> int" where
  "rne_div n d =
     (let f = n div d; r = n mod d in
      if 2 * r < d then f else if d < 2 * r then f + 1 else if even f then f else f + 1)"

definition log2_floor_frac :: "int \<Rightarrow> int \<Rightarrow> int" where
  "log2_floor_frac a b =
     (let l = bitlen a - bitlen b in
      if (if 0 \<le> l then b * 2 ^ nat l \<le> a else b \<le> a * 2 ^ nat (- l)) then l else l - 1)"

definition js_round :: "int \<Rightarrow> int \<Rightarrow> js_num" where
  "js_round a b =
     (if a \<le> 0 then (0, 0)
      else let k = 52 - log2_floor_frac a b in
        if 0 \<le> k then (rne_div (a * 2 ^ nat k) b, k) else (rne_div a (b * 2 ^ nat (- k)), k))"

definition js_mul :: "int \<Rightarrow> js_num \<Rightarrow> js_num" where
  "js_mul v x = (case x of (m, k) \<Rightarrow>
     if 0 \<le> k then js_round (v * m) (2 ^ nat k) else js_round (v * m * 2 ^ nat (- k)) 1)"

definition js_floor :: "js_num \<Rightarrow> int" where
  "js_floor x = (case x of (m, k) \<Rightarrow> if 0 \<le> k then m div 2 ^ nat k else m * 2 ^ nat (- k))"

definition js_to_fixed1 :: "js_num \<Rightarrow> string" where
  "js_to_fixed1 x =
     (let n = (case x of (m, k) \<Rightarrow>
                 if 0 < k then (10 * m + 2 ^ (nat k - 1)) div 2 ^ nat k else 10 * m * 2 ^ nat (- k))
      in nat_str (nat n div 10) @ ''.'' @ nat_str (nat n mod 10))"

subsection \<open>Rounding error and the exponent\<close>

lemma rne_div_bounds:
  assumes "0 < d"
  shows "n div d \<le> rne_div n d \<and> rne_div n d \<le> n div d + 1
         \<and> n - d \<le> 2 * (d * rne_div n d) - n \<and> 2 * (d * rne_div n d) - n \<le> n + d"
proof -
  define f where "f = n div d"
  define r where "r = n mod d"
  have n: "n = d * f + r" and r: "0 \<le> r" "r < d"
    using assms by (simp_all add: f_def r_def)
  have "rne_div n d = f \<or> rne_div n d = f + 1" by (simp add: rne_div_def Let_def f_def)
  moreover have "rne_div n d = f \<Longrightarrow> 2 * r \<le> d"
    by (auto simp: rne_div_def Let_def f_def r_def split: if_splits)
  moreover have "rne_div n d = f + 1 \<Longrightarrow> d \<le> 2 * r"
    by (auto simp: rne_div_def Let_def f_def r_def split: if_splits)
  ultimately show ?thesis using n r unfolding f_def[symmetric] by (auto simp: algebra_simps)
qed

lemma log2_floor_frac_le:
  assumes "0 < b" "a < b * 2 ^ t"
  shows "log2_floor_frac a b \<le> int t"
proof -
  have "b < 2 ^ nat (bitlen b)" using bitlen_bounds [OF assms(1)] by simp
  then have "a < 2 ^ nat (bitlen b) * 2 ^ t"
    using assms(2) by (smt (verit) mult_strict_right_mono zero_less_power)
  then have "a < 2 ^ nat (bitlen b + int t)"
    by (simp add: nat_add_distrib bitlen_nonneg power_add)
  then have "bitlen a \<le> bitlen b + int t"
    by (simp add: bitlen_le_iff_power bitlen_nonneg)
  then show ?thesis by (simp add: log2_floor_frac_def Let_def)
qed
subsection \<open>Rounded quotients\<close>

lemma js_round_scaled:
  assumes "0 < a" "0 < b" "a < b * 2 ^ t" "t \<le> 52"
  obtains k where "52 - int t \<le> k" "js_round a b = (rne_div (a * 2 ^ nat k) b, k)"
proof -
  define k where "k = 52 - log2_floor_frac a b"
  have k: "52 - int t \<le> k" using log2_floor_frac_le [OF assms(2,3)] by (simp add: k_def)
  then have "0 \<le> k" using assms(4) by linarith
  then have "js_round a b = (rne_div (a * 2 ^ nat k) b, k)"
    using assms(1) by (simp add: js_round_def Let_def k_def [symmetric])
  with k show ?thesis by (rule that)
qed

lemma to_fixed1_exact:
  assumes "0 < a" "0 < b" "10 * a = N * b" "a < b * 2 ^ t" "t \<le> 48"
  shows "js_to_fixed1 (js_round a b) = nat_str (nat N div 10) @ ''.'' @ nat_str (nat N mod 10)"
proof -
  have "t \<le> 52" using assms(5) by simp
  then obtain k where k: "52 - int t \<le> k" and r: "js_round a b = (rne_div (a * 2 ^ nat k) b, k)"
    using js_round_scaled [OF assms(1,2,4)] by blast
  have k4: "4 \<le> nat k" using k assms(5) by linarith
  define H where "H = (2::int) ^ (nat k - 1)"
  have "nat k = Suc (nat k - 1)" using k4 by linarith
  then have P: "(2::int) ^ nat k = 2 * H" unfolding H_def by (metis power_Suc)
  have "(2::int) ^ 3 \<le> 2 ^ (nat k - 1)" using k4 by (intro power_increasing) simp_all
  then have H: "8 \<le> H" by (simp add: H_def)
  define m where "m = rne_div (a * (2 * H)) b"
  have e: "a * (2 * H) - b \<le> 2 * (b * m) - a * (2 * H)" "2 * (b * m) - a * (2 * H) \<le> a * (2 * H) + b"
    using rne_div_bounds [OF assms(2), of "a * (2 * H)"] by (simp_all add: m_def)
  have Z: "b * (N * H) = 10 * (a * H)" using assms(3) by (metis mult.assoc mult.commute)
  have eqs: "a * (2 * H) = 2 * (a * H)" "b * (N * (2 * H) - 5) = 2 * (b * (N * H)) - 5 * b"
    "b * (N * (2 * H) + 5) = 2 * (b * (N * H)) + 5 * b" "b * (10 * m) = 10 * (b * m)"
    by (simp_all add: algebra_simps)
  have "b * (N * (2 * H) - 5) \<le> b * (10 * m)" "b * (10 * m) \<le> b * (N * (2 * H) + 5)"
    using e Z eqs by linarith+
  then have lo: "N * (2 * H) - 5 \<le> 10 * m" and hi: "10 * m \<le> N * (2 * H) + 5"
    using assms(2) by (simp_all add: mult_le_cancel_left_pos)
  have "(10 * m + H) div (2 * H) = N"
    using lo hi H by (intro int_div_pos_eq [where r = "10 * m + H - N * (2 * H)"]) (simp_all add: algebra_simps)
  moreover have "0 < k" using k4 by linarith
  ultimately show ?thesis using r P by (simp add: js_to_fixed1_def m_def H_def)
qed

lemma js_floor_round:
  assumes "0 < a" "0 < b" "a < b * 2 ^ t" "t \<le> 52" "K * b \<le> a"
    "b < ((K + 1) * b - a) * 2 ^ (52 - t)"
  shows "js_floor (js_round a b) = K"
proof -
  obtain k where k: "52 - int t \<le> k" and r: "js_round a b = (rne_div (a * 2 ^ nat k) b, k)"
    using js_round_scaled [OF assms(1-4)] by blast
  define P where "P = (2::int) ^ nat k"
  have P0: "0 < P" by (simp add: P_def)
  have "(2::int) ^ (52 - t) \<le> P" unfolding P_def using k by (intro power_increasing) simp_all
  moreover have "0 < (K + 1) * b - a"
    using assms(2,6) by (metis mult_nonpos_nonneg not_less order.strict_trans zero_le_power zero_le_numeral)
  ultimately have "((K + 1) * b - a) * 2 ^ (52 - t) \<le> ((K + 1) * b - a) * P"
    by (intro mult_left_mono) simp_all
  with assms(6) have D: "b < (K + 1) * P * b - a * P" by (simp add: algebra_simps)
  define x where "x = a * P"
  define m where "m = rne_div x b"
  have mb: "x div b \<le> m" "m \<le> x div b + 1"
    using rne_div_bounds [OF assms(2), of x] by (simp_all add: m_def)
  have "(K * P) * b \<le> x" using assms(5) P0 by (simp add: x_def mult.commute mult.left_commute)
  then have "(K * P * b) div b \<le> x div b" using assms(2) by (intro zdiv_mono1)
  then have lo: "K * P \<le> m" using assms(2) mb(1) by simp
  have "b * (x div b) \<le> x" using assms(2) mult_div_mod_eq [of b x] pos_mod_sign [of b x] by linarith
  then have "b * (x div b) < b * ((K + 1) * P - 1)" using D by (simp add: x_def algebra_simps)
  then have "x div b < (K + 1) * P - 1" using assms(2) by (simp add: mult_less_cancel_left_pos)
  then have hi: "m < K * P + P" using mb(2) by (simp add: algebra_simps)
  have "m div P = K" using lo hi by (intro int_div_pos_eq [where r = "m - K * P"]) simp_all
  moreover have "0 \<le> k" using k assms(4) by linarith
  ultimately show ?thesis using r by (simp add: js_floor_def m_def x_def P_def)
qed

text \<open>The literal \<^verbatim>\<open>0.05\<close> is \<open>7205759403792794 / 2^57\<close>, slightly above \<open>1/20\<close>.\<close>

lemma js_round_one_twentieth: "js_round 1 20 = (7205759403792794, 57)"
  by code_simp

text \<open>
  Away from a tie the rounding of \<^verbatim>\<open>toFixed(1)\<close> is the decimal one: when \<open>10 a / b\<close>
  lies strictly within half a unit of \<open>N\<close> and the double has enough bits to spare,
  the printed digits are those of \<open>N\<close>.
\<close>

lemma to_fixed1_near:
  assumes "0 < a" "0 < b" "a < b * 2 ^ t" "t \<le> 48" "5 * b < 2 ^ (51 - t)"
    "(2 * N - 1) * b < 20 * a" "20 * a < (2 * N + 1) * b"
  shows "js_to_fixed1 (js_round a b) = nat_str (nat N div 10) @ ''.'' @ nat_str (nat N mod 10)"
proof -
  have "t \<le> 52" using assms(4) by simp
  then obtain k where k: "52 - int t \<le> k" and r: "js_round a b = (rne_div (a * 2 ^ nat k) b, k)"
    using js_round_scaled [OF assms(1,2,3)] by blast
  have k4: "4 \<le> nat k" using k assms(4) by linarith
  define H where "H = (2::int) ^ (nat k - 1)"
  have "nat k = Suc (nat k - 1)" using k4 by linarith
  then have P: "(2::int) ^ nat k = 2 * H" unfolding H_def by (metis power_Suc)
  have pw: "(2::int) ^ (51 - t) \<le> H" unfolding H_def using k by (intro power_increasing) simp_all
  have H: "5 * b < H" using assms(5) pw by linarith
  define m where "m = rne_div (a * (2 * H)) b"
  have e: "a * (2 * H) - b \<le> 2 * (b * m) - a * (2 * H)" "2 * (b * m) - a * (2 * H) \<le> a * (2 * H) + b"
    using rne_div_bounds [OF assms(2), of "a * (2 * H)"] by (simp_all add: m_def)
  have g1: "1 \<le> 20 * a - (2 * N - 1) * b" and g2: "1 \<le> (2 * N + 1) * b - 20 * a"
    using assms(6,7) by linarith+
  have "H \<le> H * (20 * a - (2 * N - 1) * b)" using g1 H assms(2) by simp
  then have l: "(2 * N - 1) * b * H + 5 * b < 20 * a * H" using H by (simp add: algebra_simps)
  have "H \<le> H * ((2 * N + 1) * b - 20 * a)" using g2 H assms(2) by simp
  then have h: "20 * a * H + 5 * b < (2 * N + 1) * b * H" using H by (simp add: algebra_simps)
  have "b * ((2 * N - 1) * H) < b * (10 * m)" using e l by (simp add: algebra_simps)
  then have lo: "(2 * N - 1) * H < 10 * m" using assms(2) by (simp add: mult_less_cancel_left_pos)
  have "b * (10 * m) < b * ((2 * N + 1) * H)" using e h by (simp add: algebra_simps)
  then have hi: "10 * m < (2 * N + 1) * H" using assms(2) by (simp add: mult_less_cancel_left_pos)
  have "(10 * m + H) div (2 * H) = N"
    using lo hi H assms(2)
    by (intro int_div_pos_eq [where r = "10 * m + H - N * (2 * H)"]) (simp_all add: algebra_simps)
  moreover have "0 < k" using k4 by linarith
  ultimately show ?thesis using r P by (simp add: js_to_fixed1_def m_def H_def)
qed

end
