(* ===== verification/Dates.thy ===== *)
theory Dates
  imports Numbers
begin

text \<open>
  Calendar dates of JavaScript's \<^verbatim>\<open>Date\<close> as the profile page uses them:
  \<^verbatim>\<open>new Date('YYYY-MM-DD').toLocaleDateString('en-US', {year: 'numeric', month: 'long',
  day: 'numeric'})\<close>.  ECMAScript parses a date-only ISO string as midnight UTC
  (\<open>parse_iso_date\<close>, the day number since 1970-01-01; a string of another shape or with
  a month or day out of range is \<^verbatim>\<open>NaN\<close>, printed "Invalid Date"), and
  \<^verbatim>\<open>toLocaleDateString\<close> prints the calendar date of the local time, the time value
  shifted by the offset of the user's time zone (\<open>tz\<close>, minutes east of UTC, an input of
  the model).  Day numbers and civil dates convert by the proleptic Gregorian
  algorithms \<open>days_from_civil\<close> and \<open>civil_from_days\<close> (400-year eras of 146097 days,
  years starting in March).  Years are printed as non-negative numerals: dates before
  year 1 are outside the model.
\<close>

definition is_leap_year :: "int \<Rightarrow> bool" where
  "is_leap_year y \<longleftrightarrow> y mod 4 = 0 \<and> (y mod 100 \<noteq> 0 \<or> y mod 400 = 0)"

definition days_in_month :: "int \<Rightarrow> nat \<Rightarrow> nat" where
  "days_in_month y m =
     (if m = 2 then (if is_leap_year y then 29 else 28)
      else if m \<in> {4, 6, 9, 11} then 30 else 31)"

definition days_from_civil :: "int \<Rightarrow> nat \<Rightarrow> nat \<Rightarrow> int" where
  "days_from_civil y m d =
     (let y' = (if m \<le> 2 then y - 1 else y);
          era = y' div 400;
          yoe = y' mod 400;
          mp = (int m + 9) mod 12;
          doy = (153 * mp + 2) div 5 + int d - 1;
          doe = yoe * 365 + yoe div 4 - yoe div 100 + doy
      in era * 146097 + doe - 719468)"

definition civil_from_days :: "int \<Rightarrow> int \<times> nat \<times> nat" where
  "civil_from_days z =
     (let z' = z + 719468;
          era = z' div 146097;
          doe = z' mod 146097;
          yoe = (doe - doe div 1460 + doe div 36524 - doe div 146096) div 365;
          doy = doe - (365 * yoe + yoe div 4 - yoe div 100);
          mp = (5 * doy + 2) div 153;
          d = doy - (153 * mp + 2) div 5 + 1;
          m = (if mp < 10 then mp + 3 else mp - 9);
          y = yoe + era * 400
      in (if m \<le> 2 then y + 1 else y, nat m, nat d))"

text \<open>Month lengths of the year that starts in March (index 0 is March, 11 is February).\<close>

definition march_month_len :: "int \<Rightarrow> int" where
  "march_month_len mp = (if mp = 11 then 29 else if mp \<in> {1, 3, 6, 8} then 30 else 31)"

definition month_long_name :: "nat \<Rightarrow> string" where
  "month_long_name m =
     [''January'', ''February'', ''March'', ''April'', ''May'', ''June'', ''July'', ''August'',
      ''September'', ''October'', ''November'', ''December''] ! (m - 1)"

definition is_digit :: "char \<Rightarrow> bool" where
  "is_digit c \<longleftrightarrow> CHR ''0'' \<le> c \<and> c \<le> CHR ''9''"

definition iso_date_fields :: "string \<Rightarrow> (int \<times> nat \<times> nat) option" where
  "iso_date_fields s =
     (if length s = 10 \<and> s ! 4 = CHR ''-'' \<and> s ! 7 = CHR ''-''
         \<and> list_all (\<lambda>i. is_digit (s ! i)) [0, 1, 2, 3, 5, 6, 8, 9]
      then let y = int (str_nat (take 4 s)); m = str_nat (js_slice s 5 7); d = str_nat (drop 8 s) in
        if 1 \<le> m \<and> m \<le> 12 \<and> 1 \<le> d \<and> d \<le> days_in_month y m then Some (y, m, d) else None
      else None)"

definition parse_iso_date :: "string \<Rightarrow> int option" where
  "parse_iso_date s = map_option (\<lambda>(y, m, d). days_from_civil y m d) (iso_date_fields s)"

definition local_day :: "int \<Rightarrow> int \<Rightarrow> int" where
  "local_day tz day = (day * 86400000 + tz * 60000) div 86400000"

definition to_locale_date_long :: "int \<Rightarrow> string \<Rightarrow> string" where
  "to_locale_date_long tz s =
     (case parse_iso_date s of
        None \<Rightarrow> ''Invalid Date''
      | Some day \<Rightarrow>
          (case civil_from_days (local_day tz day) of (y, m, d) \<Rightarrow>
             month_long_name m @ '' '' @ nat_str d @ '', '' @ nat_str (nat y)))"

subsection \<open>Day numbers and civil dates\<close>

lemma yoe_recover:
  fixes c q r doy :: int
  assumes c: "0 \<le> c" "c \<le> 3" and q: "0 \<le> q" "q \<le> 24" and r: "0 \<le> r" "r \<le> 3"
    and doy: "0 \<le> doy" "doy < 365 + (if r = 3 \<and> (q \<noteq> 24 \<or> c = 3) then 1 else 0)"
  defines "doe \<equiv> 36524 * c + 1461 * q + 365 * r + doy"
  shows "(doe - doe div 1460 + doe div 36524 - doe div 146096) div 365 = 100 * c + 4 * q + r"
proof (cases "doe = 146096")
  case True
  have "doy \<le> 365" using doy(2) by (simp split: if_splits)
  then have "c = 3" "q = 24" "r = 3" "doy = 365" using True c q r unfolding doe_def by linarith+
  with True show ?thesis by simp
next
  case False
  have d365: "doy \<le> 365" "doy = 365 \<Longrightarrow> r = 3 \<and> (q \<noteq> 24 \<or> c = 3)"
    using doy by (auto split: if_splits)
  have X: "1461 * q + 365 * r + doy < 36524"
  proof (rule ccontr)
    assume "\<not> ?thesis"
    then have "q = 24" "r = 3" "doy = 365" using q r d365(1) by linarith+
    with d365(2) have "c = 3" by simp
    with \<open>q = 24\<close> \<open>r = 3\<close> \<open>doy = 365\<close> False show False by (simp add: doe_def)
  qed
  have C: "doe div 146096 = 0"
    by (rule int_div_pos_eq [where r = doe]) (use X c q r doy in \<open>simp_all add: doe_def\<close>)
  have B: "doe div 36524 = c"
    by (rule int_div_pos_eq [where r = "1461 * q + 365 * r + doy"]) (use X q r doy in \<open>simp_all add: doe_def\<close>)
  define Y where "Y = 24 * c + q + 365 * r + doy"
  define t where "t = Y div 1460"
  have Y: "0 \<le> Y" "Y < 2920" using c q r d365(1) doy(1) by (simp_all add: Y_def)
  have t: "t = 0 \<or> t = 1"
  proof (cases "Y < 1460")
    case True
    then show ?thesis using Y unfolding t_def by (simp add: int_div_pos_eq [where r = Y])
  next
    case False
    then have "Y div 1460 = 1" using Y by (intro int_div_pos_eq [where r = "Y - 1460"]) simp_all
    then show ?thesis by (simp add: t_def)
  qed
  have A: "doe div 1460 = 25 * c + q + t"
    by (rule int_div_pos_eq [where r = "Y mod 1460"]) (use Y in \<open>simp_all add: doe_def t_def Y_def algebra_simps\<close>)
  have "0 \<le> doy - t \<and> doy - t < 365"
  proof (cases "t = 0")
    case True
    then have "Y < 1460" using Y by (simp add: t_def div_eq_0_iff)
    then have "doy \<noteq> 365" using d365(2) c q by (auto simp: Y_def)
    then show ?thesis using True d365(1) doy(1) by simp
  next
    case False
    then have "t = 1" using t by simp
    then have "1460 \<le> Y" using Y by (simp add: t_def div_eq_0_iff) 
    then show ?thesis using \<open>t = 1\<close> d365(1) c q r by (simp add: Y_def)
  qed
  then show ?thesis unfolding A B C
    by (intro int_div_pos_eq [where r = "doy - t"]) (simp_all add: doe_def algebra_simps)
qed

lemma month_recover:
  fixes mp d :: int
  assumes "0 \<le> mp" "mp \<le> 11" "1 \<le> d" "d \<le> march_month_len mp"
  shows "(5 * ((153 * mp + 2) div 5 + d - 1) + 2) div 153 = mp"
proof -
  define R where "R = 5 * ((153 * mp + 2) div 5 + d - 1) + 2 - 153 * mp"
  have "mp \<in> {0, 1, 2, 3, 4, 5, 6, 7, 8, 9, 10, 11}" using assms(1,2) by simp presburger
  then have "0 \<le> R \<and> R < 153" using assms(3,4) by (auto simp: march_month_len_def R_def)
  then show ?thesis by (intro int_div_pos_eq [where r = R]) (simp_all add: R_def)
qed


lemma mod_upto_eq_0:
  fixes x n :: int
  assumes "0 < x" "x \<le> n"
  shows "x mod n = 0 \<longleftrightarrow> x = n"
proof (cases "x = n")
  case False
  then have "x mod n = x" using assms by (intro int_mod_pos_eq [where q = 0]) simp_all
  with False assms show ?thesis by simp
qed simp

lemma era_split:
  fixes yoe :: int
  assumes "0 \<le> yoe" "yoe < 400"
  shows "yoe = 100 * (yoe div 100) + 4 * (yoe mod 100 div 4) + yoe mod 4
    \<and> 0 \<le> yoe div 100 \<and> yoe div 100 \<le> 3 \<and> 0 \<le> yoe mod 100 div 4 \<and> yoe mod 100 div 4 \<le> 24
    \<and> 0 \<le> yoe mod 4 \<and> yoe mod 4 \<le> 3"
proof -
  have d1: "yoe = 100 * (yoe div 100) + yoe mod 100" by simp
  have d2: "yoe mod 100 = 4 * (yoe mod 100 div 4) + yoe mod 4"
    using mult_div_mod_eq [of 4 "yoe mod 100"] by (simp add: mod_mod_cancel)
  have b: "0 \<le> yoe mod 100" "yoe mod 100 < 100" "0 \<le> yoe mod 4" "yoe mod 4 < 4"
    "0 \<le> yoe div 100" "0 \<le> yoe mod 100 div 4" using assms by simp_all
  show ?thesis using d1 d2 b assms by linarith
qed

lemma leap_of_era_year:
  fixes c q r era :: int
  assumes "0 \<le> c" "c \<le> 3" "0 \<le> q" "q \<le> 24" "0 \<le> r" "r \<le> 3"
  shows "is_leap_year (400 * era + (100 * c + 4 * q + r) + 1) \<longleftrightarrow> r = 3 \<and> (q \<noteq> 24 \<or> c = 3)"
proof -
  let ?y = "400 * era + (100 * c + 4 * q + r) + 1"
  have "?y mod 4 = (r + 1) mod 4"
    using mod_mult_self1 [of "r + 1" "100 * era + 25 * c + q" 4] by (simp add: algebra_simps)
  also have "\<dots> = 0 \<longleftrightarrow> r = 3" using assms by (subst mod_upto_eq_0) auto
  finally have m4: "?y mod 4 = 0 \<longleftrightarrow> r = 3" .
  have "?y mod 100 = (4 * q + r + 1) mod 100"
    using mod_mult_self1 [of "4 * q + r + 1" "4 * era + c" 100] by (simp add: algebra_simps)
  also have "\<dots> = 0 \<longleftrightarrow> 4 * q + r + 1 = 100" using assms by (subst mod_upto_eq_0) auto
  finally have m100: "?y mod 100 = 0 \<longleftrightarrow> q = 24 \<and> r = 3" using assms by linarith
  have "?y mod 400 = (100 * c + 4 * q + r + 1) mod 400"
    using mod_mult_self1 [of "100 * c + 4 * q + r + 1" era 400] by (simp add: algebra_simps)
  also have "\<dots> = 0 \<longleftrightarrow> 100 * c + 4 * q + r + 1 = 400" using assms by (subst mod_upto_eq_0) auto
  finally have m400: "?y mod 400 = 0 \<longleftrightarrow> c = 3 \<and> q = 24 \<and> r = 3" using assms by linarith
  show ?thesis unfolding is_leap_year_def m4 m100 m400 by auto
qed

lemma march_month:
  assumes "1 \<le> m" "m \<le> 12"
  defines "mp \<equiv> (int m + 9) mod 12"
  shows "0 \<le> mp \<and> mp \<le> 11 \<and> int m = (if mp < 10 then mp + 3 else mp - 9) \<and> (m \<le> 2 \<longleftrightarrow> 10 \<le> mp)
    \<and> (mp = 11 \<longleftrightarrow> m = 2) \<and> (m \<noteq> 2 \<longrightarrow> int (days_in_month y m) = march_month_len mp)
    \<and> (mp < 11 \<longrightarrow> (153 * mp + 2) div 5 + march_month_len mp \<le> 337)"
proof -
  have "m \<in> {1, 2, 3, 4, 5, 6, 7, 8, 9, 10, 11, 12}" using assms(1,2) by simp presburger
  then show ?thesis unfolding mp_def by (auto simp: days_in_month_def march_month_len_def)
qed

theorem civil_roundtrip:
  assumes m: "1 \<le> m" "m \<le> 12" and d: "1 \<le> d" "d \<le> days_in_month y m"
  shows "civil_from_days (days_from_civil y m d) = (y, m, d)"
proof -
  define y' where "y' = (if m \<le> 2 then y - 1 else y)"
  define era where "era = y' div 400"
  define yoe where "yoe = y' mod 400"
  define mp where "mp = (int m + 9) mod 12"
  define doy where "doy = (153 * mp + 2) div 5 + int d - 1"
  define c where "c = yoe div 100"
  define q where "q = yoe mod 100 div 4"
  define r where "r = yoe mod 4"
  define doe where "doe = 36524 * c + 1461 * q + 365 * r + doy"
  have yoe: "0 \<le> yoe" "yoe < 400" "y' = era * 400 + yoe" by (simp_all add: yoe_def era_def)
  have cqr: "yoe = 100 * c + 4 * q + r" "0 \<le> c" "c \<le> 3" "0 \<le> q" "q \<le> 24" "0 \<le> r" "r \<le> 3"
    using era_split [OF yoe(1,2)] by (simp_all add: c_def q_def r_def)
  have mm: "0 \<le> mp" "mp \<le> 11" "int m = (if mp < 10 then mp + 3 else mp - 9)" "m \<le> 2 \<longleftrightarrow> 10 \<le> mp"
    "mp = 11 \<longleftrightarrow> m = 2" "m \<noteq> 2 \<Longrightarrow> int (days_in_month y m) = march_month_len mp"
    "mp < 11 \<Longrightarrow> (153 * mp + 2) div 5 + march_month_len mp \<le> 337"
    using march_month [OF m, of y] unfolding mp_def by auto
  have leap: "m = 2 \<Longrightarrow> is_leap_year y \<longleftrightarrow> r = 3 \<and> (q \<noteq> 24 \<or> c = 3)"
  proof -
    assume "m = 2"
    then have "y = 400 * era + (100 * c + 4 * q + r) + 1" using yoe(3) cqr(1) by (simp add: y'_def)
    then show ?thesis using leap_of_era_year [OF cqr(2-7), of era] by simp
  qed
  have dlen: "int d \<le> march_month_len mp"
  proof (cases "m = 2")
    case True
    then show ?thesis using d(2) mm(5) by (auto simp: days_in_month_def march_month_len_def split: if_splits)
  qed (use d(2) mm(6) in simp)
  have doy: "0 \<le> doy" "doy < 365 + (if r = 3 \<and> (q \<noteq> 24 \<or> c = 3) then 1 else 0)"
  proof -
    show "0 \<le> doy" using mm(1) d(1) by (simp add: doy_def)
    show "doy < 365 + (if r = 3 \<and> (q \<noteq> 24 \<or> c = 3) then 1 else 0)"
    proof (cases "m = 2")
      case True
      then have "mp = 11" using mm(5) by simp
      with True d(2) leap show ?thesis by (auto simp: doy_def days_in_month_def)
    next
      case False
      then have "mp < 11" using mm(2,5) by simp
      with mm(7) dlen show ?thesis by (simp add: doy_def)
    qed
  qed
  have doe_yoe: "doe = 365 * yoe + yoe div 4 - yoe div 100 + doy"
  proof -
    have "yoe div 4 = 25 * c + q" "yoe div 100 = c" using cqr by linarith+
    then show ?thesis using cqr(1) by (simp add: doe_def)
  qed
  have doe_b: "0 \<le> doe" "doe < 146097"
    using cqr(2-7) doy unfolding doe_def by (auto split: if_splits)
  have Z: "days_from_civil y m d = era * 146097 + doe - 719468"
    by (simp add: days_from_civil_def Let_def y'_def [symmetric] era_def [symmetric] yoe_def [symmetric]
        mp_def [symmetric] doe_yoe doy_def)
  have E: "(era * 146097 + doe) div 146097 = era" "(era * 146097 + doe) mod 146097 = doe"
    using doe_b by (intro int_div_pos_eq [where r = doe] int_mod_pos_eq [where q = era]; simp)+
  have Y: "(doe - doe div 1460 + doe div 36524 - doe div 146096) div 365 = yoe"
    using yoe_recover [OF cqr(2-7) doy] cqr(1) by (simp add: doe_def)
  have D: "doe - (365 * yoe + yoe div 4 - yoe div 100) = doy" using doe_yoe by simp
  have M: "(5 * doy + 2) div 153 = mp" using month_recover [OF mm(1,2) _ dlen] d(1) by (simp add: doy_def)
  have DD: "doy - (153 * mp + 2) div 5 + 1 = int d" by (simp add: doy_def)
  have YY: "yoe + era * 400 = y'" using yoe(3) by simp
  have Z0: "era * 146097 + doe - 719468 + 719468 = era * 146097 + doe" by simp
  show ?thesis
    unfolding civil_from_days_def Z Let_def Z0 E Y D M DD YY mm(3) [symmetric]
    by (simp add: y'_def)
qed

subsection \<open>Time zones\<close>

text \<open>An offset of less than a day moves a UTC midnight to the previous day exactly when it is negative.\<close>

lemma local_day_midnight:
  assumes "-1440 < tz" "tz < 1440"
  shows "local_day tz day = (if tz < 0 then day - 1 else day)"
proof (cases "tz < 0")
  case True
  have "(day * 86400000 + tz * 60000) div 86400000 = day - 1"
    by (rule int_div_pos_eq [where r = "86400000 + tz * 60000"]) (use True assms in \<open>auto simp: algebra_simps\<close>)
  with True show ?thesis by (simp add: local_day_def)
next
  case False
  have "(day * 86400000 + tz * 60000) div 86400000 = day"
    by (rule int_div_pos_eq [where r = "tz * 60000"]) (use False assms in \<open>auto simp: algebra_simps\<close>)
  with False show ?thesis by (simp add: local_day_def)
qed

subsection \<open>Printing a parsed date\<close>

text \<open>
  In UTC \<^verbatim>\<open>toLocaleDateString\<close> of a parsed date-only string prints exactly the
  year, month and day the string names, and "Invalid Date" for a string that is not a
  valid date: day numbers and civil dates convert without loss.
\<close>

theorem utc_date_roundtrip:
  "to_locale_date_long 0 s =
     (case iso_date_fields s of None \<Rightarrow> ''Invalid Date''
      | Some (y, m, d) \<Rightarrow> month_long_name m @ '' '' @ nat_str d @ '', '' @ nat_str (nat y))"
proof (cases "iso_date_fields s")
  case (Some f)
  obtain y m d where f: "f = (y, m, d)" by (cases f) blast
  have "1 \<le> m \<and> m \<le> 12 \<and> 1 \<le> d \<and> d \<le> days_in_month y m"
    using Some f by (auto simp: iso_date_fields_def Let_def split: if_splits)
  then have "civil_from_days (days_from_civil y m d) = (y, m, d)" by (intro civil_roundtrip) auto
  then show ?thesis using Some f by (simp add: to_locale_date_long_def parse_iso_date_def local_day_def)
qed (simp add: to_locale_date_long_def parse_iso_date_def)

theorem utc_date_roundtrip_witness:
  "to_locale_date_long 0 ''2024-02-29'' = ''February 29, 2024''
   \<and> to_locale_date_long 0 ''2023-02-29'' = ''Invalid Date''"
  using utc_date_roundtrip [of "''2024-02-29''"] utc_date_roundtrip [of "''2023-02-29''"] by code_simp

end
