(* ===== verification/Pages.thy ===== *)
theory Pages
  imports Upload Catalog Dates
begin

text \<open>
  The home page (\<^verbatim>\<open>app/page.tsx\<close>) and the profile page (\<^verbatim>\<open>app/profile/page.tsx\<close>).
  Both own a sidebar flag and the sidebar's \<^verbatim>\<open>currentPage\<close>, render book grids
  (\<^verbatim>\<open>components/BookGrid.tsx\<close>: a card per book whose click reports the book's id,
  \<open>grid_ids\<close>) and react to a click by navigating.  A step returns the page's new state
  and its navigation (\<open>nav_effect\<close>): the home page opens a book with a full document
  load (\<^verbatim>\<open>window.location.href\<close>), the profile page with a client push
  (\<^verbatim>\<open>router.push\<close>), and only the profile page's sidebar navigates (to \<^verbatim>\<open>/\<close> for
  its home entry).  The profile's tabs are the uncontrolled Radix \<^verbatim>\<open>Tabs\<close>, whose
  selected tab (\<open>active_tab\<close>) decides which grid is rendered (\<open>profile_tab_panel\<close>).
  The profile's header card (\<open>profile_header\<close>) prints the mock \<^verbatim>\<open>userProfile\<close>
  (\<open>user_profile_data\<close>) with \<^verbatim>\<open>formatNumber\<close> (\<open>format_number\<close>, doubles of theory
  \<open>Numbers\<close>) and \<^verbatim>\<open>formatDate\<close> (\<open>profile_format_date\<close>, theory \<open>Dates\<close>, with the
  user's time-zone offset as input).
\<close>

datatype nav_effect = NoNav | ClientPush route | FullLoad route

definition grid_ids :: "book list \<Rightarrow> id list" where
  "grid_ids books = map book_id books"

subsection \<open>Home page\<close>

record home_page =
  home_sidebar_open :: bool
  home_nav :: string

datatype home_event = HomeToggleSidebar | HomeSelect string | HomeBookClick id

definition home_init :: home_page where
  "home_init = \<lparr>home_sidebar_open = True, home_nav = ''home''\<rparr>"

text \<open>The three grids: "Trending Now", "Recently Added" and "Popular This Week".\<close>

definition home_sections :: "book list \<Rightarrow> book list list" where
  "home_sections cat = [cat, js_slice cat 0 4, js_slice cat 2 6]"

definition home_grid_ids :: "book list \<Rightarrow> id list" where
  "home_grid_ids cat = concat (map grid_ids (home_sections cat))"

fun home_step :: "book list \<Rightarrow> home_page \<Rightarrow> home_event \<Rightarrow> home_page \<times> nav_effect" where
  "home_step cat p HomeToggleSidebar = (p\<lparr>home_sidebar_open := \<not> home_sidebar_open p\<rparr>, NoNav)"
| "home_step cat p (HomeSelect pg) =
     (if pg \<in> set (sidebar_visible_ids (home_sidebar_open p)) then (p\<lparr>home_nav := pg\<rparr>, NoNav)
      else (p, NoNav))"
| "home_step cat p (HomeBookClick bid) =
     (if bid \<in> set (home_grid_ids cat) then (p, FullLoad (BookRoute bid)) else (p, NoNav))"

text \<open>
  The rendered home page: the hero texts, the four featured category tiles of
  \<^verbatim>\<open>featuredCategories\<close> (each printing the constant "42 books"; they have no click
  handler, so \<open>home_event\<close> has no event for them) and the three titled sections with
  their badges and grids.
\<close>

definition featured_categories :: "string list" where
  "featured_categories = [''Trending'', ''New Releases'', ''Top Rated'', ''Popular'']"

record home_view =
  hv_title :: string
  hv_subtitle :: string
  hv_tiles :: "(string \<times> string) list"
  hv_sections :: "(string \<times> string \<times> id list) list"

definition home_view :: "book list \<Rightarrow> home_view" where
  "home_view cat =
     \<lparr>hv_title = ''Welcome to BookTube'',
      hv_subtitle = ''Discover, read, and share amazing books with our community of readers'',
      hv_tiles = map (\<lambda>c. (c, ''42 books'')) featured_categories,
      hv_sections = zip [''Trending Now'', ''Recently Added'', ''Popular This Week'']
        (zip [''Updated hourly'', ''New this week'', ''Most viewed''] (map grid_ids (home_sections cat)))\<rparr>"

subsection \<open>Profile page\<close>

datatype profile_tab = TabBooks | TabLiked | TabSaved | TabPlaylists

record profile_page =
  prof_sidebar_open :: bool
  prof_nav :: string
  is_subscribed :: bool
  active_tab :: profile_tab

datatype profile_event =
    ProfToggleSidebar | ProfSelect string | ProfBookClick id | SubscribeClick | TabClick profile_tab

definition profile_init :: profile_page where
  "profile_init = \<lparr>prof_sidebar_open = True, prof_nav = ''profile'', is_subscribed = False,
     active_tab = TabBooks\<rparr>"

record user_profile =
  upr_name :: string
  upr_avatar :: string
  upr_subscribers :: nat
  upr_total_views :: nat
  upr_books_uploaded :: nat
  upr_joined_date :: string
  upr_bio :: string
  upr_verified :: bool

definition user_profile_data :: user_profile where
  "user_profile_data =
     \<lparr>upr_name = ''BookLover123'', upr_avatar = ''/placeholder-avatar.jpg'', upr_subscribers = 12500,
      upr_total_views = 2450000, upr_books_uploaded = 8, upr_joined_date = ''2022-03-15'',
      upr_bio = ''Passionate about literature and sharing great books with the world. I love classic novels, science fiction, and educational content.'',
      upr_verified = True\<rparr>"

definition tab_books :: "book list \<Rightarrow> profile_tab \<Rightarrow> book list" where
  "tab_books cat t =
     (case t of
        TabBooks \<Rightarrow> filter (\<lambda>b. book_uploader b = upr_name user_profile_data) cat
      | TabLiked \<Rightarrow> js_slice cat 0 3
      | TabSaved \<Rightarrow> js_slice cat 3 6
      | TabPlaylists \<Rightarrow> [])"

fun profile_step :: "book list \<Rightarrow> profile_page \<Rightarrow> profile_event \<Rightarrow> profile_page \<times> nav_effect" where
  "profile_step cat p ProfToggleSidebar = (p\<lparr>prof_sidebar_open := \<not> prof_sidebar_open p\<rparr>, NoNav)"
| "profile_step cat p (ProfSelect pg) =
     (if pg \<in> set (sidebar_visible_ids (prof_sidebar_open p))
      then (p\<lparr>prof_nav := pg\<rparr>, if pg = ''home'' then ClientPush HomeRoute else NoNav)
      else (p, NoNav))"
| "profile_step cat p (ProfBookClick bid) =
     (if bid \<in> set (grid_ids (tab_books cat (active_tab p))) then (p, ClientPush (BookRoute bid))
      else (p, NoNav))"
| "profile_step cat p SubscribeClick = (p\<lparr>is_subscribed := \<not> is_subscribed p\<rparr>, NoNav)"
| "profile_step cat p (TabClick t) = (p\<lparr>active_tab := t\<rparr>, NoNav)"

definition format_number :: "nat \<Rightarrow> string" where
  "format_number num =
     (let x = int num in
      if 1000000 \<le> x then js_to_fixed1 (js_round x 1000000) @ ''M''
      else if 1000 \<le> x then js_to_fixed1 (js_round x 1000) @ ''K''
      else nat_str num)"

definition profile_format_date :: "int \<Rightarrow> string \<Rightarrow> string" where
  "profile_format_date tz date = to_locale_date_long tz date"

record profile_header =
  ph_name :: string
  ph_avatar_fallback :: string
  ph_verified_badge :: bool
  ph_subscribers :: string
  ph_books :: string
  ph_views :: string
  ph_joined :: string
  ph_bio :: string
  ph_subscribe_label :: string
  ph_subscribe_outline :: bool

text \<open>The header card; \<open>tz\<close> is the offset of the user's time zone in minutes east of UTC.\<close>

definition profile_header :: "int \<Rightarrow> profile_page \<Rightarrow> profile_header" where
  "profile_header tz p =
     (let u = user_profile_data in
      \<lparr>ph_name = upr_name u, ph_avatar_fallback = js_char_at (upr_name u) 0,
       ph_verified_badge = upr_verified u,
       ph_subscribers = format_number (upr_subscribers u) @ '' subscribers'',
       ph_books = nat_str (upr_books_uploaded u) @ '' books'',
       ph_views = format_number (upr_total_views u) @ '' views'',
       ph_joined = ''Joined '' @ profile_format_date tz (upr_joined_date u),
       ph_bio = upr_bio u,
       ph_subscribe_label = (if is_subscribed p then ''Subscribed'' else ''Subscribe''),
       ph_subscribe_outline = is_subscribed p\<rparr>)"

datatype tab_content = TabGrid "id list" | NoReadingLists

record tab_panel =
  tp_title :: string
  tp_description :: string
  tp_content :: tab_content

definition profile_tab_panel :: "book list \<Rightarrow> profile_tab \<Rightarrow> tab_panel" where
  "profile_tab_panel cat t =
     (case t of
        TabBooks \<Rightarrow> \<lparr>tp_title = ''Uploaded Books'',
          tp_description = ''Books uploaded by '' @ upr_name user_profile_data,
          tp_content = TabGrid (grid_ids (tab_books cat TabBooks))\<rparr>
      | TabLiked \<Rightarrow> \<lparr>tp_title = ''Liked Books'', tp_description = ''Books you've liked'',
          tp_content = TabGrid (grid_ids (tab_books cat TabLiked))\<rparr>
      | TabSaved \<Rightarrow> \<lparr>tp_title = ''Saved Books'', tp_description = ''Books you've saved for later'',
          tp_content = TabGrid (grid_ids (tab_books cat TabSaved))\<rparr>
      | TabPlaylists \<Rightarrow> \<lparr>tp_title = ''Reading Lists'', tp_description = ''Your custom reading lists'',
          tp_content = NoReadingLists\<rparr>)"

lemma home_view_sections:
  "map (snd \<circ> snd) (hv_sections (home_view cat)) = map grid_ids (home_sections cat)
   \<and> map snd (hv_tiles (home_view cat)) = [''42 books'', ''42 books'', ''42 books'', ''42 books'']"
  by (simp add: home_view_def home_sections_def featured_categories_def)

text \<open>The sections overlap: the third catalog book is shown in all three grids.\<close>

lemma home_third_book_thrice:
  assumes "2 < length cat"
  shows "3 \<le> length (filter (\<lambda>i. i = book_id (cat ! 2)) (home_grid_ids cat))"
proof -
  have one: "1 \<le> length (filter (\<lambda>i. i = book_id (cat ! 2)) (grid_ids xs))"
    if "cat ! 2 \<in> set xs" for xs
  proof -
    have "book_id (cat ! 2) \<in> set (filter (\<lambda>i. i = book_id (cat ! 2)) (grid_ids xs))"
      using that by (simp add: grid_ids_def)
    then show ?thesis by (metis One_nat_def Suc_leI length_pos_if_in_set)
  qed
  have "cat ! 2 \<in> set cat" "cat ! 2 \<in> set (js_slice cat 0 4)" "cat ! 2 \<in> set (js_slice cat 2 6)"
    using assms by (auto simp: js_slice_def in_set_conv_nth intro: exI [of _ 2] exI [of _ 0])
  from one [OF this(1)] one [OF this(2)] one [OF this(3)] show ?thesis
    by (simp add: home_grid_ids_def home_sections_def)
qed

subsection \<open>Properties of the pages\<close>

text \<open>
  C39.  The sidebar navigates only from the profile page's home entry: on the home page
  every sidebar click only moves the highlight, on the profile page only "Home" leaves
  the page, and as mounted the profile and upload pages highlight no sidebar entry, since
  \<^verbatim>\<open>'profile'\<close> and \<^verbatim>\<open>'upload'\<close> are not sidebar ids.
\<close>

theorem sidebar_navigation:
  "snd (home_step cat p (HomeSelect pg)) = NoNav
   \<and> snd (profile_step cat q (ProfSelect pg)) = (if pg = ''home'' then ClientPush HomeRoute else NoNav)
   \<and> sidebar_highlighted True (prof_nav profile_init) = []
   \<and> sidebar_highlighted True (current_nav upload_init) = []"
  by (simp add: profile_init_def upload_init_def sidebar_highlighted_def sidebar_visible_ids_def
      main_nav_items_def library_items_def discover_items_def)

text \<open>
  C40.  For every time zone from UTC-12 to UTC+14 the profile header prints the mock
  profile's numbers as "12.5K subscribers", "2.5M views" and the constant "8 books"
  (whatever the catalog holds for the user), and the join date \<^verbatim>\<open>'2022-03-15'\<close>, parsed
  as midnight UTC, as "Joined March 15, 2022" at or east of UTC but "Joined March 14,
  2022" west of it.
\<close>

theorem profile_header_labels:
  assumes "-720 \<le> tz" "tz \<le> 840"
  shows "ph_subscribers (profile_header tz p) = ''12.5K subscribers''
    \<and> ph_views (profile_header tz p) = ''2.5M views''
    \<and> ph_books (profile_header tz p) = ''8 books''
    \<and> ph_joined (profile_header tz p) =
        (if tz < 0 then ''Joined March 14, 2022'' else ''Joined March 15, 2022'')"
proof -
  have parse: "parse_iso_date ''2022-03-15'' = Some 19066" by code_simp
  have days: "civil_from_days 19065 = (2022, 3, 14)" "civil_from_days 19066 = (2022, 3, 15)"
    by code_simp+
  have nums: "format_number 12500 = ''12.5K''" "format_number 2450000 = ''2.5M''"
    "nat_str 8 = ''8''" "nat_str 14 = ''14''" "nat_str 15 = ''15''" "nat_str 2022 = ''2022''"
    by code_simp+
  have "local_day tz 19066 = (if tz < 0 then 19065 else 19066)"
    using local_day_midnight [of tz 19066] assms by simp
  then show ?thesis
    by (simp add: profile_header_def user_profile_data_def profile_format_date_def
        to_locale_date_long_def parse days nums month_long_name_def)
qed

theorem profile_header_labels_witness:
  "ph_joined (profile_header (-300) profile_init) = ''Joined March 14, 2022''
   \<and> ph_joined (profile_header 60 profile_init) = ''Joined March 15, 2022''"
  using profile_header_labels [of "-300" profile_init] profile_header_labels [of 60 profile_init] by simp



end
