(* ===== verification/Reader.thy ===== *)
theory Reader
  imports Catalog
begin

text \<open>
  Reading progress of the open book and the auto-read timer.
  The state is split over three components of the sources, kept here in one record
  \<open>reader\<close>:
  \<^item> \<^verbatim>\<open>app/book/[bookId]/page.tsx\<close> owns \<^verbatim>\<open>bookState = {currentPage, totalPages}\<close>
    (\<open>current_page\<close>, \<open>total_pages\<close>) and changes it in \<^verbatim>\<open>handleBookPageChange\<close>
    (\<open>page_change\<close>) and in the recommendation callback (\<open>select_recommendation\<close>);
  \<^item> \<^verbatim>\<open>components/BookReader.tsx\<close> owns \<^verbatim>\<open>isReading\<close>, \<^verbatim>\<open>isMuted\<close>,
    \<^verbatim>\<open>readingSpeed\<close> and the \<^verbatim>\<open>setInterval\<close> of its auto-read effect (\<open>interval\<close>),
    with the handlers \<^verbatim>\<open>handlePrevPage\<close>, \<^verbatim>\<open>handleNextPage\<close>, \<^verbatim>\<open>handleAutoRead\<close>;
  \<^item> \<^verbatim>\<open>components/FlipBook.tsx\<close> renders the pages (\<open>flip_book_pages\<close>), disables
    its buttons (\<open>prev_disabled\<close>, \<open>next_disabled\<close>), reports flips
    (\<^verbatim>\<open>onFlip\<close>) and prints \<^verbatim>\<open>Page {currentPage + 1} / {totalPages}\<close>
    (\<open>displayed_page\<close>).
  The installed interval is a \<open>timer\<close> that holds the values its closure captured; a tick
  runs the closure on those values, so a stale interval would act on stale pages.
  React runs the effect again after a render whose dependencies changed: it clears the old
  interval and installs a new one if \<^verbatim>\<open>isReading && !isMuted\<close> (\<open>commit_effect\<close>).
  The dependency \<^verbatim>\<open>onPageChange\<close> is a new closure at every render of the page; when
  it alone changes, the effect installs a timer with the same captured values, which the
  model does not distinguish from keeping the old one (the model has no clock).
  Speech synthesis and toasts are output only and are not modelled.
\<close>

datatype timer = Timer (timer_page: nat) (timer_total: nat) (timer_speed: nat)

record reader =
  reader_book :: id
  reader_title :: string
  current_page :: nat
  total_pages :: nat
  is_reading :: bool
  is_muted :: bool
  reading_speed :: nat
  interval :: "timer option"

datatype reader_event =
    PrevClick
  | NextClick
  | AutoReadClick
  | MuteClick
  | IntervalFires
  | FlipTo nat
  | SelectBook id

definition reader_init :: "book \<Rightarrow> reader" where
  "reader_init b =
     \<lparr>reader_book = book_id b, reader_title = book_title b,
      current_page = start_page (Some b), total_pages = page_count (Some b),
      is_reading = False, is_muted = False, reading_speed = 1, interval = None\<rparr>"

definition page_change :: "nat \<Rightarrow> reader \<Rightarrow> reader" where
  "page_change p s = s\<lparr>current_page := p\<rparr>"

definition handle_prev_page :: "reader \<Rightarrow> reader" where
  "handle_prev_page s = (if 1 < current_page s then page_change (current_page s - 1) s else s)"

definition handle_next_page :: "reader \<Rightarrow> reader" where
  "handle_next_page s =
     (if current_page s < total_pages s then page_change (current_page s + 1) s else s)"

definition prev_disabled :: "reader \<Rightarrow> bool" where
  "prev_disabled s \<longleftrightarrow> current_page s = 0"

definition next_disabled :: "reader \<Rightarrow> bool" where
  "next_disabled s \<longleftrightarrow> int (total_pages s) - 1 \<le> int (current_page s)"

definition handle_auto_read :: "reader \<Rightarrow> reader" where
  "handle_auto_read s = s\<lparr>is_reading := \<not> is_reading s\<rparr>"

definition toggle_mute :: "reader \<Rightarrow> reader" where
  "toggle_mute s = s\<lparr>is_muted := \<not> is_muted s\<rparr>"

definition interval_tick :: "timer \<Rightarrow> reader \<Rightarrow> reader" where
  "interval_tick t s =
     (if timer_page t < timer_total t then page_change (timer_page t + 1) s
      else s\<lparr>is_reading := False\<rparr>)"

definition placeholder_page :: "string \<Rightarrow> nat \<Rightarrow> string" where
  "placeholder_page title i =
     ''Page '' @ nat_str (i + 1) @ '' of '' @ [char_of (34::nat)] @ title @
     [char_of (34::nat), char_of (10::nat), char_of (10::nat)] @
     ''This is a placeholder page. Replace with real book content.''"

definition flip_book_pages :: "string list \<Rightarrow> nat \<Rightarrow> string \<Rightarrow> string list" where
  "flip_book_pages pages page_total title =
     (if pages \<noteq> [] then pages else map (placeholder_page title) [0..<page_total])"

definition select_recommendation :: "book list \<Rightarrow> id \<Rightarrow> reader \<Rightarrow> reader" where
  "select_recommendation cat bid s =
     s\<lparr>current_page := 1, total_pages := page_count (find_book cat bid)\<rparr>"

fun reader_handle :: "book list \<Rightarrow> reader \<Rightarrow> reader_event \<Rightarrow> reader" where
  "reader_handle cat s PrevClick = (if prev_disabled s then s else handle_prev_page s)"
| "reader_handle cat s NextClick = (if next_disabled s then s else handle_next_page s)"
| "reader_handle cat s AutoReadClick = handle_auto_read s"
| "reader_handle cat s MuteClick = toggle_mute s"
| "reader_handle cat s IntervalFires =
     (case interval s of None \<Rightarrow> s | Some t \<Rightarrow> interval_tick t s)"
| "reader_handle cat s (FlipTo i) =
     (if i < length (flip_book_pages [] (total_pages s) (reader_title s)) then page_change i s
      else s)"
| "reader_handle cat s (SelectBook bid) =
     (if bid \<in> set (map book_id (recommendations cat (reader_book s)))
      then select_recommendation cat bid s else s)"

definition auto_read_interval :: "reader \<Rightarrow> timer option" where
  "auto_read_interval s =
     (if is_reading s \<and> \<not> is_muted s
      then Some (Timer (current_page s) (total_pages s) (reading_speed s)) else None)"

definition effect_deps :: "reader \<Rightarrow> bool \<times> bool \<times> nat \<times> nat \<times> nat" where
  "effect_deps s = (is_reading s, is_muted s, current_page s, total_pages s, reading_speed s)"

definition commit_effect :: "reader \<Rightarrow> reader \<Rightarrow> reader" where
  "commit_effect old new =
     (if effect_deps new = effect_deps old then new
      else new\<lparr>interval := auto_read_interval new\<rparr>)"

definition reader_step :: "book list \<Rightarrow> reader \<Rightarrow> reader_event \<Rightarrow> reader" where
  "reader_step cat s e = commit_effect s (reader_handle cat s e)"

fun reader_run :: "book list \<Rightarrow> reader \<Rightarrow> reader_event list \<Rightarrow> reader" where
  "reader_run cat s [] = s"
| "reader_run cat s (e # es) = reader_run cat (reader_step cat s e) es"

inductive reader_reachable :: "book list \<Rightarrow> reader \<Rightarrow> bool" for cat where
  init: "find_book cat bid = Some b \<Longrightarrow> book_wf b \<Longrightarrow> reader_reachable cat (reader_init b)"
| step: "reader_reachable cat s \<Longrightarrow> reader_reachable cat (reader_step cat s e)"

definition reader_inv :: "reader \<Rightarrow> bool" where
  "reader_inv s \<longleftrightarrow>
     0 < total_pages s \<and> current_page s \<le> total_pages s \<and> interval s = auto_read_interval s"

definition displayed_page :: "reader \<Rightarrow> nat" where
  "displayed_page s = current_page s + 1"

definition progress :: "reader \<Rightarrow> rat" where
  "progress s = (of_nat (current_page s) / of_nat (total_pages s)) * 100"

text \<open>
  The channel bar below the book (\<^verbatim>\<open>BookReader.tsx\<close>): the uploader, the first
  character of the name as avatar fallback, a constant statistics line, the subscribe
  button, whose label and dimming follow \<^verbatim>\<open>isSubscribed\<close> (toggled by the button, an
  input here), and the description.  The statistics line is stored in the source as the
  bytes \<open>C3 A2 E2 82 AC C2 A2\<close> between the two counts: the UTF-8 bullet decoded as
  Windows-1252 and encoded again, which renders as three characters.
\<close>

record channel_view =
  ch_uploader :: string
  ch_avatar_fallback :: string
  ch_stats :: string
  ch_subscribe_label :: string
  ch_dimmed :: bool
  ch_description :: string

definition reader_channel :: "book \<Rightarrow> bool \<Rightarrow> channel_view" where
  "reader_channel b subscribed =
     \<lparr>ch_uploader = book_uploader b, ch_avatar_fallback = js_char_at (book_uploader b) 0,
      ch_stats = ''1M subscribers '' @ [CHR 0xC3, CHR 0xA2, CHR 0xE2, CHR 0x82, CHR 0xAC, CHR 0xC2, CHR 0xA2]
                 @ '' 200 books'',
      ch_subscribe_label = (if subscribed then ''Subscribed'' else ''Subscribe''),
      ch_dimmed = subscribed, ch_description = book_description b\<rparr>"

subsection \<open>Handlers\<close>

lemmas reader_defs =
  page_change_def handle_prev_page_def handle_next_page_def prev_disabled_def
  next_disabled_def handle_auto_read_def toggle_mute_def interval_tick_def
  select_recommendation_def

lemma length_flip_book_pages_placeholder [simp]:
  "length (flip_book_pages [] n title) = n"
  by (simp add: flip_book_pages_def)

lemma reader_handle_frame [simp]:
  "interval (reader_handle cat s e) = interval s"
  "reader_book (reader_handle cat s e) = reader_book s"
  "reader_title (reader_handle cat s e) = reader_title s"
  "reading_speed (reader_handle cat s e) = reading_speed s"
  by (cases e; simp add: reader_defs split: option.splits)+

lemma commit_effect_frame [simp]:
  "current_page (commit_effect old new) = current_page new"
  "total_pages (commit_effect old new) = total_pages new"
  "is_reading (commit_effect old new) = is_reading new"
  "is_muted (commit_effect old new) = is_muted new"
  "reading_speed (commit_effect old new) = reading_speed new"
  "reader_book (commit_effect old new) = reader_book new"
  "reader_title (commit_effect old new) = reader_title new"
  by (simp_all add: commit_effect_def)

lemma auto_read_interval_deps:
  "effect_deps s = effect_deps t \<Longrightarrow> auto_read_interval s = auto_read_interval t"
  by (simp add: effect_deps_def auto_read_interval_def)

lemma commit_effect_interval:
  assumes "interval new = interval old" and "interval old = auto_read_interval old"
  shows "interval (commit_effect old new) = auto_read_interval new"
proof (cases "effect_deps new = effect_deps old")
  case True
  then have "auto_read_interval new = auto_read_interval old"
    by (rule auto_read_interval_deps)
  with True assms show ?thesis by (simp add: commit_effect_def)
next
  case False
  then show ?thesis by (simp add: commit_effect_def)
qed

lemma auto_read_interval_commit [simp]:
  "auto_read_interval (commit_effect old new) = auto_read_interval new"
  by (simp add: auto_read_interval_def)

lemma commit_effect_same [simp]: "commit_effect s s = s"
  by (simp add: commit_effect_def)

lemma reader_handle_bounds:
  assumes "reader_inv s"
  shows "0 < total_pages (reader_handle cat s e)
    \<and> current_page (reader_handle cat s e) \<le> total_pages (reader_handle cat s e)"
  using assms
  by (cases e)
    (auto simp: reader_inv_def reader_defs auto_read_interval_def Suc_le_eq split: option.splits)

lemma reader_step_inv: "reader_inv s \<Longrightarrow> reader_inv (reader_step cat s e)"
  using reader_handle_bounds [of s cat e]
    commit_effect_interval [of "reader_handle cat s e" s]
  by (simp add: reader_step_def reader_inv_def)

lemma reader_run_inv: "reader_inv s \<Longrightarrow> reader_inv (reader_run cat s es)"
  by (induction es arbitrary: s) (simp_all add: reader_step_inv)

lemma reader_init_inv: "book_wf b \<Longrightarrow> reader_inv (reader_init b)"
  by (simp add: reader_init_def reader_inv_def book_wf_def auto_read_interval_def)

lemma reader_run_append:
  "reader_run cat s (xs @ ys) = reader_run cat (reader_run cat s xs) ys"
  by (induction xs arbitrary: s) simp_all

subsection \<open>The auto-read interval\<close>

lemma reader_inv_armed:
  "reader_inv s \<Longrightarrow> is_reading s \<Longrightarrow> \<not> is_muted s \<Longrightarrow>
   interval s = Some (Timer (current_page s) (total_pages s) (reading_speed s))"
  by (simp add: reader_inv_def auto_read_interval_def)

lemma reader_inv_idle:
  "reader_inv s \<Longrightarrow> \<not> (is_reading s \<and> \<not> is_muted s) \<Longrightarrow> interval s = None"
  by (auto simp: reader_inv_def auto_read_interval_def)

lemma tick_advances:
  assumes "reader_inv s" "is_reading s" "\<not> is_muted s" "current_page s < total_pages s"
  shows "reader_step cat s IntervalFires =
    s\<lparr>current_page := Suc (current_page s),
      interval := Some (Timer (Suc (current_page s)) (total_pages s) (reading_speed s))\<rparr>"
  using assms reader_inv_armed [OF assms(1-3)]
  by (simp add: reader_step_def commit_effect_def effect_deps_def auto_read_interval_def
      interval_tick_def page_change_def)

lemma tick_stops:
  assumes "reader_inv s" "is_reading s" "\<not> is_muted s" "current_page s = total_pages s"
  shows "reader_step cat s IntervalFires = s\<lparr>is_reading := False, interval := None\<rparr>"
  using assms reader_inv_armed [OF assms(1-3)]
  by (simp add: reader_step_def commit_effect_def effect_deps_def auto_read_interval_def
      interval_tick_def)

lemma tick_idle:
  "reader_inv s \<Longrightarrow> \<not> (is_reading s \<and> \<not> is_muted s) \<Longrightarrow> reader_step cat s IntervalFires = s"
  by (simp add: reader_step_def reader_inv_idle)

lemma ticks_advance:
  assumes "reader_inv s" "is_reading s" "\<not> is_muted s" "k \<le> total_pages s - current_page s"
  shows "reader_run cat s (replicate k IntervalFires) =
    s\<lparr>current_page := current_page s + k,
      interval := Some (Timer (current_page s + k) (total_pages s) (reading_speed s))\<rparr>"
  using assms
proof (induction k arbitrary: s)
  case 0
  then show ?case by (simp add: reader_inv_armed)
next
  case (Suc k)
  let ?s' = "reader_step cat s IntervalFires"
  from Suc.prems have lt: "current_page s < total_pages s" by simp
  have s': "?s' = s\<lparr>current_page := Suc (current_page s),
      interval := Some (Timer (Suc (current_page s)) (total_pages s) (reading_speed s))\<rparr>"
    using Suc.prems(1-3) lt by (rule tick_advances)
  have "reader_inv ?s'" using Suc.prems(1) by (rule reader_step_inv)
  moreover have "is_reading ?s'" "\<not> is_muted ?s'" "k \<le> total_pages ?s' - current_page ?s'"
    using Suc.prems by (simp_all add: s')
  ultimately have "reader_run cat ?s' (replicate k IntervalFires) =
    ?s'\<lparr>current_page := current_page ?s' + k,
      interval := Some (Timer (current_page ?s' + k) (total_pages ?s') (reading_speed ?s'))\<rparr>"
    by (rule Suc.IH)
  then show ?case by (simp add: s')
qed

lemma ticks_idle:
  "reader_inv s \<Longrightarrow> \<not> (is_reading s \<and> \<not> is_muted s) \<Longrightarrow>
   reader_run cat s (replicate m IntervalFires) = s"
  by (induction m) (simp_all add: tick_idle)



subsection \<open>Properties of the reading controller\<close>

text \<open>
  C1.  In every state the book page can reach, the page count is positive, the current page
  does not pass it, and the interval installed by the auto-read effect is exactly the one the
  effect would install for the current state: no interval survives a stop, a mute or a page
  change with stale captured values.
\<close>

theorem reachable_reader_inv: "reader_reachable cat s \<Longrightarrow> reader_inv s"
proof (induction rule: reader_reachable.induct)
  case (init bid b)
  from \<open>book_wf b\<close> show ?case by (rule reader_init_inv)
next
  case (step s e)
  from \<open>reader_inv s\<close> show ?case by (rule reader_step_inv)
qed

theorem reachable_reader_inv_witness:
  "reader_reachable [\<lparr>book_id = ''1'', book_title = ''T'', book_author = ''A'',
      book_cover_image = '''', book_description = '''', book_uploader = ''U'',
      book_uploader_avatar = '''', book_views = 0, book_upload_date = '''', book_duration = '''',
      book_tags = [], book_total_pages = 3, book_current_page = Some 2\<rparr>]
     (reader_init \<lparr>book_id = ''1'', book_title = ''T'', book_author = ''A'',
      book_cover_image = '''', book_description = '''', book_uploader = ''U'',
      book_uploader_avatar = '''', book_views = 0, book_upload_date = '''', book_duration = '''',
      book_tags = [], book_total_pages = 3, book_current_page = Some 2\<rparr>)
   \<and> reader_inv (reader_init \<lparr>book_id = ''1'', book_title = ''T'', book_author = ''A'',
      book_cover_image = '''', book_description = '''', book_uploader = ''U'',
      book_uploader_avatar = '''', book_views = 0, book_upload_date = '''', book_duration = '''',
      book_tags = [], book_total_pages = 3, book_current_page = Some 2\<rparr>)"
proof -
  let ?b = "\<lparr>book_id = ''1'', book_title = ''T'', book_author = ''A'',
      book_cover_image = '''', book_description = '''', book_uploader = ''U'',
      book_uploader_avatar = '''', book_views = 0, book_upload_date = '''', book_duration = '''',
      book_tags = [], book_total_pages = 3, book_current_page = Some 2\<rparr>"
  have "find_book [?b] ''1'' = Some ?b" by (simp add: find_book_def)
  moreover have "book_wf ?b" by (simp add: book_wf_def start_page_def page_count_def)
  ultimately have r: "reader_reachable [?b] (reader_init ?b)" by (rule reader_reachable.init)
  with reachable_reader_inv [OF r] show ?thesis by simp
qed

text \<open>
  C2.  Auto-read terminates.  From a state where auto-read runs (reading, not muted), after
  \<open>total_pages - current_page\<close> ticks the book is at its last page, the next tick stops
  reading and clears the interval, and from then on ticks change nothing.
\<close>

theorem auto_read_finishes:
  assumes "reader_inv s" "is_reading s" "\<not> is_muted s"
  shows "let s' = reader_run cat s (replicate (Suc (total_pages s - current_page s)) IntervalFires)
         in current_page s' = total_pages s \<and> \<not> is_reading s' \<and> interval s' = None
            \<and> (\<forall>m. reader_run cat s' (replicate m IntervalFires) = s')"
proof -
  let ?n = "total_pages s - current_page s"
  let ?s1 = "reader_run cat s (replicate ?n IntervalFires)"
  have le: "current_page s \<le> total_pages s" using assms(1) by (simp add: reader_inv_def)
  have s1: "?s1 = s\<lparr>current_page := total_pages s,
      interval := Some (Timer (total_pages s) (total_pages s) (reading_speed s))\<rparr>"
    using ticks_advance [OF assms, of ?n cat] le by simp
  have inv1: "reader_inv ?s1" using assms(1) by (rule reader_run_inv)
  have stop: "reader_step cat ?s1 IntervalFires = ?s1\<lparr>is_reading := False, interval := None\<rparr>"
    using inv1 assms(2,3) by (intro tick_stops) (simp_all add: s1)
  have snoc: "replicate (Suc ?n) IntervalFires = replicate ?n IntervalFires @ [IntervalFires]"
    by (simp add: replicate_append_same)
  have run: "reader_run cat s (replicate (Suc ?n) IntervalFires) =
      ?s1\<lparr>is_reading := False, interval := None\<rparr>"
    by (simp only: snoc reader_run_append) (simp add: stop)
  have inv2: "reader_inv (?s1\<lparr>is_reading := False, interval := None\<rparr>)"
    using inv1 stop reader_step_inv [of ?s1 cat IntervalFires] by simp
  show ?thesis
    using run ticks_idle [OF inv2] by (simp add: s1)
qed

theorem auto_read_finishes_witness:
  "reader_inv \<lparr>reader_book = ''1'', reader_title = ''T'', current_page = 2, total_pages = 3,
      is_reading = True, is_muted = False, reading_speed = 1, interval = Some (Timer 2 3 1)\<rparr>
   \<and> (let s' = reader_run [] \<lparr>reader_book = ''1'', reader_title = ''T'', current_page = 2,
         total_pages = 3, is_reading = True, is_muted = False, reading_speed = 1,
         interval = Some (Timer 2 3 1)\<rparr> (replicate (Suc (3 - 2)) IntervalFires)
      in current_page s' = 3 \<and> \<not> is_reading s' \<and> interval s' = None
         \<and> (\<forall>m. reader_run [] s' (replicate m IntervalFires) = s'))"
proof -
  let ?r = "\<lparr>reader_book = ''1'', reader_title = ''T'', current_page = 2, total_pages = 3,
      is_reading = True, is_muted = False, reading_speed = 1, interval = Some (Timer 2 3 1)\<rparr>"
  have h: "reader_inv ?r" by (simp add: reader_inv_def auto_read_interval_def)
  have "is_reading ?r" "\<not> is_muted ?r" by simp_all
  from auto_read_finishes [OF h this, of "[]"] h show ?thesis by simp
qed


text \<open>
  Auto-read advances exactly one page per tick: from a reachable state where it runs,
  after \<open>k\<close> ticks with \<open>k\<close> at most the number of pages left, the book is \<open>k\<close> pages
  further and auto-read is still on.
\<close>

theorem ticks_one_page_each:
  assumes "reader_reachable cat s" "is_reading s" "\<not> is_muted s"
    and "k \<le> total_pages s - current_page s"
  shows "current_page (reader_run cat s (replicate k IntervalFires)) = current_page s + k
    \<and> is_reading (reader_run cat s (replicate k IntervalFires))"
  using assms(2) ticks_advance [OF reachable_reader_inv [OF assms(1)] assms(2-4), of cat] by simp

theorem ticks_one_page_each_witness:
  "reader_reachable [\<lparr>book_id = ''1'', book_title = ''T'', book_author = ''A'',
      book_cover_image = '''', book_description = '''', book_uploader = ''U'',
      book_uploader_avatar = '''', book_views = 0, book_upload_date = '''', book_duration = '''',
      book_tags = [], book_total_pages = 3, book_current_page = Some 1\<rparr>]
    \<lparr>reader_book = ''1'', reader_title = ''T'', current_page = 1, total_pages = 3,
      is_reading = True, is_muted = False, reading_speed = 1, interval = Some (Timer 1 3 1)\<rparr>
   \<and> current_page (reader_run [\<lparr>book_id = ''1'', book_title = ''T'', book_author = ''A'',
      book_cover_image = '''', book_description = '''', book_uploader = ''U'',
      book_uploader_avatar = '''', book_views = 0, book_upload_date = '''', book_duration = '''',
      book_tags = [], book_total_pages = 3, book_current_page = Some 1\<rparr>]
    \<lparr>reader_book = ''1'', reader_title = ''T'', current_page = 1, total_pages = 3,
      is_reading = True, is_muted = False, reading_speed = 1, interval = Some (Timer 1 3 1)\<rparr>
      (replicate 2 IntervalFires)) = 1 + 2"
proof -
  let ?b = "\<lparr>book_id = ''1'', book_title = ''T'', book_author = ''A'',
      book_cover_image = '''', book_description = '''', book_uploader = ''U'',
      book_uploader_avatar = '''', book_views = 0, book_upload_date = '''', book_duration = '''',
      book_tags = [], book_total_pages = 3, book_current_page = Some 1\<rparr>"
  let ?r = "\<lparr>reader_book = ''1'', reader_title = ''T'', current_page = 1, total_pages = 3,
      is_reading = True, is_muted = False, reading_speed = 1, interval = Some (Timer 1 3 1)\<rparr>"
  have wf: "book_wf ?b" by (simp add: book_wf_def start_page_def page_count_def)
  have r0: "reader_reachable [?b] (reader_init ?b)"
    by (rule reader_reachable.init [of _ "''1''", OF _ wf]) (simp add: find_book_def)
  have eq: "reader_step [?b] (reader_init ?b) AutoReadClick = ?r"
    by (simp add: reader_step_def reader_init_def start_page_def page_count_def
        handle_auto_read_def commit_effect_def effect_deps_def auto_read_interval_def)
  have r1: "reader_reachable [?b] ?r"
    using reader_reachable.step [OF r0, of AutoReadClick] by (simp only: eq)
  have "is_reading ?r" "\<not> is_muted ?r" "(2::nat) \<le> total_pages ?r - current_page ?r" by simp_all
  from ticks_one_page_each [OF r1 this] r1 show ?thesis by simp
qed

text \<open>
  C12.  Clicking the auto-read button while reading stops it: reading is off, the interval
  is cleared by the effect's cleanup, and no later tick changes the state.
\<close>

theorem stop_cancels_interval:
  assumes "reader_inv s" "is_reading s"
  shows "\<not> is_reading (reader_step cat s AutoReadClick)
    \<and> interval (reader_step cat s AutoReadClick) = None
    \<and> (\<forall>m. reader_run cat (reader_step cat s AutoReadClick) (replicate m IntervalFires)
          = reader_step cat s AutoReadClick)"
proof -
  let ?s' = "reader_step cat s AutoReadClick"
  have off: "\<not> is_reading ?s'"
    by (simp add: reader_step_def handle_auto_read_def assms(2))
  have inv: "reader_inv ?s'" using assms(1) by (rule reader_step_inv)
  from inv off have "interval ?s' = None" by (simp add: reader_inv_idle)
  with off ticks_idle [OF inv] show ?thesis by simp
qed

theorem stop_cancels_interval_witness:
  "reader_inv \<lparr>reader_book = ''1'', reader_title = ''T'', current_page = 1, total_pages = 3,
      is_reading = True, is_muted = False, reading_speed = 1, interval = Some (Timer 1 3 1)\<rparr>
   \<and> \<not> is_reading (reader_step [] \<lparr>reader_book = ''1'', reader_title = ''T'', current_page = 1,
      total_pages = 3, is_reading = True, is_muted = False, reading_speed = 1,
      interval = Some (Timer 1 3 1)\<rparr> AutoReadClick)"
proof -
  let ?r = "\<lparr>reader_book = ''1'', reader_title = ''T'', current_page = 1, total_pages = 3,
      is_reading = True, is_muted = False, reading_speed = 1, interval = Some (Timer 1 3 1)\<rparr>"
  have h: "reader_inv ?r" by (simp add: reader_inv_def auto_read_interval_def)
  from stop_cancels_interval [OF h, of "[]"] h show ?thesis by simp
qed

text \<open>
  C15.  Muting pauses auto-read without stopping it: after the mute click reading is still
  on but no interval is installed; unmuting installs one again for the current page.
\<close>

theorem mute_pauses_auto_read:
  assumes "reader_inv s" "is_reading s" "\<not> is_muted s"
  shows "is_reading (reader_step cat s MuteClick) \<and> interval (reader_step cat s MuteClick) = None
    \<and> interval (reader_step cat (reader_step cat s MuteClick) MuteClick)
        = Some (Timer (current_page s) (total_pages s) (reading_speed s))"
  using assms
  by (simp add: reader_step_def commit_effect_def effect_deps_def auto_read_interval_def
      toggle_mute_def)

theorem mute_pauses_auto_read_witness:
  "reader_inv \<lparr>reader_book = ''1'', reader_title = ''T'', current_page = 1, total_pages = 3,
      is_reading = True, is_muted = False, reading_speed = 1, interval = Some (Timer 1 3 1)\<rparr>
   \<and> interval (reader_step [] \<lparr>reader_book = ''1'', reader_title = ''T'', current_page = 1,
      total_pages = 3, is_reading = True, is_muted = False, reading_speed = 1,
      interval = Some (Timer 1 3 1)\<rparr> MuteClick) = None"
proof -
  let ?r = "\<lparr>reader_book = ''1'', reader_title = ''T'', current_page = 1, total_pages = 3,
      is_reading = True, is_muted = False, reading_speed = 1, interval = Some (Timer 1 3 1)\<rparr>"
  have h: "reader_inv ?r" by (simp add: reader_inv_def auto_read_interval_def)
  from mute_pauses_auto_read [OF h, of "[]"] h show ?thesis by simp
qed


text \<open>
  C16.  The two guards of the next-page action disagree by one.  On the page before the
  last, \<^verbatim>\<open>handleNextPage\<close> (1-based: it moves while \<^verbatim>\<open>currentPage < totalPages\<close>)
  would move to the last page, but FlipBook disables the button there
  (0-based: \<^verbatim>\<open>currentPage >= totalPages - 1\<close>), so the click leaves the state unchanged.
\<close>

theorem next_button_stops_before_last:
  assumes "0 < total_pages s" "Suc (current_page s) = total_pages s"
  shows "current_page (handle_next_page s) = total_pages s \<and> reader_step cat s NextClick = s"
  using assms
  by (simp add: reader_step_def next_disabled_def handle_next_page_def page_change_def)

theorem next_button_stops_before_last_witness:
  "0 < total_pages \<lparr>reader_book = ''1'', reader_title = ''T'', current_page = 2,
      total_pages = 3, is_reading = False, is_muted = False, reading_speed = 1, interval = None\<rparr>
   \<and> Suc (current_page \<lparr>reader_book = ''1'', reader_title = ''T'', current_page = 2,
      total_pages = 3, is_reading = False, is_muted = False, reading_speed = 1, interval = None\<rparr>)
     = total_pages \<lparr>reader_book = ''1'', reader_title = ''T'', current_page = 2,
      total_pages = 3, is_reading = False, is_muted = False, reading_speed = 1, interval = None\<rparr>
   \<and> reader_step [] \<lparr>reader_book = ''1'', reader_title = ''T'', current_page = 2,
      total_pages = 3, is_reading = False, is_muted = False, reading_speed = 1, interval = None\<rparr>
      NextClick
     = \<lparr>reader_book = ''1'', reader_title = ''T'', current_page = 2,
      total_pages = 3, is_reading = False, is_muted = False, reading_speed = 1, interval = None\<rparr>"
proof -
  let ?r = "\<lparr>reader_book = ''1'', reader_title = ''T'', current_page = 2,
      total_pages = 3, is_reading = False, is_muted = False, reading_speed = 1, interval = None\<rparr>"
  have h: "0 < total_pages ?r" "Suc (current_page ?r) = total_pages ?r" by simp_all
  from next_button_stops_before_last [OF h, of "[]"] h show ?thesis by simp
qed

text \<open>
  C17.  A flip reports a 0-based page index (\<^verbatim>\<open>e.data\<close>) that the page stores as it is,
  while the rest of the page treats \<^verbatim>\<open>currentPage\<close> as 1-based: flipping to the first
  sheet sets the current page to 0, outside the range \<open>[1, totalPages]\<close> that
  \<^verbatim>\<open>handlePrevPage\<close> keeps.
\<close>

theorem flip_first_sheet_page_zero:
  "0 < total_pages s \<Longrightarrow> current_page (reader_step cat s (FlipTo 0)) = 0"
  by (simp add: reader_step_def page_change_def)

theorem flip_first_sheet_page_zero_witness:
  "0 < total_pages \<lparr>reader_book = ''1'', reader_title = ''T'', current_page = 2,
      total_pages = 3, is_reading = False, is_muted = False, reading_speed = 1, interval = None\<rparr>
   \<and> current_page (reader_step [] \<lparr>reader_book = ''1'', reader_title = ''T'', current_page = 2,
      total_pages = 3, is_reading = False, is_muted = False, reading_speed = 1, interval = None\<rparr>
      (FlipTo 0)) = 0"
  using flip_first_sheet_page_zero [of "\<lparr>reader_book = ''1'', reader_title = ''T'',
      current_page = 2, total_pages = 3, is_reading = False, is_muted = False,
      reading_speed = 1, interval = None\<rparr>" "[]"]
  by simp

text \<open>
  C18.  Auto-read ends on \<^verbatim>\<open>currentPage = totalPages\<close>, which FlipBook labels with its
  0-based formula \<^verbatim>\<open>currentPage + 1\<close>: the label shows one page more than the book has.
\<close>

theorem auto_read_label_passes_count:
  assumes "reader_inv s" "is_reading s" "\<not> is_muted s"
  shows "displayed_page (reader_run cat s (replicate (total_pages s - current_page s) IntervalFires))
    = Suc (total_pages s)"
proof -
  have "current_page s \<le> total_pages s" using assms(1) by (simp add: reader_inv_def)
  with ticks_advance [OF assms, of "total_pages s - current_page s" cat] show ?thesis
    by (simp add: displayed_page_def)
qed

theorem auto_read_label_passes_count_witness:
  "reader_inv \<lparr>reader_book = ''1'', reader_title = ''T'', current_page = 2, total_pages = 3,
      is_reading = True, is_muted = False, reading_speed = 1, interval = Some (Timer 2 3 1)\<rparr>
   \<and> displayed_page (reader_run [] \<lparr>reader_book = ''1'', reader_title = ''T'',
      current_page = 2, total_pages = 3, is_reading = True, is_muted = False,
      reading_speed = 1, interval = Some (Timer 2 3 1)\<rparr> (replicate (3 - 2) IntervalFires)) = 4"
proof -
  let ?r = "\<lparr>reader_book = ''1'', reader_title = ''T'', current_page = 2, total_pages = 3,
      is_reading = True, is_muted = False, reading_speed = 1, interval = Some (Timer 2 3 1)\<rparr>"
  have h: "reader_inv ?r" by (simp add: reader_inv_def auto_read_interval_def)
  have "is_reading ?r" "\<not> is_muted ?r" by simp_all
  from auto_read_label_passes_count [OF h this, of "[]"] h show ?thesis by simp
qed

text \<open>
  The previous-page action moves one page back from any page after the first and is a
  no-op on page 1 (and on page 0, where FlipBook disables the button).
\<close>

theorem prev_click_page:
  "current_page (reader_step cat s PrevClick) =
     (if 1 < current_page s then current_page s - 1 else current_page s)"
  by (simp add: reader_step_def prev_disabled_def handle_prev_page_def page_change_def)

text \<open>
  C23.  Choosing a recommendation resets the page state to page 1 of the chosen book's page
  count, but the page keeps showing the book it was opened with: its id and title stay, and
  they differ from the chosen book's id.
\<close>

theorem select_recommendation_keeps_book:
  assumes "bid \<in> book_id ` set (recommendations cat (reader_book s))"
  shows "current_page (reader_step cat s (SelectBook bid)) = 1
    \<and> total_pages (reader_step cat s (SelectBook bid)) = page_count (find_book cat bid)
    \<and> reader_book (reader_step cat s (SelectBook bid)) = reader_book s
    \<and> reader_title (reader_step cat s (SelectBook bid)) = reader_title s
    \<and> bid \<noteq> reader_book s"
  using assms
  by (auto simp: reader_step_def select_recommendation_def set_recommendations)

theorem select_recommendation_keeps_book_witness:
  "''2'' \<in> book_id ` set (recommendations [\<lparr>book_id = ''2'', book_title = ''Other'',
      book_author = ''A'', book_cover_image = '''', book_description = '''', book_uploader = ''U'',
      book_uploader_avatar = '''', book_views = 0, book_upload_date = '''', book_duration = '''',
      book_tags = [], book_total_pages = 50, book_current_page = None\<rparr>] ''1'')
   \<and> total_pages (reader_step [\<lparr>book_id = ''2'', book_title = ''Other'',
      book_author = ''A'', book_cover_image = '''', book_description = '''', book_uploader = ''U'',
      book_uploader_avatar = '''', book_views = 0, book_upload_date = '''', book_duration = '''',
      book_tags = [], book_total_pages = 50, book_current_page = None\<rparr>]
      \<lparr>reader_book = ''1'', reader_title = ''T'', current_page = 2, total_pages = 3,
       is_reading = False, is_muted = False, reading_speed = 1, interval = None\<rparr>
      (SelectBook ''2'')) = 50"
proof -
  let ?c = "[\<lparr>book_id = ''2'', book_title = ''Other'',
      book_author = ''A'', book_cover_image = '''', book_description = '''', book_uploader = ''U'',
      book_uploader_avatar = '''', book_views = 0, book_upload_date = '''', book_duration = '''',
      book_tags = [], book_total_pages = 50, book_current_page = None\<rparr>]"
  let ?r = "\<lparr>reader_book = ''1'', reader_title = ''T'', current_page = 2, total_pages = 3,
       is_reading = False, is_muted = False, reading_speed = 1, interval = None\<rparr>"
  have h: "''2'' \<in> book_id ` set (recommendations ?c (reader_book ?r))"
    by (simp add: recommendations_def)
  from select_recommendation_keeps_book [OF h] h show ?thesis
    by (simp add: find_book_def page_count_def)
qed

text \<open>
  The progress bar value \<^verbatim>\<open>(currentPage / totalPages) * 100\<close> stays within
  \<open>[0, 100]\<close> in every state that satisfies the reader invariant.
\<close>

theorem progress_bounds: "reader_inv s \<Longrightarrow> 0 \<le> progress s \<and> progress s \<le> 100"
proof -
  assume inv: "reader_inv s"
  then have pos: "0 < (of_nat (total_pages s) :: rat)"
    and le: "(of_nat (current_page s) :: rat) \<le> of_nat (total_pages s)"
    by (simp_all add: reader_inv_def)
  let ?f = "of_nat (current_page s) / (of_nat (total_pages s) :: rat)"
  from pos le have f1: "?f \<le> 1" by (simp add: divide_le_eq_1)
  have f0: "0 \<le> ?f" by simp
  have "0 \<le> ?f * 100" using f0 by simp
  moreover have "?f * 100 \<le> 100" using mult_right_mono [OF f1, of 100] by simp
  ultimately show ?thesis unfolding progress_def by (rule conjI)
qed

theorem progress_bounds_witness:
  "reader_inv \<lparr>reader_book = ''1'', reader_title = ''T'', current_page = 3, total_pages = 3,
      is_reading = False, is_muted = False, reading_speed = 1, interval = None\<rparr>
   \<and> progress \<lparr>reader_book = ''1'', reader_title = ''T'', current_page = 3, total_pages = 3,
      is_reading = False, is_muted = False, reading_speed = 1, interval = None\<rparr> \<le> 100"
proof -
  have h: "reader_inv \<lparr>reader_book = ''1'', reader_title = ''T'', current_page = 3,
      total_pages = 3, is_reading = False, is_muted = False, reading_speed = 1, interval = None\<rparr>"
    by (simp add: reader_inv_def auto_read_interval_def)
  from progress_bounds [OF h] h show ?thesis by simp
qed

end
