(* ===== verification/Comments.thy ===== *)
theory Comments
  imports Js_Builtins
begin

text \<open>
  The comment thread of the book page.
  \<^item> \<open>comment\<close> is the \<^verbatim>\<open>Comment\<close> interface of \<^verbatim>\<open>components/CommentSection.tsx\<close>;
    its optional fields stay optional: \<^verbatim>\<open>isLiked?\<close>/\<^verbatim>\<open>isDisliked?\<close> are
    \<open>bool option\<close> read through \<open>truthy\<close> and \<^verbatim>\<open>replies?\<close> is a list option read
    through \<open>reply_list\<close> (\<^verbatim>\<open>comment.replies || []\<close>).  Counts are JavaScript numbers,
    here \<open>int\<close>: the handlers subtract without a floor.
  \<^item> \<^verbatim>\<open>app/book/[bookId]/page.tsx\<close> owns the list and changes it in
    \<^verbatim>\<open>handleCommentSubmit\<close>, \<^verbatim>\<open>handleCommentLike\<close>, \<^verbatim>\<open>handleCommentDislike\<close> and
    \<^verbatim>\<open>handleReply\<close>; ids come from \<^verbatim>\<open>Date.now()\<close>, the event's \<open>now\<close>, and the
    timestamp from \<^verbatim>\<open>new Date().toISOString()\<close>, the event's \<open>stamp\<close>.
  \<^item> CommentSection owns the drafts (\<^verbatim>\<open>newComment\<close>, \<^verbatim>\<open>replyingTo\<close>,
    \<^verbatim>\<open>replyContent\<close>) and guards submission with \<^verbatim>\<open>trim()\<close>.
  \<open>thread_step\<close> is one user action on the rendered section: a button that is not rendered
  (a like button of a comment that is not shown, the reply box when no reply is open) cannot
  be clicked, so such an event leaves the state unchanged.
  The abstract view is the spec's three-valued vote with the other readers' counts
  (\<open>vote_of\<close>, \<open>others_likes\<close>, \<open>others_dislikes\<close>).
\<close>

datatype comment = Comment
  (comment_id: id) (comment_author: string) (comment_avatar: string) (comment_content: string)
  (comment_timestamp: string) (likes: int) (dislikes: int)
  (is_liked: "bool option") (is_disliked: "bool option") (replies: "comment list option")

record thread =
  comments :: "comment list"
  new_comment_text :: string
  replying_to :: "id option"
  reply_content :: string

datatype comment_event =
    EditComment string
  | SubmitComment nat string
  | CancelComment
  | LikeClick id
  | DislikeClick id
  | ReplyClick id
  | EditReply string
  | SubmitReply nat string
  | CancelReply

definition reply_list :: "comment \<Rightarrow> comment list" where
  "reply_list c = (case replies c of None \<Rightarrow> [] | Some rs \<Rightarrow> rs)"

definition own_comment :: "id \<Rightarrow> string \<Rightarrow> string \<Rightarrow> comment" where
  "own_comment cid stamp content =
     Comment cid ''You'' ''/placeholder-avatar.jpg'' content stamp 0 0 (Some False) (Some False) None"

definition handle_comment_submit :: "nat \<Rightarrow> string \<Rightarrow> string \<Rightarrow> comment list \<Rightarrow> comment list" where
  "handle_comment_submit now stamp content cs = own_comment (nat_str now) stamp content # cs"

fun toggle_like :: "comment \<Rightarrow> comment" where
  "toggle_like (Comment i a av ct ts l d il idl rs) =
     Comment i a av ct ts (if truthy il then l - 1 else l + 1) (if truthy idl then d - 1 else d)
       (Some (\<not> truthy il)) (Some False) rs"

fun toggle_dislike :: "comment \<Rightarrow> comment" where
  "toggle_dislike (Comment i a av ct ts l d il idl rs) =
     Comment i a av ct ts (if truthy il then l - 1 else l) (if truthy idl then d - 1 else d + 1)
       (Some False) (Some (\<not> truthy idl)) rs"

definition handle_comment_like :: "id \<Rightarrow> comment list \<Rightarrow> comment list" where
  "handle_comment_like cid cs = map_where (\<lambda>c. comment_id c = cid) toggle_like cs"

definition handle_comment_dislike :: "id \<Rightarrow> comment list \<Rightarrow> comment list" where
  "handle_comment_dislike cid cs = map_where (\<lambda>c. comment_id c = cid) toggle_dislike cs"

definition reply_id :: "id \<Rightarrow> nat \<Rightarrow> id" where
  "reply_id cid now = cid @ ''-'' @ nat_str now"

fun add_reply :: "comment \<Rightarrow> comment \<Rightarrow> comment" where
  "add_reply r (Comment i a av ct ts l d il idl rs) =
     Comment i a av ct ts l d il idl (Some ((case rs of None \<Rightarrow> [] | Some xs \<Rightarrow> xs) @ [r]))"

definition handle_reply :: "id \<Rightarrow> nat \<Rightarrow> string \<Rightarrow> string \<Rightarrow> comment list \<Rightarrow> comment list" where
  "handle_reply cid now stamp content cs =
     map_where (\<lambda>c. comment_id c = cid) (add_reply (own_comment (reply_id cid now) stamp content)) cs"

definition card_ids :: "comment list \<Rightarrow> id list" where
  "card_ids cs = map comment_id cs @ concat (map (\<lambda>c. map comment_id (reply_list c)) cs)"

definition handle_submit_comment :: "nat \<Rightarrow> string \<Rightarrow> thread \<Rightarrow> thread" where
  "handle_submit_comment now stamp t =
     (if js_blank (new_comment_text t) then t
      else t\<lparr>comments := handle_comment_submit now stamp (new_comment_text t) (comments t),
             new_comment_text := []\<rparr>)"

definition handle_submit_reply :: "id \<Rightarrow> nat \<Rightarrow> string \<Rightarrow> thread \<Rightarrow> thread" where
  "handle_submit_reply cid now stamp t =
     (if js_blank (reply_content t) then t
      else t\<lparr>comments := handle_reply cid now stamp (reply_content t) (comments t),
             reply_content := [], replying_to := None\<rparr>)"

fun thread_step :: "thread \<Rightarrow> comment_event \<Rightarrow> thread" where
  "thread_step t (EditComment s) = t\<lparr>new_comment_text := s\<rparr>"
| "thread_step t (SubmitComment now stamp) = handle_submit_comment now stamp t"
| "thread_step t CancelComment = t\<lparr>new_comment_text := []\<rparr>"
| "thread_step t (LikeClick cid) =
     (if cid \<in> set (card_ids (comments t))
      then t\<lparr>comments := handle_comment_like cid (comments t)\<rparr> else t)"
| "thread_step t (DislikeClick cid) =
     (if cid \<in> set (card_ids (comments t))
      then t\<lparr>comments := handle_comment_dislike cid (comments t)\<rparr> else t)"
| "thread_step t (ReplyClick cid) =
     (if cid \<in> set (map comment_id (comments t)) then t\<lparr>replying_to := Some cid\<rparr> else t)"
| "thread_step t (EditReply s) =
     (if replying_to t = None then t else t\<lparr>reply_content := s\<rparr>)"
| "thread_step t (SubmitReply now stamp) =
     (case replying_to t of None \<Rightarrow> t | Some cid \<Rightarrow> handle_submit_reply cid now stamp t)"
| "thread_step t CancelReply =
     (if replying_to t = None then t else t\<lparr>replying_to := None, reply_content := []\<rparr>)"

fun thread_run :: "thread \<Rightarrow> comment_event list \<Rightarrow> thread" where
  "thread_run t [] = t"
| "thread_run t (e # es) = thread_run (thread_step t e) es"

definition thread_init :: "comment list \<Rightarrow> thread" where
  "thread_init cs = \<lparr>comments = cs, new_comment_text = [], replying_to = None, reply_content = []\<rparr>"

definition votes_ok :: "int \<Rightarrow> int \<Rightarrow> bool option \<Rightarrow> bool option \<Rightarrow> bool" where
  "votes_ok l d il idl \<longleftrightarrow>
     \<not> (truthy il \<and> truthy idl) \<and> 0 \<le> l \<and> 0 \<le> d
     \<and> (truthy il \<longrightarrow> 1 \<le> l) \<and> (truthy idl \<longrightarrow> 1 \<le> d)"

fun comment_wf :: "comment \<Rightarrow> bool" where
  "comment_wf (Comment i a av ct ts l d il idl rs) \<longleftrightarrow>
     votes_ok l d il idl \<and> (case rs of None \<Rightarrow> True | Some xs \<Rightarrow> list_all comment_wf xs)"

definition thread_wf :: "thread \<Rightarrow> bool" where
  "thread_wf t \<longleftrightarrow> list_all comment_wf (comments t)"

datatype vote = NoVote | Liked | Disliked

definition vote_of :: "comment \<Rightarrow> vote" where
  "vote_of c =
     (if truthy (is_liked c) then Liked else if truthy (is_disliked c) then Disliked else NoVote)"

definition others_likes :: "comment \<Rightarrow> int" where
  "others_likes c = likes c - (if truthy (is_liked c) then 1 else 0)"

definition others_dislikes :: "comment \<Rightarrow> int" where
  "others_dislikes c = dislikes c - (if truthy (is_disliked c) then 1 else 0)"

fun vote_like :: "vote \<Rightarrow> vote" where
  "vote_like Liked = NoVote"
| "vote_like _ = Liked"

fun vote_dislike :: "vote \<Rightarrow> vote" where
  "vote_dislike Disliked = NoVote"
| "vote_dislike _ = Disliked"


text \<open>
  Ids and clocks.  \<open>id_clock\<close> reads the clock value of a generated id, the numeral
  after the last dash (\<^verbatim>\<open>Date.now().toString()\<close> and \<^verbatim>\<open>${commentId}-${Date.now()}\<close>
  both end in one); \<open>ids_fresh n\<close> says that the card ids are distinct and every clock
  value among them is below \<open>n\<close>; \<open>clocks_from n\<close> says that the submissions of a
  run read strictly increasing clocks from \<open>n\<close> on.  \<open>card_blocks\<close> lists the card ids
  comment by comment, a permutation of \<open>card_ids\<close>.
\<close>

definition id_clock :: "id \<Rightarrow> nat option" where
  "id_clock i =
     (let s = rev (takeWhile (\<lambda>c. c \<noteq> CHR ''-'') (rev i)) in
      if is_numeral s then Some (str_nat s) else None)"

definition ids_fresh :: "nat \<Rightarrow> comment list \<Rightarrow> bool" where
  "ids_fresh n cs \<longleftrightarrow> distinct (card_ids cs)
     \<and> (\<forall>i\<in>set (card_ids cs). case id_clock i of None \<Rightarrow> True | Some m \<Rightarrow> m < n)"

fun clocks_from :: "nat \<Rightarrow> comment_event list \<Rightarrow> bool" where
  "clocks_from n [] = True"
| "clocks_from n (SubmitComment now stamp # es) = (n \<le> now \<and> clocks_from (Suc now) es)"
| "clocks_from n (SubmitReply now stamp # es) = (n \<le> now \<and> clocks_from (Suc now) es)"
| "clocks_from n (e # es) = clocks_from n es"

definition card_blocks :: "comment list \<Rightarrow> id list" where
  "card_blocks cs = concat (map (\<lambda>c. comment_id c # map comment_id (reply_list c)) cs)"

subsection \<open>Field equations of the handlers\<close>

lemma toggle_like_fields [simp]:
  "comment_id (toggle_like c) = comment_id c"
  "replies (toggle_like c) = replies c"
  "is_liked (toggle_like c) = Some (\<not> truthy (is_liked c))"
  "is_disliked (toggle_like c) = Some False"
  "likes (toggle_like c) = (if truthy (is_liked c) then likes c - 1 else likes c + 1)"
  "dislikes (toggle_like c) = (if truthy (is_disliked c) then dislikes c - 1 else dislikes c)"
  by (cases c; simp)+

lemma toggle_dislike_fields [simp]:
  "comment_id (toggle_dislike c) = comment_id c"
  "replies (toggle_dislike c) = replies c"
  "is_liked (toggle_dislike c) = Some False"
  "is_disliked (toggle_dislike c) = Some (\<not> truthy (is_disliked c))"
  "likes (toggle_dislike c) = (if truthy (is_liked c) then likes c - 1 else likes c)"
  "dislikes (toggle_dislike c) = (if truthy (is_disliked c) then dislikes c - 1 else dislikes c + 1)"
  by (cases c; simp)+

lemma add_reply_fields [simp]:
  "comment_id (add_reply r c) = comment_id c"
  "likes (add_reply r c) = likes c"
  "dislikes (add_reply r c) = dislikes c"
  "is_liked (add_reply r c) = is_liked c"
  "is_disliked (add_reply r c) = is_disliked c"
  "reply_list (add_reply r c) = reply_list c @ [r]"
  by (cases c; simp add: reply_list_def)+

lemma own_comment_fields [simp]:
  "comment_id (own_comment cid stamp ct) = cid"
  "is_liked (own_comment cid stamp ct) = Some False"
  "is_disliked (own_comment cid stamp ct) = Some False"
  "reply_list (own_comment cid stamp ct) = []"
  by (simp_all add: own_comment_def reply_list_def)

lemma reply_list_toggle [simp]:
  "reply_list (toggle_like c) = reply_list c"
  "reply_list (toggle_dislike c) = reply_list c"
  by (simp_all add: reply_list_def)

lemma map_comment_id_handlers [simp]:
  "map comment_id (handle_comment_like cid cs) = map comment_id cs"
  "map comment_id (handle_comment_dislike cid cs) = map comment_id cs"
  "map comment_id (handle_reply cid now stamp ct cs) = map comment_id cs"
  by (simp_all add: handle_comment_like_def handle_comment_dislike_def handle_reply_def
      map_where_keeps_key)

lemma comment_id_image_handlers [simp]:
  "comment_id ` set (handle_comment_like cid cs) = comment_id ` set cs"
  "comment_id ` set (handle_comment_dislike cid cs) = comment_id ` set cs"
  "comment_id ` set (handle_reply cid now stamp ct cs) = comment_id ` set cs"
  by (metis list.set_map map_comment_id_handlers)+

lemma top_id_card_ids: "cid \<in> set (map comment_id cs) \<Longrightarrow> cid \<in> set (card_ids cs)"
  by (simp add: card_ids_def)

subsection \<open>The vote invariant\<close>

lemma comment_wf_iff:
  "comment_wf c \<longleftrightarrow>
     votes_ok (likes c) (dislikes c) (is_liked c) (is_disliked c) \<and> list_all comment_wf (reply_list c)"
  by (cases c) (simp add: reply_list_def split: option.splits)

lemma comment_wf_toggle_like: "comment_wf c \<Longrightarrow> comment_wf (toggle_like c)"
  by (auto simp: comment_wf_iff votes_ok_def)

lemma comment_wf_toggle_dislike: "comment_wf c \<Longrightarrow> comment_wf (toggle_dislike c)"
  by (auto simp: comment_wf_iff votes_ok_def)

lemma comment_wf_own_comment [simp]: "comment_wf (own_comment cid stamp ct)"
  by (simp add: votes_ok_def own_comment_def)

lemma comment_wf_add_reply: "comment_wf c \<Longrightarrow> comment_wf r \<Longrightarrow> comment_wf (add_reply r c)"
  by (simp add: comment_wf_iff)

lemmas comment_wf_preserved =
  comment_wf_toggle_like comment_wf_toggle_dislike comment_wf_add_reply

lemma thread_step_wf: "thread_wf t \<Longrightarrow> thread_wf (thread_step t e)"
  by (cases e)
    (auto simp: thread_wf_def handle_submit_comment_def handle_comment_submit_def
      handle_comment_like_def handle_comment_dislike_def handle_submit_reply_def handle_reply_def
      comment_wf_preserved intro!: list_all_map_where split: option.splits)

lemma thread_step_nat:
  "length (comments (thread_step t (LikeClick cid))) = length (comments t)"
  "length (comments (thread_step t (DislikeClick cid))) = length (comments t)"
  by (simp_all add: handle_comment_like_def handle_comment_dislike_def)

lemma vote_of_exclusive:
  "\<not> (truthy (is_liked c) \<and> truthy (is_disliked c)) \<Longrightarrow>
   (vote_of c = Liked \<longleftrightarrow> truthy (is_liked c)) \<and> (vote_of c = Disliked \<longleftrightarrow> truthy (is_disliked c))"
  by (auto simp: vote_of_def)


subsection \<open>Properties of the comment thread\<close>

text \<open>
  C3.  Every sequence of user actions keeps every comment and reply well formed: never both
  liked and disliked, counts never negative, and a set flag is always backed by a count of at
  least one.
\<close>

theorem thread_run_wf: "thread_wf t \<Longrightarrow> thread_wf (thread_run t es)"
  by (induction es arbitrary: t) (simp_all add: thread_step_wf)

theorem thread_run_wf_witness:
  "thread_wf (thread_init [Comment ''1'' ''A'' '''' ''hi'' '''' 3 1 None (Some True) None])
   \<and> thread_wf (thread_run (thread_init [Comment ''1'' ''A'' '''' ''hi'' '''' 3 1 None (Some True) None])
       [LikeClick ''1'', ReplyClick ''1'', EditReply ''ok'', SubmitReply 7 ''t''])"
proof -
  have h: "thread_wf (thread_init [Comment ''1'' ''A'' '''' ''hi'' '''' 3 1 None (Some True) None])"
    by (simp add: thread_wf_def thread_init_def votes_ok_def)
  from thread_run_wf [OF h] h show ?thesis by blast
qed

text \<open>
  C4.  Refinement of the like toggle.  On a well-formed comment, \<^verbatim>\<open>handleCommentLike\<close>'s
  update implements the spec's three-valued vote: the reader's vote moves as
  \<open>vote_like\<close> (liked becomes none, anything else becomes liked) and the counts of the
  other readers are unchanged.
\<close>

theorem toggle_like_refines:
  assumes "comment_wf c"
  shows "vote_of (toggle_like c) = vote_like (vote_of c)
    \<and> others_likes (toggle_like c) = others_likes c
    \<and> others_dislikes (toggle_like c) = others_dislikes c"
  using assms by (auto simp: comment_wf_iff votes_ok_def vote_of_def others_likes_def others_dislikes_def)

theorem toggle_like_refines_witness:
  "comment_wf (Comment ''1'' ''A'' '''' ''hi'' '''' 3 1 None (Some True) None)
   \<and> vote_of (toggle_like (Comment ''1'' ''A'' '''' ''hi'' '''' 3 1 None (Some True) None)) = Liked"
proof -
  have h: "comment_wf (Comment ''1'' ''A'' '''' ''hi'' '''' 3 1 None (Some True) None)"
    by (simp add: votes_ok_def)
  from toggle_like_refines [OF h] h show ?thesis by (simp add: vote_of_def)
qed

text \<open>
  Refinement of the dislike toggle, symmetric to C4: the vote moves as
  \<open>vote_dislike\<close> and the other readers' counts are unchanged.
\<close>

theorem toggle_dislike_refines:
  assumes "comment_wf c"
  shows "vote_of (toggle_dislike c) = vote_dislike (vote_of c)
    \<and> others_likes (toggle_dislike c) = others_likes c
    \<and> others_dislikes (toggle_dislike c) = others_dislikes c"
  using assms by (auto simp: comment_wf_iff votes_ok_def vote_of_def others_likes_def others_dislikes_def)

theorem toggle_dislike_refines_witness:
  "comment_wf (Comment ''1'' ''A'' '''' ''hi'' '''' 3 0 (Some True) None None)
   \<and> vote_of (toggle_dislike (Comment ''1'' ''A'' '''' ''hi'' '''' 3 0 (Some True) None None))
     = Disliked"
proof -
  have h: "comment_wf (Comment ''1'' ''A'' '''' ''hi'' '''' 3 0 (Some True) None None)"
    by (simp add: votes_ok_def)
  from toggle_dislike_refines [OF h] h show ?thesis by (simp add: vote_of_def)
qed

text \<open>
  C13.  Submitting a comment whose draft is not blank puts the new comment, with a fresh
  decimal id from the clock and no votes, at position 0, shifts the others by one, and
  clears the draft.
\<close>

theorem submit_comment_at_head:
  assumes "\<not> js_blank (new_comment_text t)"
  shows "let t' = thread_step t (SubmitComment now stamp) in
    comments t' ! 0 = own_comment (nat_str now) stamp (new_comment_text t)
    \<and> (\<forall>i < length (comments t). comments t' ! Suc i = comments t ! i)
    \<and> length (comments t') = Suc (length (comments t))
    \<and> new_comment_text t' = []"
  using assms by (simp add: handle_submit_comment_def handle_comment_submit_def)

theorem submit_comment_at_head_witness:
  "\<not> js_blank ''hello''
   \<and> comments (thread_step \<lparr>comments = [], new_comment_text = ''hello'', replying_to = None,
       reply_content = []\<rparr> (SubmitComment 42 ''t'')) ! 0 = own_comment (nat_str 42) ''t'' ''hello''"
proof -
  have h: "\<not> js_blank (new_comment_text \<lparr>comments = [], new_comment_text = ''hello'',
      replying_to = None, reply_content = []\<rparr>)"
    by (simp add: js_blank_iff is_js_space_def)
  from submit_comment_at_head [OF h, of 42 "''t''"] h show ?thesis by (simp add: Let_def)
qed

text \<open>
  Submitting a reply that is not blank appends it at the end of the reply list of the
  comment being replied to (oldest first), leaves every other comment's replies and the
  order of the comments unchanged, and closes the reply box.
\<close>

theorem reply_appended_last:
  assumes "replying_to t = Some cid" "\<not> js_blank (reply_content t)" "i < length (comments t)"
  shows "let t' = thread_step t (SubmitReply now stamp) in
    length (comments t') = length (comments t)
    \<and> comment_id (comments t' ! i) = comment_id (comments t ! i)
    \<and> reply_list (comments t' ! i) =
        (if comment_id (comments t ! i) = cid
         then reply_list (comments t ! i) @ [own_comment (reply_id cid now) stamp (reply_content t)]
         else reply_list (comments t ! i))
    \<and> replying_to t' = None \<and> reply_content t' = []"
  using assms by (simp add: handle_submit_reply_def handle_reply_def)

theorem reply_appended_last_witness:
  "replying_to \<lparr>comments = [Comment ''1'' ''A'' '''' ''hi'' '''' 0 0 None None None],
      new_comment_text = [], replying_to = Some ''1'', reply_content = ''ok''\<rparr> = Some ''1''
   \<and> \<not> js_blank ''ok''
   \<and> reply_list (comments (thread_step \<lparr>comments = [Comment ''1'' ''A'' '''' ''hi'' '''' 0 0 None None None],
      new_comment_text = [], replying_to = Some ''1'', reply_content = ''ok''\<rparr> (SubmitReply 5 ''t'')) ! 0)
     = [own_comment (reply_id ''1'' 5) ''t'' ''ok'']"
proof -
  let ?t = "\<lparr>comments = [Comment ''1'' ''A'' '''' ''hi'' '''' 0 0 None None None],
      new_comment_text = [], replying_to = Some ''1'', reply_content = ''ok''\<rparr>"
  have h: "replying_to ?t = Some ''1''" "\<not> js_blank (reply_content ?t)" "0 < length (comments ?t)"
    by (simp_all add: js_blank_iff is_js_space_def)
  from reply_appended_last [OF h, of 5 "''t''"] h show ?thesis by (simp add: Let_def reply_list_def)
qed

text \<open>
  C14.  The spec's like-then-dislike scenario: on a shown comment with no vote of the
  reader, a like click followed by a dislike click leaves it disliked and not liked, with
  the like count back at its baseline and the dislike count one above it.
\<close>

theorem like_then_dislike:
  assumes "i < length (comments t)" "comment_id (comments t ! i) = cid"
    and "\<not> truthy (is_liked (comments t ! i))" "\<not> truthy (is_disliked (comments t ! i))"
  shows "let c' = comments (thread_run t [LikeClick cid, DislikeClick cid]) ! i in
    \<not> truthy (is_liked c') \<and> truthy (is_disliked c')
    \<and> likes c' = likes (comments t ! i) \<and> dislikes c' = dislikes (comments t ! i) + 1"
proof -
  have top: "cid \<in> set (map comment_id (comments t))"
    using assms(1,2) by (metis length_map nth_map nth_mem)
  let ?t1 = "thread_step t (LikeClick cid)"
  have c0: "cid \<in> set (card_ids (comments t))" by (rule top_id_card_ids [OF top])
  have t1: "?t1 = t\<lparr>comments := handle_comment_like cid (comments t)\<rparr>"
    using c0 by simp
  have top1: "cid \<in> set (card_ids (comments ?t1))"
    using top by (intro top_id_card_ids) (simp add: t1)
  have t2: "comments (thread_step ?t1 (DislikeClick cid)) =
      handle_comment_dislike cid (handle_comment_like cid (comments t))"
    using top1 [unfolded t1] unfolding t1 by simp
  have run: "comments (thread_run t [LikeClick cid, DislikeClick cid]) =
      handle_comment_dislike cid (handle_comment_like cid (comments t))"
    by (simp only: thread_run.simps t2)
  show ?thesis
    unfolding Let_def run
    using assms by (simp add: handle_comment_like_def handle_comment_dislike_def)
qed

theorem like_then_dislike_witness:
  "comment_id ([Comment ''1'' ''A'' '''' ''hi'' '''' 3 1 None None None] ! 0) = ''1''
   \<and> (let c' = comments (thread_run (thread_init [Comment ''1'' ''A'' '''' ''hi'' '''' 3 1 None None None])
        [LikeClick ''1'', DislikeClick ''1'']) ! 0 in likes c' = 3 \<and> dislikes c' = 2)"
proof -
  let ?t = "thread_init [Comment ''1'' ''A'' '''' ''hi'' '''' 3 1 None None None]"
  have h: "0 < length (comments ?t)" "comment_id (comments ?t ! 0) = ''1''"
    "\<not> truthy (is_liked (comments ?t ! 0))" "\<not> truthy (is_disliked (comments ?t ! 0))"
    by (simp_all add: thread_init_def)
  from like_then_dislike [OF h] show ?thesis by (simp add: thread_init_def Let_def)
qed

text \<open>
  C20.  Replies are rendered with like and dislike buttons, but the page's handlers only
  look for the id among the top-level comments: a click on a reply's button changes nothing.
\<close>

theorem vote_on_reply_ignored:
  assumes "cid \<in> set (concat (map (\<lambda>c. map comment_id (reply_list c)) (comments t)))"
    and "cid \<notin> set (map comment_id (comments t))"
  shows "thread_step t (LikeClick cid) = t \<and> thread_step t (DislikeClick cid) = t"
proof -
  have "\<forall>c\<in>set (comments t). comment_id c \<noteq> cid" using assms(2) by auto
  then have "handle_comment_like cid (comments t) = comments t"
    "handle_comment_dislike cid (comments t) = comments t"
    by (simp_all add: handle_comment_like_def handle_comment_dislike_def map_where_no_match)
  then show ?thesis by simp
qed

theorem vote_on_reply_ignored_witness:
  "''1-5'' \<in> set (concat (map (\<lambda>c. map comment_id (reply_list c))
      [Comment ''1'' ''A'' '''' ''hi'' '''' 0 0 None None (Some [own_comment ''1-5'' ''t'' ''ok''])]))
   \<and> ''1-5'' \<notin> set (map comment_id
      [Comment ''1'' ''A'' '''' ''hi'' '''' 0 0 None None (Some [own_comment ''1-5'' ''t'' ''ok''])])
   \<and> thread_step (thread_init
      [Comment ''1'' ''A'' '''' ''hi'' '''' 0 0 None None (Some [own_comment ''1-5'' ''t'' ''ok''])])
      (LikeClick ''1-5'')
     = thread_init
      [Comment ''1'' ''A'' '''' ''hi'' '''' 0 0 None None (Some [own_comment ''1-5'' ''t'' ''ok''])]"
proof -
  let ?t = "thread_init
      [Comment ''1'' ''A'' '''' ''hi'' '''' 0 0 None None (Some [own_comment ''1-5'' ''t'' ''ok''])]"
  have h: "''1-5'' \<in> set (concat (map (\<lambda>c. map comment_id (reply_list c)) (comments ?t)))"
    "''1-5'' \<notin> set (map comment_id (comments ?t))"
    by (simp_all add: thread_init_def reply_list_def)
  from vote_on_reply_ignored [OF h] h show ?thesis by (simp add: thread_init_def)
qed

text \<open>
  C21.  Blank drafts are rejected: submitting a comment or a reply whose text is empty or
  white space only changes nothing, neither the list nor the drafts.
\<close>

theorem blank_submissions_rejected:
  "(js_blank (new_comment_text t) \<longrightarrow> thread_step t (SubmitComment now stamp) = t)
   \<and> (js_blank (reply_content t) \<longrightarrow> thread_step t (SubmitReply now stamp) = t)"
  by (simp add: handle_submit_comment_def handle_submit_reply_def split: option.splits)

theorem blank_submissions_rejected_witness:
  "js_blank ''  '' \<and> thread_step \<lparr>comments = [], new_comment_text = ''  '', replying_to = None,
      reply_content = []\<rparr> (SubmitComment 1 ''t'')
    = \<lparr>comments = [], new_comment_text = ''  '', replying_to = None, reply_content = []\<rparr>"
proof -
  have h: "js_blank (new_comment_text \<lparr>comments = [], new_comment_text = ''  '',
      replying_to = None, reply_content = []\<rparr>)"
    by (simp add: js_blank_iff is_js_space_def)
  with blank_submissions_rejected [of "\<lparr>comments = [], new_comment_text = ''  '',
      replying_to = None, reply_content = []\<rparr>" 1 "''t''"] show ?thesis by simp
qed

subsection \<open>Distinct ids\<close>

lemma takeWhile_no_dash: "takeWhile (\<lambda>c. c \<noteq> CHR ''-'') (rev (nat_str m) @ xs) = rev (nat_str m) @ takeWhile (\<lambda>c. c \<noteq> CHR ''-'') xs"
  by (rule takeWhile_append2) (metis dash_notin_nat_str set_rev)

lemma id_clock_nat_str [simp]: "id_clock (nat_str m) = Some m"
proof -
  have t: "takeWhile (\<lambda>c. c \<noteq> CHR ''-'') (rev (nat_str m)) = rev (nat_str m)"
    using takeWhile_no_dash [of m "[]"] by simp
  show ?thesis unfolding id_clock_def Let_def t by simp
qed

lemma id_clock_reply_id [simp]: "id_clock (reply_id cid m) = Some m"
proof -
  have "takeWhile (\<lambda>c. c \<noteq> CHR ''-'') (rev (nat_str m) @ CHR ''-'' # rev cid) = rev (nat_str m)"
    using takeWhile_no_dash [of m "CHR ''-'' # rev cid"] by simp
  then show ?thesis by (simp add: id_clock_def reply_id_def)
qed

lemma card_blocks_set_length:
  "set (card_blocks cs) = set (card_ids cs) \<and> length (card_blocks cs) = length (card_ids cs)"
  by (induction cs) (auto simp: card_blocks_def card_ids_def)

lemma distinct_card_blocks: "distinct (card_blocks cs) = distinct (card_ids cs)"
  using card_blocks_set_length [of cs] by (metis card_distinct distinct_card)

lemma card_blocks_append [simp]: "card_blocks (xs @ ys) = card_blocks xs @ card_blocks ys"
  and card_blocks_Cons [simp]: "card_blocks (c # cs) = comment_id c # map comment_id (reply_list c) @ card_blocks cs"
  by (simp_all add: card_blocks_def)

lemma map_where_none: "\<forall>x\<in>set xs. \<not> P x \<Longrightarrow> map_where P f xs = xs"
  by (induction xs) auto

lemma card_ids_like_dislike [simp]:
  "card_ids (handle_comment_like cid cs) = card_ids cs"
  "card_ids (handle_comment_dislike cid cs) = card_ids cs"
  by (induction cs) (auto simp: card_ids_def handle_comment_like_def handle_comment_dislike_def)

lemma ids_fresh_mono: "ids_fresh n cs \<Longrightarrow> n \<le> n' \<Longrightarrow> ids_fresh n' cs"
  by (fastforce simp: ids_fresh_def split: option.splits)

lemma ids_fresh_submit:
  assumes "ids_fresh n cs" "n \<le> now"
  shows "ids_fresh (Suc now) (handle_comment_submit now stamp ct cs)"
proof -
  have "card_ids (handle_comment_submit now stamp ct cs) = nat_str now # card_ids cs"
    by (simp add: handle_comment_submit_def card_ids_def)
  moreover have "nat_str now \<notin> set (card_ids cs)"
    using assms by (force simp: ids_fresh_def)
  ultimately show ?thesis using assms
    by (fastforce simp: ids_fresh_def split: option.splits)
qed

lemma ids_fresh_reply:
  assumes "ids_fresh n cs" "n \<le> now"
  shows "ids_fresh (Suc now) (handle_reply cid now stamp ct cs)"
proof (cases "cid \<in> set (map comment_id cs)")
  case False
  then have "handle_reply cid now stamp ct cs = cs"
    by (auto simp: handle_reply_def intro: map_where_none)
  with assms show ?thesis using ids_fresh_mono by simp
next
  case True
  let ?r = "own_comment (reply_id cid now) stamp ct"
  from True obtain xs c ys where cs: "cs = xs @ c # ys" and c: "comment_id c = cid"
    by (auto simp: in_set_conv_decomp)
  have d: "distinct (card_blocks cs)" using assms(1) by (simp add: ids_fresh_def distinct_card_blocks)
  have out: "\<forall>x\<in>set xs \<union> set ys. comment_id x \<noteq> cid"
  proof
    fix x assume "x \<in> set xs \<union> set ys"
    then have "comment_id x \<in> set (card_blocks xs) \<union> set (card_blocks ys)"
      by (auto simp: card_blocks_def)
    with d cs c show "comment_id x \<noteq> cid" by auto
  qed
  have new: "handle_reply cid now stamp ct cs = xs @ add_reply ?r c # ys"
    using out c by (simp add: handle_reply_def cs map_where_none)
  have fresh: "reply_id cid now \<notin> set (card_ids cs)"
    using assms by (force simp: ids_fresh_def)
  have b1: "card_blocks (handle_reply cid now stamp ct cs) =
      card_blocks xs @ (cid # map comment_id (reply_list c) @ [reply_id cid now]) @ card_blocks ys"
    unfolding new using c by simp
  have b2: "card_blocks cs = card_blocks xs @ (cid # map comment_id (reply_list c)) @ card_blocks ys"
    unfolding cs using c by simp
  note b = b1 b2
  have "set (card_ids (handle_reply cid now stamp ct cs)) = insert (reply_id cid now) (set (card_ids cs))"
    using card_blocks_set_length [of cs] card_blocks_set_length [of "handle_reply cid now stamp ct cs"] b
    by auto
  moreover have "distinct (card_ids (handle_reply cid now stamp ct cs))"
  proof -
    have "reply_id cid now \<notin> set (card_blocks cs)" using fresh card_blocks_set_length [of cs] by simp
    with d have "distinct (card_blocks (handle_reply cid now stamp ct cs))" by (simp only: b) auto
    then show ?thesis by (simp add: distinct_card_blocks)
  qed
  ultimately show ?thesis using assms
    by (fastforce simp: ids_fresh_def split: option.splits)
qed

lemma ids_fresh_step:
  assumes "ids_fresh n (comments t)" "clocks_from n (e # es)"
  shows "\<exists>n'. ids_fresh n' (comments (thread_step t e)) \<and> clocks_from n' es"
proof (cases e)
  case (SubmitComment now stamp)
  with assms have "ids_fresh (Suc now) (comments (thread_step t e))" "clocks_from (Suc now) es"
    by (auto simp: handle_submit_comment_def intro: ids_fresh_submit ids_fresh_mono)
  then show ?thesis by blast
next
  case (SubmitReply now stamp)
  with assms have "ids_fresh (Suc now) (comments (thread_step t e))" "clocks_from (Suc now) es"
    by (auto simp: handle_submit_reply_def intro: ids_fresh_reply ids_fresh_mono split: option.splits)
  then show ?thesis by blast
qed (use assms in \<open>auto simp: ids_fresh_def\<close>)

text \<open>
  C26.  Over any run of the comment section whose submissions read strictly increasing
  clocks, starting from a thread whose card ids are distinct and older than the first
  clock, all comment and reply ids stay distinct: \<^verbatim>\<open>handleCommentSubmit\<close> and
  \<^verbatim>\<open>handleReply\<close> never reuse an id, and a reply is added to one comment only.
\<close>

theorem comment_ids_distinct:
  assumes "ids_fresh n (comments t)" "clocks_from n es"
  shows "distinct (card_ids (comments (thread_run t es)))"
  using assms
proof (induction es arbitrary: t n)
  case Nil
  then show ?case by (simp add: ids_fresh_def)
next
  case (Cons e es)
  from ids_fresh_step [OF Cons.prems] obtain n' where
    "ids_fresh n' (comments (thread_step t e))" "clocks_from n' es" by blast
  from Cons.IH [OF this] show ?case by simp
qed

theorem comment_ids_distinct_witness:
  "distinct (card_ids (comments (thread_run
     (thread_init [Comment ''1'' ''Ann'' '''' ''hi'' '''' 3 1 None None (Some [Comment ''1-5'' ''Bo'' '''' ''yo'' '''' 0 0 None None None])])
     [EditComment ''nice'', SubmitComment 1700 ''t'', ReplyClick ''1700'', EditReply ''thanks'',
      SubmitReply 1701 ''t'', ReplyClick ''1'', EditReply ''ok'', SubmitReply 1702 ''t''])))"
proof -
  have "ids_fresh 1000 (comments (thread_init
     [Comment ''1'' ''Ann'' '''' ''hi'' '''' 3 1 None None (Some [Comment ''1-5'' ''Bo'' '''' ''yo'' '''' 0 0 None None None])]))"
    by code_simp
  moreover have "clocks_from 1000 [EditComment ''nice'', SubmitComment 1700 ''t'', ReplyClick ''1700'',
      EditReply ''thanks'', SubmitReply 1701 ''t'', ReplyClick ''1'', EditReply ''ok'', SubmitReply 1702 ''t'']"
    by simp
  ultimately show ?thesis by (rule comment_ids_distinct)
qed

end
