(* ===== verification/App.thy ===== *)
theory App
  imports Pages Reader Comments
begin

text \<open>
  The application across its routes.  The state \<open>app_state\<close> holds the router core of
  \<open>Upload\<close> (route, upload page, mount counter, pending upload timeouts) and the state of
  the home, profile and book pages.  The book page (\<^verbatim>\<open>app/book/[bookId]/page.tsx\<close>)
  looks the id up in the catalog: an unknown id renders only "Book Not Found" with a
  "Back to Home" button (\<open>NotFound\<close>, the early return of lines 27-39, without the
  navigation bar); a known one renders the navigation bar, the sidebar, the reader of
  \<open>Reader\<close> and the comment thread of \<open>Comments\<close> (\<open>Found\<close>), whose initial comments
  are \<^verbatim>\<open>mockComments\<close>, a parameter \<open>cs\<close>.  A page is mounted afresh when the route changes
  (\<open>remount\<close>, after \<open>settle\<close> sees the change) and after every full document load.  The
  navigation bar's upload and profile buttons push their routes from every page that
  renders the bar; its search and notification overlays are per-page state modelled in
  \<open>Navigation\<close> and not repeated here.
\<close>

datatype book_view = NotFound id | Found reader thread

record book_page =
  bp_sidebar_open :: bool
  bp_nav :: string
  bp_view :: book_view

datatype book_event =
    ReaderEv reader_event | CommentEv comment_event | BackHome
  | BookSidebarToggle | BookSidebarSelect string

definition book_mount :: "book list \<Rightarrow> comment list \<Rightarrow> id \<Rightarrow> book_page" where
  "book_mount cat cs bid =
     \<lparr>bp_sidebar_open = True, bp_nav = ''home'',
      bp_view = (case find_book cat bid of None \<Rightarrow> NotFound bid
                 | Some b \<Rightarrow> Found (reader_init b) (thread_init cs))\<rparr>"

definition book_step :: "book list \<Rightarrow> book_page \<Rightarrow> book_event \<Rightarrow> book_page \<times> nav_effect" where
  "book_step cat p e =
     (case bp_view p of
        NotFound _ \<Rightarrow> (if e = BackHome then (p, ClientPush HomeRoute) else (p, NoNav))
      | Found r t \<Rightarrow>
          (case e of
             ReaderEv re \<Rightarrow> (p\<lparr>bp_view := Found (reader_step cat r re) t\<rparr>, NoNav)
           | CommentEv ce \<Rightarrow> (p\<lparr>bp_view := Found r (thread_step t ce)\<rparr>, NoNav)
           | BackHome \<Rightarrow> (p, ClientPush HomeRoute)
           | BookSidebarToggle \<Rightarrow> (p\<lparr>bp_sidebar_open := \<not> bp_sidebar_open p\<rparr>, NoNav)
           | BookSidebarSelect pg \<Rightarrow>
               (if pg \<in> set (sidebar_visible_ids (bp_sidebar_open p)) then (p\<lparr>bp_nav := pg\<rparr>, NoNav)
                else (p, NoNav))))"

record app_state =
  core :: upload_app
  home :: home_page
  profile :: profile_page
  book_pg :: book_page

datatype app_event =
    AtHome home_event | AtProfile profile_event | AtUpload upload_event | AtBook book_event
  | NavUploadButton | NavProfileButton | UploadTimeout

definition remount :: "book list \<Rightarrow> comment list \<Rightarrow> app_state \<Rightarrow> app_state" where
  "remount cat cs st =
     (case location (core st) of
        HomeRoute \<Rightarrow> st\<lparr>home := home_init\<rparr>
      | ProfileRoute \<Rightarrow> st\<lparr>profile := profile_init\<rparr>
      | BookRoute bid \<Rightarrow> st\<lparr>book_pg := book_mount cat cs bid\<rparr>
      | UploadRoute \<Rightarrow> st)"

definition settle :: "book list \<Rightarrow> comment list \<Rightarrow> app_state \<Rightarrow> app_state \<Rightarrow> app_state" where
  "settle cat cs old st = (if location (core st) = location (core old) then st else remount cat cs st)"

definition apply_nav :: "book list \<Rightarrow> comment list \<Rightarrow> nav_effect \<Rightarrow> app_state \<Rightarrow> app_state" where
  "apply_nav cat cs eff st =
     (case eff of
        NoNav \<Rightarrow> st
      | ClientPush r \<Rightarrow> settle cat cs st (st\<lparr>core := push r (core st)\<rparr>)
      | FullLoad r \<Rightarrow> remount cat cs (st\<lparr>core := full_load r (core st)\<rparr>))"

definition navigation_rendered :: "app_state \<Rightarrow> bool" where
  "navigation_rendered st =
     (case location (core st) of
        BookRoute _ \<Rightarrow> (case bp_view (book_pg st) of NotFound _ \<Rightarrow> False | Found _ _ \<Rightarrow> True)
      | _ \<Rightarrow> True)"

fun app_step :: "book list \<Rightarrow> comment list \<Rightarrow> app_state \<Rightarrow> app_event \<Rightarrow> app_state" where
  "app_step cat cs st (AtHome e) =
     (if location (core st) = HomeRoute
      then (case home_step cat (home st) e of (h, eff) \<Rightarrow> apply_nav cat cs eff (st\<lparr>home := h\<rparr>))
      else st)"
| "app_step cat cs st (AtProfile e) =
     (if location (core st) = ProfileRoute
      then (case profile_step cat (profile st) e of (p, eff) \<Rightarrow> apply_nav cat cs eff (st\<lparr>profile := p\<rparr>))
      else st)"
| "app_step cat cs st (AtBook e) =
     (case location (core st) of
        BookRoute _ \<Rightarrow> (case book_step cat (book_pg st) e of (b, eff) \<Rightarrow> apply_nav cat cs eff (st\<lparr>book_pg := b\<rparr>))
      | _ \<Rightarrow> st)"
| "app_step cat cs st (AtUpload e) = settle cat cs st (st\<lparr>core := upload_step (core st) (OnUpload e)\<rparr>)"
| "app_step cat cs st NavUploadButton =
     (if navigation_rendered st then settle cat cs st (st\<lparr>core := push UploadRoute (core st)\<rparr>) else st)"
| "app_step cat cs st NavProfileButton =
     (if navigation_rendered st then settle cat cs st (st\<lparr>core := push ProfileRoute (core st)\<rparr>) else st)"
| "app_step cat cs st UploadTimeout = settle cat cs st (st\<lparr>core := timer_fires (core st)\<rparr>)"

fun app_run :: "book list \<Rightarrow> comment list \<Rightarrow> app_state \<Rightarrow> app_event list \<Rightarrow> app_state" where
  "app_run cat cs st [] = st"
| "app_run cat cs st (e # es) = app_run cat cs (app_step cat cs st e) es"

definition boot :: "book list \<Rightarrow> comment list \<Rightarrow> route \<Rightarrow> app_state" where
  "boot cat cs r = remount cat cs
     \<lparr>core = app_init r, home = home_init, profile = profile_init, book_pg = book_mount cat cs []\<rparr>"

text \<open>The invariant of the whole application: the upload invariant of the router core, and
  on a found book the reader invariant and well-formed votes.\<close>

definition view_ok :: "book_view \<Rightarrow> bool" where
  "view_ok v = (case v of NotFound _ \<Rightarrow> True | Found r t \<Rightarrow> reader_inv r \<and> thread_wf t)"

definition app_inv :: "app_state \<Rightarrow> bool" where
  "app_inv st \<longleftrightarrow> upload_inv (core st) \<and> view_ok (bp_view (book_pg st))"

subsection \<open>Helper facts\<close>

lemma view_ok_simps [simp]:
  "view_ok (NotFound bid)"
  "view_ok (Found r t) \<longleftrightarrow> reader_inv r \<and> thread_wf t"
  by (simp_all add: view_ok_def)

lemma book_mount_ok:
  "list_all book_wf cat \<Longrightarrow> list_all comment_wf cs \<Longrightarrow> view_ok (bp_view (book_mount cat cs bid))"
  by (auto simp: book_mount_def thread_wf_def thread_init_def list_all_iff reader_init_inv
      dest: find_book_Some split: option.splits)

lemma core_remount [simp]: "core (remount cat cs st) = core st"
  by (simp add: remount_def split: route.splits)

lemma remount_inv:
  "list_all book_wf cat \<Longrightarrow> list_all comment_wf cs \<Longrightarrow> app_inv st \<Longrightarrow> app_inv (remount cat cs st)"
  by (auto simp: remount_def app_inv_def book_mount_ok split: route.splits)

lemma settle_inv:
  "list_all book_wf cat \<Longrightarrow> list_all comment_wf cs \<Longrightarrow> app_inv st \<Longrightarrow> app_inv (settle cat cs old st)"
  by (simp add: settle_def remount_inv)

lemma app_inv_core:
  "app_inv st \<Longrightarrow> upload_inv c \<Longrightarrow> app_inv (st\<lparr>core := c\<rparr>)"
  by (simp add: app_inv_def)

lemma settle_core_inv:
  "list_all book_wf cat \<Longrightarrow> list_all comment_wf cs \<Longrightarrow> app_inv st \<Longrightarrow> upload_inv c
   \<Longrightarrow> app_inv (settle cat cs old (st\<lparr>core := c\<rparr>))"
  by (rule settle_inv) (simp_all add: app_inv_core)

lemma apply_nav_inv:
  assumes "list_all book_wf cat" "list_all comment_wf cs" "app_inv st"
  shows "app_inv (apply_nav cat cs eff st)"
proof (cases eff)
  case (ClientPush r)
  from assms(3) have "app_inv (st\<lparr>core := push r (core st)\<rparr>)"
    by (simp add: app_inv_core app_inv_def upload_inv_push)
  with assms(1,2) ClientPush show ?thesis by (simp add: apply_nav_def settle_inv)
next
  case (FullLoad r)
  from assms(3) have "app_inv (st\<lparr>core := full_load r (core st)\<rparr>)"
    by (simp add: app_inv_core app_inv_def upload_inv_full_load)
  with assms(1,2) FullLoad show ?thesis by (simp add: apply_nav_def remount_inv)
qed (simp add: apply_nav_def assms)

lemma book_step_ok: "view_ok (bp_view p) \<Longrightarrow> view_ok (bp_view (fst (book_step cat p e)))"
  by (auto simp: book_step_def reader_step_inv thread_step_wf split: book_view.splits book_event.splits)

lemma app_step_inv:
  assumes "list_all book_wf cat" "list_all comment_wf cs" "app_inv st"
  shows "app_inv (app_step cat cs st e)"
proof (cases e)
  case (AtHome he)
  have "app_inv (st\<lparr>home := fst (home_step cat (home st) he)\<rparr>)" using assms(3) by (simp add: app_inv_def)
  with assms AtHome show ?thesis by (auto simp: apply_nav_inv split: prod.splits)
next
  case (AtProfile pe)
  have "app_inv (st\<lparr>profile := fst (profile_step cat (profile st) pe)\<rparr>)"
    using assms(3) by (simp add: app_inv_def)
  with assms AtProfile show ?thesis by (auto simp: apply_nav_inv split: prod.splits)
next
  case (AtBook be)
  have "app_inv (st\<lparr>book_pg := fst (book_step cat (book_pg st) be)\<rparr>)"
    using assms(3) book_step_ok [of "book_pg st" cat be] by (simp add: app_inv_def)
  with assms AtBook show ?thesis by (auto simp: apply_nav_inv split: prod.splits route.splits)
next
  case (AtUpload ue)
  have "upload_inv (upload_step (core st) (OnUpload ue))"
    using assms(3) by (simp only: app_inv_def upload_inv_step)
  with AtUpload show ?thesis by (simp only: app_step.simps settle_core_inv [OF assms])
next
  case NavUploadButton
  have "upload_inv (push UploadRoute (core st))" using assms(3) by (simp add: app_inv_def upload_inv_push)
  with NavUploadButton assms show ?thesis by (simp add: settle_core_inv)
next
  case NavProfileButton
  have "upload_inv (push ProfileRoute (core st))" using assms(3) by (simp add: app_inv_def upload_inv_push)
  with NavProfileButton assms show ?thesis by (simp add: settle_core_inv)
next
  case UploadTimeout
  have "upload_inv (timer_fires (core st))" using assms(3) by (simp add: app_inv_def upload_inv_timer_fires)
  with UploadTimeout assms show ?thesis by (simp add: settle_core_inv)
qed

lemma app_run_inv:
  "list_all book_wf cat \<Longrightarrow> list_all comment_wf cs \<Longrightarrow> app_inv st \<Longrightarrow> app_inv (app_run cat cs st es)"
  by (induction es arbitrary: st) (simp_all add: app_step_inv)

lemma boot_inv: "list_all book_wf cat \<Longrightarrow> list_all comment_wf cs \<Longrightarrow> app_inv (boot cat cs r)"
  unfolding boot_def by (rule remount_inv) (simp_all add: app_inv_def book_mount_ok)

lemma full_load_simps [simp]:
  "location (full_load r a) = r" "timers (full_load r a) = []"
  by (simp_all add: full_load_def)

lemma location_push [simp]: "location (push r a) = r"
  by (simp add: push_def)

lemma settle_core [simp]: "core (settle cat cs old st) = core st"
  by (simp add: settle_def)

lemma settle_same [simp]: "settle cat cs st st = st"
  by (simp add: settle_def)

end
