(* ===== verification/Shell.thy ===== *)
theory Shell
  imports App
begin

text \<open>
  The application shell: \<^verbatim>\<open>app/layout.tsx\<close> wraps every page in a theme provider
  (class attribute, default theme \<^verbatim>\<open>light\<close>, system theme disabled; no source calls
  \<^verbatim>\<open>setTheme\<close>), the client providers of \<^verbatim>\<open>components/ClientProviders.tsx\<close> (a
  react-query \<^verbatim>\<open>QueryClient\<close> created once per mount by the lazy \<^verbatim>\<open>useState\<close>
  initializer; no source runs a query), a tooltip provider and the two toasters.  The
  layout stays mounted across client navigations of the router and is mounted afresh by a
  full document load.  \<open>root_layout n\<close> is the layout of the \<open>n\<close>-th document, whose query
  client is the \<open>n\<close>-th one created; \<open>event_reloads\<close> tells which application events
  load a new document: a page event does so exactly when the page's step returns a
  \<open>FullLoad\<close> effect (only the home page's \<^verbatim>\<open>window.location.href\<close>, app/page.tsx:31), and
  the other events navigate only by \<^verbatim>\<open>router.push\<close> (upload/page.tsx:39 and 85,
  Navigation.tsx:77 and 100), a client navigation.  \<open>shell_step\<close> runs the application of
  theory \<open>App\<close> with its shell.
\<close>

datatype layer =
    ThemeLayer string bool
  | QueryClientLayer nat
  | TooltipLayer
  | ToasterLayer
  | SonnerLayer

record shell =
  sh_lang :: string
  sh_document :: nat
  sh_layers :: "layer list"

definition client_providers :: "nat \<Rightarrow> layer" where
  "client_providers n = QueryClientLayer n"

definition root_layout :: "nat \<Rightarrow> shell" where
  "root_layout n =
     \<lparr>sh_lang = ''en'', sh_document = n,
      sh_layers = [ThemeLayer ''light'' False, client_providers n, TooltipLayer, ToasterLayer, SonnerLayer]\<rparr>"

definition is_full_load :: "nav_effect \<Rightarrow> bool" where
  "is_full_load eff = (case eff of FullLoad _ \<Rightarrow> True | _ \<Rightarrow> False)"

fun event_reloads :: "book list \<Rightarrow> comment list \<Rightarrow> app_state \<Rightarrow> app_event \<Rightarrow> bool" where
  "event_reloads cat cs st (AtHome e) =
     (location (core st) = HomeRoute \<and> is_full_load (snd (home_step cat (home st) e)))"
| "event_reloads cat cs st (AtProfile e) =
     (location (core st) = ProfileRoute \<and> is_full_load (snd (profile_step cat (profile st) e)))"
| "event_reloads cat cs st (AtBook e) =
     (case location (core st) of
        BookRoute _ \<Rightarrow> is_full_load (snd (book_step cat (book_pg st) e))
      | _ \<Rightarrow> False)"
| "event_reloads cat cs st (AtUpload e) = False"
| "event_reloads cat cs st NavUploadButton = False"
| "event_reloads cat cs st NavProfileButton = False"
| "event_reloads cat cs st UploadTimeout = False"

definition shell_step :: "book list \<Rightarrow> comment list \<Rightarrow> app_state \<times> shell \<Rightarrow> app_event \<Rightarrow> app_state \<times> shell" where
  "shell_step cat cs s e =
     (case s of (st, sh) \<Rightarrow>
        (app_step cat cs st e,
         if event_reloads cat cs st e then root_layout (Suc (sh_document sh)) else sh))"

definition shell_run :: "book list \<Rightarrow> comment list \<Rightarrow> app_state \<times> shell \<Rightarrow> app_event list \<Rightarrow> app_state \<times> shell" where
  "shell_run cat cs s es = foldl (shell_step cat cs) s es"

definition shell_boot :: "book list \<Rightarrow> comment list \<Rightarrow> route \<Rightarrow> app_state \<times> shell" where
  "shell_boot cat cs r = (boot cat cs r, root_layout 0)"

subsection \<open>Which events reload the document\<close>

lemma event_reloads_home_click:
  assumes "event_reloads cat cs st e"
  shows "location (core st) = HomeRoute \<and> (\<exists>bid. e = AtHome (HomeBookClick bid) \<and> bid \<in> set (home_grid_ids cat))"
  using assms
proof (cases e)
  case (AtHome he)
  then show ?thesis using assms
    by (cases he) (auto simp: is_full_load_def split: if_splits)
next
  case (AtProfile pe)
  then show ?thesis using assms
    by (cases pe) (auto simp: is_full_load_def split: if_splits)
next
  case (AtBook be)
  then show ?thesis using assms
    by (cases be) (auto simp: is_full_load_def book_step_def split: route.splits if_splits prod.splits book_view.splits)
qed simp_all

lemma shell_step_fst [simp]: "fst (shell_step cat cs (st, sh) e) = app_step cat cs st e"
  by (simp add: shell_step_def)

lemma shell_step_keeps:
  "snd (shell_step cat cs (st, sh) e) \<noteq> sh \<Longrightarrow> event_reloads cat cs st e"
  by (auto simp: shell_step_def split: if_splits)

lemma shell_run_layout:
  assumes "snd s = root_layout n"
  shows "\<exists>m. snd (shell_run cat cs s es) = root_layout m \<and> n \<le> m \<and> m \<le> n + length es"
  using assms
proof (induction es arbitrary: s n)
  case Nil
  then show ?case by (auto simp: shell_run_def)
next
  case (Cons e es)
  obtain st sh where s: "s = (st, sh)" by (cases s)
  have "snd (shell_step cat cs s e) = root_layout n \<or> snd (shell_step cat cs s e) = root_layout (Suc n)"
    using Cons.prems s by (simp add: shell_step_def root_layout_def client_providers_def)
  then show ?case
  proof
    assume "snd (shell_step cat cs s e) = root_layout n"
    from Cons.IH [OF this] show ?thesis by (fastforce simp: shell_run_def)
  next
    assume "snd (shell_step cat cs s e) = root_layout (Suc n)"
    from Cons.IH [OF this] show ?thesis by (fastforce simp: shell_run_def)
  qed
qed

end
