(* ===== verification/Search.thy ===== *)
theory Search
  imports Catalog
begin

text \<open>
  The search overlay, \<^verbatim>\<open>components/SearchResults.tsx\<close>.  Its effect recomputes
  \<^verbatim>\<open>filteredBooks\<close> on every change of \<^verbatim>\<open>searchQuery\<close>; the model is the value after
  the effect has run, a function of the catalog and the query (\<open>search_books\<close>).
  A blank query (only white space) shows the whole catalog; otherwise the query is
  lower-cased, but not trimmed, and a book is shown when its title, author, description,
  one of its tags or its uploader, lower-cased, contains it (\<open>book_matches\<close>).
  The header statistics list the first five distinct tags of the results
  (\<open>search_categories\<close>), shown for a query that is not blank; the overlay
  (\<open>search_view\<close>) prints the query, the result count and either the grid of the results
  or the empty state.  This is the overlay as its code would compute it inside a
  react-router \<^verbatim>\<open>Router\<close>: the component first calls \<^verbatim>\<open>useNavigate\<close>, which throws
  when no Router encloses it, and the Next.js application renders none, so in the app
  the render fails before the effect runs (theory \<open>Navigation\<close>,
  \<open>search_results_render\<close>).
\<close>

definition field_matches :: "string \<Rightarrow> string \<Rightarrow> bool" where
  "field_matches query field \<longleftrightarrow> js_includes (js_lower field) query"

definition book_matches :: "string \<Rightarrow> book \<Rightarrow> bool" where
  "book_matches query b \<longleftrightarrow>
     field_matches query (book_title b) \<or> field_matches query (book_author b)
     \<or> field_matches query (book_description b)
     \<or> list_ex (field_matches query) (book_tags b)
     \<or> field_matches query (book_uploader b)"

definition search_books :: "book list \<Rightarrow> string \<Rightarrow> book list" where
  "search_books cat search_query =
     (if js_blank search_query then cat else filter (book_matches (js_lower search_query)) cat)"

definition search_categories :: "book list \<Rightarrow> string list" where
  "search_categories results = take 5 (js_set_list (concat (map book_tags results)))"

datatype search_body = ResultsGrid "id list" | NoResults

record search_view =
  sv_heading :: string
  sv_count :: string
  sv_categories :: "string list option"
  sv_body :: search_body

definition search_view :: "book list \<Rightarrow> string \<Rightarrow> search_view" where
  "search_view cat search_query =
     (let rs = search_books cat search_query; n = length rs in
      \<lparr>sv_heading = ''Search Results for '' @ [CHR 0x22] @ search_query @ [CHR 0x22],
       sv_count = nat_str n @ '' '' @ (if n = 1 then ''result'' else ''results'') @ '' found'',
       sv_categories = (if js_blank search_query then None else Some (search_categories rs)),
       sv_body = (if rs \<noteq> [] then ResultsGrid (map book_id rs) else NoResults)\<rparr>)"

subsection \<open>Helper facts\<close>

lemma field_matches_narrower:
  "field_matches q2 f \<Longrightarrow> js_includes q2 q1 \<Longrightarrow> field_matches q1 f"
  by (auto simp: field_matches_def intro: js_includes_trans)

lemma book_matches_narrower:
  "book_matches q2 b \<Longrightarrow> js_includes q2 q1 \<Longrightarrow> book_matches q1 b"
  unfolding book_matches_def list_ex_iff
  by (meson field_matches_narrower)

lemma set_search_books:
  "set (search_books cat q) = {b \<in> set cat. js_blank q \<or> book_matches (js_lower q) b}"
  by (auto simp: search_books_def)

lemma search_books_subseq: "subseq (search_books cat q) cat"
  by (simp add: search_books_def)

subsection \<open>Properties of the search\<close>

text \<open>
  The results are the catalog entries that match, in catalog order: the result is a
  subsequence of the catalog, and a book is in it exactly when it is in the catalog and the
  query is blank or one of its five fields contains the lower-cased query.
\<close>

theorem search_books_spec:
  "subseq (search_books cat q) cat
   \<and> (b \<in> set (search_books cat q) \<longleftrightarrow> b \<in> set cat \<and> (js_blank q \<or> book_matches (js_lower q) b))"
  using search_books_subseq set_search_books by blast

text \<open>
  The spec's tag search: for a query that is not blank, every catalog book with a tag
  whose lower-cased text contains the lower-cased query is found, whatever the case of the
  query and of the tag.
\<close>

theorem tag_match_found:
  assumes "\<not> js_blank q" "b \<in> set cat" "tag \<in> set (book_tags b)"
    and "js_includes (js_lower tag) (js_lower q)"
  shows "b \<in> set (search_books cat q)"
proof -
  have "list_ex (field_matches (js_lower q)) (book_tags b)"
    using assms(3,4) by (auto simp: list_ex_iff field_matches_def)
  then have "book_matches (js_lower q) b" by (simp add: book_matches_def)
  with assms(2) show ?thesis by (simp add: set_search_books)
qed

theorem tag_match_found_witness:
  "\<not> js_blank ''SCI''
   \<and> js_includes (js_lower ''Science'') (js_lower ''SCI'')
   \<and> search_books [\<lparr>book_id = ''1'', book_title = ''T'', book_author = ''A'',
      book_cover_image = '''', book_description = '''', book_uploader = ''U'',
      book_uploader_avatar = '''', book_views = 0, book_upload_date = '''', book_duration = '''',
      book_tags = [''Science''], book_total_pages = 3, book_current_page = None\<rparr>] ''SCI'' \<noteq> []"
proof -
  let ?b = "\<lparr>book_id = ''1'', book_title = ''T'', book_author = ''A'',
      book_cover_image = '''', book_description = '''', book_uploader = ''U'',
      book_uploader_avatar = '''', book_views = 0, book_upload_date = '''', book_duration = '''',
      book_tags = [''Science''], book_total_pages = 3, book_current_page = None\<rparr>"
  have h1: "\<not> js_blank ''SCI''" by (simp add: js_blank_iff is_js_space_def)
  have h2: "js_includes (js_lower ''Science'') (js_lower ''SCI'')" by code_simp
  have "?b \<in> set (search_books [?b] ''SCI'')"
    by (rule tag_match_found [OF h1 _ _ h2]) simp_all
  with h1 h2 show ?thesis by auto
qed

text \<open>
  Typing more narrows the results: if a non-blank query, lower-cased, contains a
  shorter non-blank query, lower-cased, every book found for the longer one is found for the
  shorter one.
\<close>

theorem search_narrows:
  assumes "\<not> js_blank q1" "\<not> js_blank q2" "js_includes (js_lower q2) (js_lower q1)"
  shows "set (search_books cat q2) \<subseteq> set (search_books cat q1)"
  using assms book_matches_narrower by (auto simp: set_search_books)

theorem search_narrows_witness:
  "\<not> js_blank ''Sci'' \<and> \<not> js_blank ''science'' \<and> js_includes (js_lower ''science'') (js_lower ''Sci'')
   \<and> set (search_books [] ''science'') \<subseteq> set (search_books [] ''Sci'')"
proof -
  have h: "\<not> js_blank ''Sci''" "\<not> js_blank ''science''"
    by (simp_all add: js_blank_iff is_js_space_def)
  have i: "js_includes (js_lower ''science'') (js_lower ''Sci'')" by code_simp
  from search_narrows [OF h i] h i show ?thesis by blast
qed

text \<open>
  The query is lower-cased but not trimmed: a query with a trailing space does not
  find a book whose only matching text is the query without it.
\<close>

theorem search_query_not_trimmed:
  "search_books [\<lparr>book_id = ''1'', book_title = ''dune'', book_author = '''',
      book_cover_image = '''', book_description = '''', book_uploader = '''',
      book_uploader_avatar = '''', book_views = 0, book_upload_date = '''', book_duration = '''',
      book_tags = [], book_total_pages = 3, book_current_page = None\<rparr>] ''dune '' = []
   \<and> search_books [\<lparr>book_id = ''1'', book_title = ''dune'', book_author = '''',
      book_cover_image = '''', book_description = '''', book_uploader = '''',
      book_uploader_avatar = '''', book_views = 0, book_upload_date = '''', book_duration = '''',
      book_tags = [], book_total_pages = 3, book_current_page = None\<rparr>] ''dune'' \<noteq> []"
  by code_simp

text \<open>
  The category list of the header holds at most five tags, no tag twice, and only
  tags of books in the results.
\<close>

theorem search_categories_bounds:
  "length (search_categories rs) \<le> 5 \<and> distinct (search_categories rs)
   \<and> set (search_categories rs) \<subseteq> (\<Union>b\<in>set rs. set (book_tags b))"
proof -
  have "set (take 5 (js_set_list (concat (map book_tags rs)))) \<subseteq> set (concat (map book_tags rs))"
    using set_take_subset [of 5 "js_set_list (concat (map book_tags rs))"] by simp
  then show ?thesis by (auto simp: search_categories_def)
qed

text \<open>
  The overlay shows the empty state exactly when the query is not blank and no
  catalog book matches it; otherwise its grid lists the ids of the matching catalog books,
  in catalog order, and a book is listed exactly when it is in the catalog and the query
  is blank or one of its five fields contains the lower-cased query.
\<close>

theorem search_overlay_view:
  "(sv_body (search_view cat q) = NoResults \<longleftrightarrow>
      (\<forall>b \<in> set cat. \<not> js_blank q \<and> \<not> book_matches (js_lower q) b))
   \<and> (\<forall>ids. sv_body (search_view cat q) = ResultsGrid ids \<longrightarrow>
      (\<exists>rs. ids = map book_id rs \<and> subseq rs cat
            \<and> (\<forall>b. b \<in> set rs \<longleftrightarrow> b \<in> set cat \<and> (js_blank q \<or> book_matches (js_lower q) b))))"
proof -
  have "search_books cat q = [] \<longleftrightarrow> (\<forall>b \<in> set cat. \<not> js_blank q \<and> \<not> book_matches (js_lower q) b)"
    using set_search_books [of cat q] by (auto simp flip: set_empty2)
  then show ?thesis using search_books_spec [of cat q]
    by (auto simp: search_view_def Let_def)
qed

theorem search_overlay_view_witness:
  "sv_body (search_view [\<lparr>book_id = ''1'', book_title = ''Dune'', book_author = ''Herbert'',
      book_cover_image = [], book_description = [], book_uploader = ''u'', book_uploader_avatar = [],
      book_views = 0, book_upload_date = [], book_duration = [], book_tags = [''SciFi''],
      book_total_pages = 3, book_current_page = None\<rparr>] ''zzz'') = NoResults"
  using conjunct1 [OF search_overlay_view [of "[\<lparr>book_id = ''1'', book_title = ''Dune'', book_author = ''Herbert'',
      book_cover_image = [], book_description = [], book_uploader = ''u'', book_uploader_avatar = [],
      book_views = 0, book_upload_date = [], book_duration = [], book_tags = [''SciFi''],
      book_total_pages = 3, book_current_page = None\<rparr>]" "''zzz''"]]
  by code_simp

end
