(* ===== verification/Notifications.thy ===== *)
theory Notifications
  imports Js_Builtins
begin

text \<open>
  The notification center, \<^verbatim>\<open>components/NotificationCenter.tsx\<close>.  Its list starts as
  \<^verbatim>\<open>mockNotifications\<close> (\<open>mock_notifications\<close>, five entries, two unread) and is
  changed by a click on a card (\<^verbatim>\<open>markAsRead\<close>), by "Mark all read"
  (\<^verbatim>\<open>markAllAsRead\<close>, rendered only while something is unread) and by the delete
  button of a card (\<^verbatim>\<open>deleteNotification\<close>).  The header counts the unread entries
  (\<open>unread_count\<close>); the open center (\<open>center_view\<close>) shows that count as a badge and
  the "Mark all read" button only while it is positive, and a card per notification
  (\<open>notif_card_of\<close>) with its avatar, a cover icon or the icon of its type
  (\<open>get_icon\<close>), highlighted and dotted while unread.  The component stays mounted while closed, so its list survives
  closing and reopening; the events of \<open>notif_step\<close> are the clicks of the open center.
\<close>

datatype notification_type = NLike | NComment | NNewBook | NFollow | NRecommendation

record notification =
  notif_id :: id
  notif_type :: notification_type
  notif_title :: string
  notif_description :: string
  notif_time :: string
  notif_read :: bool
  notif_avatar :: "string option"
  notif_book_cover :: "string option"

datatype notif_event = CardClick id | MarkAllClick | DeleteClick id

definition mock_notifications :: "notification list" where
  "mock_notifications =
    [\<lparr>notif_id = ''1'', notif_type = NLike, notif_title = ''New Like on Your Book'',
      notif_description = ''Sarah Mitchell liked \"Writing Masterclass: Crafting Stories\"'',
      notif_time = ''2 minutes ago'', notif_read = False,
      notif_avatar = Some ''/placeholder-avatar.jpg'', notif_book_cover = None\<rparr>,
     \<lparr>notif_id = ''2'', notif_type = NComment, notif_title = ''New Comment'',
      notif_description = ''Alex Rodriguez commented on \"Top 10 Ebooks of 2023\"'',
      notif_time = ''15 minutes ago'', notif_read = False,
      notif_avatar = Some ''/placeholder-avatar.jpg'', notif_book_cover = None\<rparr>,
     \<lparr>notif_id = ''3'', notif_type = NNewBook, notif_title = ''New Book Released'',
      notif_description = ''Classic Literature uploaded \"Pride and Prejudice\"'',
      notif_time = ''1 hour ago'', notif_read = True,
      notif_avatar = None, notif_book_cover = Some ''/placeholder-book.jpg''\<rparr>,
     \<lparr>notif_id = ''4'', notif_type = NFollow, notif_title = ''New Subscriber'',
      notif_description = ''Emma Watson subscribed to your channel'',
      notif_time = ''3 hours ago'', notif_read = True,
      notif_avatar = Some ''/placeholder-avatar.jpg'', notif_book_cover = None\<rparr>,
     \<lparr>notif_id = ''5'', notif_type = NRecommendation, notif_title = ''Recommended for You'',
      notif_description = ''Based on your reading history: \"The Science of Storytelling\"'',
      notif_time = ''1 day ago'', notif_read = True,
      notif_avatar = None, notif_book_cover = Some ''/placeholder-book.jpg''\<rparr>]"

definition mark_as_read :: "id \<Rightarrow> notification list \<Rightarrow> notification list" where
  "mark_as_read nid ns = map_where (\<lambda>n. notif_id n = nid) (\<lambda>n. n\<lparr>notif_read := True\<rparr>) ns"

definition mark_all_as_read :: "notification list \<Rightarrow> notification list" where
  "mark_all_as_read ns = map (\<lambda>n. n\<lparr>notif_read := True\<rparr>) ns"

definition delete_notification :: "id \<Rightarrow> notification list \<Rightarrow> notification list" where
  "delete_notification nid ns = filter (\<lambda>n. notif_id n \<noteq> nid) ns"

definition unread_count :: "notification list \<Rightarrow> nat" where
  "unread_count ns = length (filter (\<lambda>n. \<not> notif_read n) ns)"

fun notif_step :: "notification list \<Rightarrow> notif_event \<Rightarrow> notification list" where
  "notif_step ns (CardClick nid) =
     (if nid \<in> set (map notif_id ns) then mark_as_read nid ns else ns)"
| "notif_step ns MarkAllClick = (if 0 < unread_count ns then mark_all_as_read ns else ns)"
| "notif_step ns (DeleteClick nid) =
     (if nid \<in> set (map notif_id ns) then delete_notification nid ns else ns)"

fun notif_run :: "notification list \<Rightarrow> notif_event list \<Rightarrow> notification list" where
  "notif_run ns [] = ns"
| "notif_run ns (e # es) = notif_run (notif_step ns e) es"

datatype notif_icon = HeartIcon | MessageIcon | BookIcon | UserPlusIcon | StarIcon

definition get_icon :: "notification_type \<Rightarrow> notif_icon" where
  "get_icon t =
     (case t of NLike \<Rightarrow> HeartIcon | NComment \<Rightarrow> MessageIcon | NNewBook \<Rightarrow> BookIcon
      | NFollow \<Rightarrow> UserPlusIcon | NRecommendation \<Rightarrow> StarIcon)"

datatype notif_leading = AvatarImage string | CoverIcon | TypeIcon notif_icon

definition notif_leading :: "notification \<Rightarrow> notif_leading" where
  "notif_leading n =
     (case notif_avatar n of Some a \<Rightarrow> AvatarImage a
      | None \<Rightarrow> (case notif_book_cover n of Some _ \<Rightarrow> CoverIcon | None \<Rightarrow> TypeIcon (get_icon (notif_type n))))"

record notif_card =
  nc_leading :: notif_leading
  nc_title :: string
  nc_description :: string
  nc_time :: string
  nc_highlighted :: bool
  nc_dot :: bool

definition notif_card_of :: "notification \<Rightarrow> notif_card" where
  "notif_card_of n =
     \<lparr>nc_leading = notif_leading n, nc_title = notif_title n, nc_description = notif_description n,
      nc_time = notif_time n, nc_highlighted = \<not> notif_read n, nc_dot = \<not> notif_read n\<rparr>"

datatype center_body = NoNotifications | NotifCards "notif_card list"

record center_view =
  ncv_badge :: "nat option"
  ncv_mark_all :: bool
  ncv_body :: center_body

text \<open>The rendered center: nothing while closed (\<^verbatim>\<open>if (!isOpen) return null\<close>).\<close>

definition center_view :: "bool \<Rightarrow> notification list \<Rightarrow> center_view option" where
  "center_view is_open ns =
     (if \<not> is_open then None
      else Some \<lparr>ncv_badge = (if 0 < unread_count ns then Some (unread_count ns) else None),
                 ncv_mark_all = (0 < unread_count ns),
                 ncv_body = (if ns = [] then NoNotifications else NotifCards (map notif_card_of ns))\<rparr>)"

subsection \<open>Helper facts\<close>

lemma unread_count_Nil [simp]: "unread_count [] = 0"
  by (simp add: unread_count_def)

lemma unread_count_Cons [simp]:
  "unread_count (n # ns) = (if notif_read n then unread_count ns else Suc (unread_count ns))"
  by (simp add: unread_count_def)

lemma unread_mark_as_read_le: "unread_count (mark_as_read nid ns) \<le> unread_count ns"
  by (induction ns) (simp_all add: mark_as_read_def)

lemma unread_mark_all [simp]: "unread_count (mark_all_as_read ns) = 0"
  by (induction ns) (simp_all add: mark_all_as_read_def)

lemma map_notif_id_mark_all [simp]: "map notif_id (mark_all_as_read ns) = map notif_id ns"
  by (simp add: mark_all_as_read_def)

lemma unread_delete_le: "unread_count (delete_notification nid ns) \<le> unread_count ns"
  by (induction ns) (simp_all add: delete_notification_def)

lemma notif_step_unread_le: "unread_count (notif_step ns e) \<le> unread_count ns"
  by (cases e) (simp_all add: unread_mark_as_read_le unread_delete_le)

lemma notif_run_unread_le: "unread_count (notif_run ns es) \<le> unread_count ns"
  by (induction es arbitrary: ns) (auto intro: le_trans notif_step_unread_le)

lemma filter_dot_cards:
  "filter nc_dot (map notif_card_of ns) = map notif_card_of (filter (\<lambda>n. \<not> notif_read n) ns)"
  by (induction ns) (simp_all add: notif_card_of_def)

lemma center_badge_counts_dots:
  assumes "center_view True ns = Some v"
  shows "ncv_body v = NoNotifications \<longleftrightarrow> ns = []"
    and "ncv_body v = NotifCards cs \<Longrightarrow> length (filter nc_dot cs) = unread_count ns"
    and "ncv_badge v = (if unread_count ns = 0 then None else Some (unread_count ns))"
  using assms by (auto simp: center_view_def unread_count_def filter_dot_cards split: if_splits)

lemma mock_unread: "unread_count mock_notifications = 2"
  by (simp add: mock_notifications_def)

subsection \<open>Properties of the notification center\<close>

text \<open>
  "Mark all read" leaves nothing unread and keeps every notification, in order, with
  only its read flag changed.
\<close>

theorem mark_all_read_clears:
  "unread_count (notif_step ns MarkAllClick) = 0
   \<and> map notif_id (notif_step ns MarkAllClick) = map notif_id ns"
proof (cases "0 < unread_count ns")
  case True
  then show ?thesis by simp
next
  case False
  then show ?thesis by simp
qed

text \<open>
  C32.  Clicking a card marks exactly the notifications with that id as read: the unread
  count drops by the number of unread ones with that id and all others are unchanged.
\<close>

theorem card_click_marks_read:
  assumes "nid \<in> set (map notif_id ns)"
  shows "unread_count (notif_step ns (CardClick nid)) =
           unread_count ns - length (filter (\<lambda>n. notif_id n = nid \<and> \<not> notif_read n) ns)
    \<and> (\<forall>i < length ns. notif_id (ns ! i) \<noteq> nid \<longrightarrow> notif_step ns (CardClick nid) ! i = ns ! i)"
proof -
  have "unread_count (mark_as_read nid xs) =
      unread_count xs - length (filter (\<lambda>n. notif_id n = nid \<and> \<not> notif_read n) xs)" for xs
  proof (induction xs)
    case Nil
    then show ?case by (simp add: mark_as_read_def)
  next
    case (Cons x xs)
    have "length (filter (\<lambda>n. notif_id n = nid \<and> \<not> notif_read n) xs) \<le> unread_count xs"
      by (induction xs) simp_all
    with Cons show ?case by (simp add: mark_as_read_def Suc_diff_le)
  qed
  with assms show ?thesis by (simp add: mark_as_read_def)
qed

theorem card_click_marks_read_witness:
  "''1'' \<in> set (map notif_id mock_notifications)
   \<and> unread_count (notif_step mock_notifications (CardClick ''1'')) = 1"
proof -
  have h: "''1'' \<in> set (map notif_id mock_notifications)" by (simp add: mock_notifications_def)
  from card_click_marks_read [OF h] h show ?thesis by (simp add: mock_notifications_def)
qed

text \<open>
  Deleting removes every notification with that id and keeps the others in their
  order.
\<close>

theorem delete_removes_id:
  "nid \<notin> set (map notif_id (notif_step ns (DeleteClick nid)))
   \<and> subseq (notif_step ns (DeleteClick nid)) ns
   \<and> (\<forall>n\<in>set ns. notif_id n \<noteq> nid \<longrightarrow> n \<in> set (notif_step ns (DeleteClick nid)))"
  by (auto simp: delete_notification_def)


theorem delete_removes_id_witness:
  "''3'' \<notin> set (map notif_id (notif_step mock_notifications (DeleteClick ''3'')))
   \<and> subseq (notif_step mock_notifications (DeleteClick ''3'')) mock_notifications
   \<and> map notif_id (notif_step mock_notifications (DeleteClick ''3'')) = [''1'', ''2'', ''4'', ''5'']"
proof -
  have "map notif_id (notif_step mock_notifications (DeleteClick ''3'')) = [''1'', ''2'', ''4'', ''5'']"
    by (simp add: mock_notifications_def delete_notification_def)
  with delete_removes_id [where ns = mock_notifications and nid = "''3''"] show ?thesis by blast
qed

end
