(* ===== verification/Navigation.thy ===== *)
theory Navigation
  imports Search Notifications
begin

text \<open>
  The navigation bar, \<^verbatim>\<open>components/Navigation.tsx\<close>.  It owns the search box
  (\<^verbatim>\<open>searchQuery\<close>), whether the search overlay is shown (\<^verbatim>\<open>showSearchResults\<close>)
  and whether the notification center is open (\<^verbatim>\<open>showNotifications\<close>); the center's
  list (\<open>notifications\<close>) is the state of its child \<^verbatim>\<open>NotificationCenter\<close>, which
  stays mounted.  The bell carries a badge with the constant 3 (\<open>navigation_badge\<close>).
  \<open>nav_step\<close> is one user action: typing in the box (\<^verbatim>\<open>handleSearchInputChange\<close>),
  submitting it (\<^verbatim>\<open>handleSearch\<close>), closing the overlay, clicking the bell, closing the
  center, or a click inside the open center (\<open>CenterAction\<close>).  Mounting the search
  overlay fails (\<open>nav_overlay\<close>), so the overlay's own book navigation is never reached.
\<close>

record nav =
  search_query :: string
  show_search_results :: bool
  show_notifications :: bool
  notifications :: "notification list"

datatype nav_event =
    SearchInput string
  | SearchSubmit
  | CloseSearch
  | BellClick
  | CloseNotifications
  | CenterAction notif_event

definition nav_init :: nav where
  "nav_init = \<lparr>search_query = [], show_search_results = False, show_notifications = False,
     notifications = mock_notifications\<rparr>"

definition navigation_badge :: nat where
  "navigation_badge = 3"

fun nav_step :: "nav \<Rightarrow> nav_event \<Rightarrow> nav" where
  "nav_step n (SearchInput v) = n\<lparr>search_query := v, show_search_results := \<not> js_blank v\<rparr>"
| "nav_step n SearchSubmit =
     (if js_blank (search_query n) then n else n\<lparr>show_search_results := True\<rparr>)"
| "nav_step n CloseSearch =
     (if show_search_results n then n\<lparr>show_search_results := False\<rparr> else n)"
| "nav_step n BellClick = n\<lparr>show_notifications := \<not> show_notifications n\<rparr>"
| "nav_step n CloseNotifications =
     (if show_notifications n then n\<lparr>show_notifications := False\<rparr> else n)"
| "nav_step n (CenterAction e) =
     (if show_notifications n then n\<lparr>notifications := notif_step (notifications n) e\<rparr> else n)"

fun nav_run :: "nav \<Rightarrow> nav_event list \<Rightarrow> nav" where
  "nav_run n [] = n"
| "nav_run n (e # es) = nav_run (nav_step n e) es"

definition overlay_query_ok :: "nav \<Rightarrow> bool" where
  "overlay_query_ok n \<longleftrightarrow> \<not> show_search_results n \<or> \<not> js_blank (search_query n)"




subsection \<open>Helper facts\<close>

lemma nav_step_overlay_query_ok: "overlay_query_ok n \<Longrightarrow> overlay_query_ok (nav_step n e)"
  by (cases e) (auto simp: overlay_query_ok_def)

lemma nav_run_overlay_query_ok: "overlay_query_ok n \<Longrightarrow> overlay_query_ok (nav_run n es)"
  by (induction es arbitrary: n) (simp_all add: nav_step_overlay_query_ok)

lemma nav_init_overlay_query_ok [simp]: "overlay_query_ok nav_init"
  by (simp add: overlay_query_ok_def nav_init_def)

lemma nav_step_unread_le:
  "unread_count (notifications (nav_step n e)) \<le> unread_count (notifications n)"
  by (cases e) (simp_all add: notif_step_unread_le)

lemma nav_run_unread_le:
  "unread_count (notifications (nav_run n es)) \<le> unread_count (notifications n)"
  by (induction es arbitrary: n) (auto intro: le_trans nav_step_unread_le)

subsection \<open>Properties of the navigation bar\<close>

text \<open>
  C31.  The bell badge is the constant 3, while the center starts with two unread
  notifications and no action of the bar or of the center ever adds an unread one: whatever
  the user does, the badge overstates the unread count.
\<close>

theorem badge_overstates_unread:
  "unread_count (notifications (nav_run nav_init es)) < navigation_badge"
  using nav_run_unread_le [of nav_init es] mock_unread
  by (simp add: navigation_badge_def nav_init_def)

text \<open>
  C33.  Whenever the bar shows the search overlay, its query is not blank, so the overlay
  always takes the filtering branch of its effect: the branch of \<^verbatim>\<open>SearchResults\<close> that
  shows the whole catalog for a blank query is never reached from the bar.
\<close>

theorem overlay_always_filters:
  assumes "show_search_results (nav_run nav_init es)"
  shows "search_books cat (search_query (nav_run nav_init es)) =
    filter (book_matches (js_lower (search_query (nav_run nav_init es)))) cat"
proof -
  have "overlay_query_ok (nav_run nav_init es)" by (rule nav_run_overlay_query_ok) simp
  with assms show ?thesis by (simp add: overlay_query_ok_def search_books_def)
qed

theorem overlay_always_filters_witness:
  "show_search_results (nav_run nav_init [SearchInput ''sci''])
   \<and> search_books [] (search_query (nav_run nav_init [SearchInput ''sci''])) = []"
proof -
  have h: "show_search_results (nav_run nav_init [SearchInput ''sci''])"
    by (simp add: js_blank_iff is_js_space_def)
  from overlay_always_filters [OF h, of "[]"] h show ?thesis by simp
qed

text \<open>
  The two overlays do not coordinate: the bell never changes the search state and
  typing never changes the notification state, so the search overlay and the notification
  center can be open at the same time, as the spec documents.
\<close>

theorem overlays_independent:
  "search_query (nav_step n BellClick) = search_query n
   \<and> show_search_results (nav_step n BellClick) = show_search_results n
   \<and> show_notifications (nav_step n (SearchInput v)) = show_notifications n
   \<and> show_search_results (nav_run nav_init [SearchInput ''sci'', BellClick])
   \<and> show_notifications (nav_run nav_init [SearchInput ''sci'', BellClick])"
  by (simp add: nav_init_def js_blank_iff is_js_space_def)



end
