(* ===== verification/ReadingLists.thy ===== *)
theory ReadingLists
  imports Js_Builtins
begin

text \<open>
  The reading-list dialog, \<^verbatim>\<open>components/ReadingListModal.tsx\<close>.  Its state
  (\<open>rl_modal\<close>) is the list of reading lists, starting as \<^verbatim>\<open>mockReadingLists\<close>
  (\<open>mock_reading_lists\<close>), the text of the create form and whether that form is shown;
  \<open>modal_open\<close> is the \<^verbatim>\<open>isOpen\<close> prop, which the owner sets and which
  \<^verbatim>\<open>onClose\<close> clears.  The dialog is mounted while closed (it renders \<^verbatim>\<open>null\<close>), so its
  lists survive closing.  The optional \<^verbatim>\<open>bookId\<close> prop is a parameter of every step: with
  a book, clicking a list adds the book to it (\<^verbatim>\<open>addToList\<close>, which also closes the
  dialog); without one, each list shows a delete button (\<^verbatim>\<open>deleteList\<close>).  Toasts are
  messages only and are not modelled.  Membership is a count (\<open>book_count\<close>): the
  abstraction \<open>rl_counts\<close> maps each id to its count, and the handlers refine map updates.
\<close>

record reading_list =
  rl_id :: id
  rl_name :: string
  rl_description :: string
  book_count :: nat
  is_public :: bool

record rl_modal =
  reading_lists :: "reading_list list"
  new_list_name :: string
  show_create_form :: bool
  modal_open :: bool

datatype rl_event =
    OpenModal | CloseModal | ShowCreateForm | EditListName string | CreateList nat
  | CancelCreate | ListCardClick id | DeleteListClick id

definition mock_reading_lists :: "reading_list list" where
  "mock_reading_lists =
    [\<lparr>rl_id = ''1'', rl_name = ''Want to Read'', rl_description = ''Books I plan to read soon'',
      book_count = 12, is_public = False\<rparr>,
     \<lparr>rl_id = ''2'', rl_name = ''Favorites'', rl_description = ''My all-time favorite books'',
      book_count = 8, is_public = True\<rparr>,
     \<lparr>rl_id = ''3'', rl_name = ''Science Fiction'', rl_description = ''Sci-fi collection'',
      book_count = 15, is_public = True\<rparr>]"

definition rl_init :: rl_modal where
  "rl_init = \<lparr>reading_lists = mock_reading_lists, new_list_name = [],
     show_create_form = False, modal_open = False\<rparr>"

text \<open>JavaScript truthiness of an optional string prop: absent and \<^verbatim>\<open>''\<close> are false.\<close>

definition str_truthy :: "string option \<Rightarrow> bool" where
  "str_truthy s = (case s of None \<Rightarrow> False | Some v \<Rightarrow> v \<noteq> [])"

definition new_list :: "nat \<Rightarrow> string \<Rightarrow> id option \<Rightarrow> reading_list" where
  "new_list now name book_id =
     \<lparr>rl_id = nat_str now, rl_name = name, rl_description = ''Custom reading list: '' @ name,
      book_count = (if str_truthy book_id then 1 else 0), is_public = False\<rparr>"

definition create_new_list :: "nat \<Rightarrow> id option \<Rightarrow> rl_modal \<Rightarrow> rl_modal" where
  "create_new_list now book_id s =
     (if js_blank (new_list_name s) then s
      else s\<lparr>reading_lists := reading_lists s @ [new_list now (new_list_name s) book_id],
             new_list_name := [], show_create_form := False\<rparr>)"

definition add_to_list :: "id \<Rightarrow> rl_modal \<Rightarrow> rl_modal" where
  "add_to_list list_id s =
     s\<lparr>reading_lists := map_where (\<lambda>l. rl_id l = list_id) (\<lambda>l. l\<lparr>book_count := book_count l + 1\<rparr>)
                          (reading_lists s),
       modal_open := False\<rparr>"

definition delete_list :: "id \<Rightarrow> rl_modal \<Rightarrow> rl_modal" where
  "delete_list list_id s = s\<lparr>reading_lists := filter (\<lambda>l. rl_id l \<noteq> list_id) (reading_lists s)\<rparr>"

text \<open>
  One user action on the dialog.  While closed it renders nothing, so only the owner's
  \<open>OpenModal\<close> acts.  The name input and the Create and Cancel buttons exist only while the
  form is shown, the "Create New Reading List" button only while it is not; a card click
  runs \<^verbatim>\<open>bookId && addToList(...)\<close>, and the delete button is rendered only without a book.
\<close>

fun rl_step :: "id option \<Rightarrow> rl_modal \<Rightarrow> rl_event \<Rightarrow> rl_modal" where
  "rl_step bid s OpenModal = s\<lparr>modal_open := True\<rparr>"
| "rl_step bid s e =
     (if \<not> modal_open s then s else
      (case e of
         CloseModal \<Rightarrow> s\<lparr>modal_open := False\<rparr>
       | ShowCreateForm \<Rightarrow> (if show_create_form s then s else s\<lparr>show_create_form := True\<rparr>)
       | EditListName v \<Rightarrow> (if show_create_form s then s\<lparr>new_list_name := v\<rparr> else s)
       | CreateList now \<Rightarrow> (if show_create_form s then create_new_list now bid s else s)
       | CancelCreate \<Rightarrow>
           (if show_create_form s then s\<lparr>show_create_form := False, new_list_name := []\<rparr> else s)
       | ListCardClick lid \<Rightarrow>
           (if lid \<in> set (map rl_id (reading_lists s)) \<and> str_truthy bid then add_to_list lid s else s)
       | DeleteListClick lid \<Rightarrow>
           (if lid \<in> set (map rl_id (reading_lists s)) \<and> \<not> str_truthy bid then delete_list lid s
            else s)
       | OpenModal \<Rightarrow> s))"

fun rl_run :: "id option \<Rightarrow> rl_modal \<Rightarrow> rl_event list \<Rightarrow> rl_modal" where
  "rl_run bid s [] = s"
| "rl_run bid s (e # es) = rl_run bid (rl_step bid s e) es"

text \<open>The abstraction: the count of each list, by id (the first list with an id wins).\<close>

definition rl_counts :: "reading_list list \<Rightarrow> id \<rightharpoonup> nat" where
  "rl_counts ls = map_of (map (\<lambda>l. (rl_id l, book_count l)) ls)"

text \<open>
  The ids are \<^verbatim>\<open>Date.now()\<close> strings.  They stay distinct when the clock reads more than
  every earlier id at each creation: \<open>clock_ok t es\<close> says the timestamps of the
  \<open>CreateList\<close> events of \<open>es\<close> increase strictly, starting above \<open>t\<close>.
\<close>

fun clock_ok :: "nat \<Rightarrow> rl_event list \<Rightarrow> bool" where
  "clock_ok t [] = True"
| "clock_ok t (CreateList now # es) = (t < now \<and> clock_ok now es)"
| "clock_ok t (e # es) = clock_ok t es"

definition ids_below :: "nat \<Rightarrow> reading_list list \<Rightarrow> bool" where
  "ids_below t ls \<longleftrightarrow> (\<forall>l\<in>set ls. \<exists>k\<le>t. rl_id l = nat_str k)"

subsection \<open>Helper facts\<close>

lemma rl_counts_Nil [simp]: "rl_counts [] = Map.empty"
  by (simp add: rl_counts_def)

lemma rl_counts_Cons [simp]:
  "rl_counts (l # ls) = (rl_counts ls)(rl_id l \<mapsto> book_count l)"
  by (simp add: rl_counts_def)

lemma rl_counts_increment:
  "rl_counts ls lid = Some c \<Longrightarrow>
   rl_counts (map_where (\<lambda>l. rl_id l = lid) (\<lambda>l. l\<lparr>book_count := book_count l + 1\<rparr>) ls)
     = (rl_counts ls)(lid \<mapsto> c + 1)"
proof (induction ls)
  case Nil
  then show ?case by simp
next
  case (Cons l ls)
  show ?case
  proof (cases "rl_id l = lid")
    case True
    with Cons.prems have "c = book_count l" by simp
    moreover have "(rl_counts (map_where (\<lambda>l. rl_id l = lid)
        (\<lambda>l. l\<lparr>book_count := book_count l + 1\<rparr>) ls))(lid \<mapsto> book_count l + 1)
      = (rl_counts ls)(lid \<mapsto> book_count l + 1)"
    proof
      fix x
      show "((rl_counts (map_where (\<lambda>l. rl_id l = lid)
          (\<lambda>l. l\<lparr>book_count := book_count l + 1\<rparr>) ls))(lid \<mapsto> book_count l + 1)) x
        = ((rl_counts ls)(lid \<mapsto> book_count l + 1)) x"
        by (induction ls) auto
    qed
    ultimately show ?thesis using True by (simp add: fun_eq_iff)
  next
    case False
    with Cons show ?thesis by (auto simp: fun_upd_twist)
  qed
qed

lemma rl_counts_filter:
  "rl_counts (filter (\<lambda>l. rl_id l \<noteq> lid) ls) = (rl_counts ls)(lid := None)"
  by (induction ls) (auto simp: fun_upd_twist)

lemma map_rl_id_increment [simp]:
  "map rl_id (map_where P (\<lambda>l. l\<lparr>book_count := f l\<rparr>) ls) = map rl_id ls"
  by (rule map_where_keeps_key) simp

lemma rl_id_new_list [simp]: "rl_id (new_list now name bid) = nat_str now"
  by (simp add: new_list_def)

lemma ids_below_mono: "ids_below t ls \<Longrightarrow> t \<le> t' \<Longrightarrow> ids_below t' ls"
  unfolding ids_below_def by (meson order_trans)

lemma ids_below_fresh: "ids_below t ls \<Longrightarrow> t < now \<Longrightarrow> nat_str now \<notin> set (map rl_id ls)"
  unfolding ids_below_def by (auto simp: nat_str_inj)

lemma ids_below_map_where:
  "ids_below t (map_where P (\<lambda>l. l\<lparr>book_count := f l\<rparr>) ls) = ids_below t ls"
  by (induction ls) (auto simp: ids_below_def)

lemma ids_below_filter: "ids_below t ls \<Longrightarrow> ids_below t (filter P ls)"
  unfolding ids_below_def by auto

lemma ids_below_snoc:
  "ids_below t ls \<Longrightarrow> t < now \<Longrightarrow> ids_below now (ls @ [new_list now name bid])"
  using ids_below_mono [of t ls now] by (auto simp: ids_below_def new_list_def)

lemma mock_ids_below: "ids_below 3 mock_reading_lists"
proof -
  have "nat_str 1 = ''1''" "nat_str 2 = ''2''" "nat_str 3 = ''3''" by code_simp+
  then show ?thesis
    unfolding ids_below_def mock_reading_lists_def
    apply simp
    apply (intro conjI)
    subgoal by (rule exI [of _ 1]) simp
    subgoal by (rule exI [of _ 2]) simp
    subgoal by (rule exI [of _ 3]) simp
    done
qed

text \<open>Fresh ids: one step keeps the ids distinct and below the clock it has read.\<close>

definition clock_after :: "nat \<Rightarrow> rl_event \<Rightarrow> nat" where
  "clock_after t e = (case e of CreateList now \<Rightarrow> now | _ \<Rightarrow> t)"

lemma rl_step_ids:
  assumes "distinct (map rl_id (reading_lists s))" "ids_below t (reading_lists s)"
    and "clock_ok t (e # es)"
  shows "distinct (map rl_id (reading_lists (rl_step bid s e)))
         \<and> ids_below (clock_after t e) (reading_lists (rl_step bid s e))
         \<and> clock_ok (clock_after t e) es"
proof (cases e)
  case (CreateList now)
  with assms have "t < now" "clock_ok now es" by simp_all
  moreover from assms(2) \<open>t < now\<close> have "ids_below now (reading_lists s)"
    by (simp add: ids_below_mono)
  moreover from assms(2) \<open>t < now\<close> have "nat_str now \<notin> set (map rl_id (reading_lists s))"
    by (rule ids_below_fresh)
  ultimately show ?thesis using assms CreateList
    by (auto simp: clock_after_def create_new_list_def ids_below_snoc ids_below_fresh
        dest: ids_below_fresh [where now = now])
qed (use assms in \<open>auto simp: clock_after_def add_to_list_def delete_list_def
       ids_below_map_where ids_below_filter distinct_map_filter\<close>)


lemma rl_run_ids:
  "distinct (map rl_id (reading_lists s)) \<Longrightarrow> ids_below t (reading_lists s) \<Longrightarrow> clock_ok t es
   \<Longrightarrow> distinct (map rl_id (reading_lists (rl_run bid s es)))"
proof (induction es arbitrary: s t)
  case Nil
  then show ?case by simp
next
  case (Cons e es)
  from rl_step_ids [OF Cons.prems, of bid] show ?case using Cons.IH by auto
qed

lemma rl_counts_None: "lid \<notin> set (map rl_id ls) \<Longrightarrow> rl_counts ls lid = None"
  by (induction ls) auto

lemma rl_counts_Some_id: "rl_counts ls lid = Some c \<Longrightarrow> lid \<in> set (map rl_id ls)"
  using rl_counts_None by fastforce

lemma rl_counts_snoc_fresh:
  "rl_id l \<notin> set (map rl_id ls) \<Longrightarrow> rl_counts (ls @ [l]) = (rl_counts ls)(rl_id l \<mapsto> book_count l)"
  by (induction ls) (auto simp: fun_upd_twist)

subsection \<open>Properties of the reading lists\<close>

text \<open>
  C34.  The ids of the reading lists stay distinct from the start, as long as the clock
  read by each creation is later than every earlier one and than the mock ids 1 to 3.
\<close>

theorem rl_ids_distinct:
  "clock_ok 3 es \<Longrightarrow> distinct (map rl_id (reading_lists (rl_run bid rl_init es)))"
  by (rule rl_run_ids) (simp_all add: rl_init_def mock_ids_below, simp add: mock_reading_lists_def)

theorem rl_ids_distinct_witness:
  "clock_ok 3 [OpenModal, ShowCreateForm, EditListName ''Poetry'', CreateList 1000]
   \<and> distinct (map rl_id (reading_lists
       (rl_run None rl_init [OpenModal, ShowCreateForm, EditListName ''Poetry'', CreateList 1000])))"
proof -
  have h: "clock_ok 3 [OpenModal, ShowCreateForm, EditListName ''Poetry'', CreateList 1000]" by simp
  from h rl_ids_distinct [OF h, of None] show ?thesis by blast
qed

text \<open>
  Adding the shown book to a list refines a map update: the count of that list goes
  up by one, every other count is unchanged, and the dialog closes.
\<close>

theorem add_to_list_refines:
  assumes "str_truthy bid" "modal_open s" "rl_counts (reading_lists s) lid = Some c"
  shows "rl_counts (reading_lists (rl_step bid s (ListCardClick lid)))
           = (rl_counts (reading_lists s))(lid \<mapsto> c + 1)
         \<and> \<not> modal_open (rl_step bid s (ListCardClick lid))"
  using assms rl_counts_Some_id [OF assms(3)] rl_counts_increment [OF assms(3)]
  by (simp add: add_to_list_def)

theorem add_to_list_refines_witness:
  "rl_counts (reading_lists (rl_step (Some ''7'') (rl_init\<lparr>modal_open := True\<rparr>) (ListCardClick ''2'')))
     ''2'' = Some 9"
proof -
  have h: "str_truthy (Some ''7'')" "modal_open (rl_init\<lparr>modal_open := True\<rparr>)"
    "rl_counts (reading_lists (rl_init\<lparr>modal_open := True\<rparr>)) ''2'' = Some 8"
    by (simp_all add: str_truthy_def rl_init_def mock_reading_lists_def)
  from add_to_list_refines [OF h] show ?thesis by simp
qed

text \<open>
  Deleting a list (possible only when the dialog is opened without a book) refines
  removing its id from the map; with a book the delete button is not there and nothing
  changes.
\<close>

theorem delete_list_refines:
  assumes "modal_open s"
  shows "rl_counts (reading_lists (rl_step bid s (DeleteListClick lid)))
           = (if str_truthy bid then rl_counts (reading_lists s) else (rl_counts (reading_lists s))(lid := None))"
proof (cases "lid \<in> set (map rl_id (reading_lists s))")
  case True
  with assms show ?thesis by (simp add: delete_list_def rl_counts_filter)
next
  case False
  with assms rl_counts_None [OF False] show ?thesis by (auto simp: fun_upd_idem)
qed

theorem delete_list_refines_witness:
  "rl_counts (reading_lists (rl_step None (rl_init\<lparr>modal_open := True\<rparr>) (DeleteListClick ''3''))) ''3''
     = None
   \<and> rl_counts (reading_lists (rl_step (Some ''7'') (rl_init\<lparr>modal_open := True\<rparr>) (DeleteListClick ''3'')))
     ''3'' = Some 15"
proof -
  have h: "modal_open (rl_init\<lparr>modal_open := True\<rparr>)" by simp
  have c: "rl_counts (reading_lists (rl_init\<lparr>modal_open := True\<rparr>)) ''3'' = Some 15"
    by (simp add: rl_init_def mock_reading_lists_def)
  from delete_list_refines [OF h, of None "''3''"] delete_list_refines [OF h, of "Some ''7''" "''3''"] c
  show ?thesis by (simp add: str_truthy_def)
qed

text \<open>
  Creating a list with a non-blank name and a fresh clock appends it, adds its id to
  the map with count 1 if a book is shown and 0 otherwise, clears and hides the form, and,
  unlike adding to a list, keeps the dialog open.
\<close>

theorem create_list_refines:
  assumes "modal_open s" "show_create_form s" "\<not> js_blank (new_list_name s)"
    and "ids_below t (reading_lists s)" "t < now"
  shows "rl_counts (reading_lists (rl_step bid s (CreateList now)))
           = (rl_counts (reading_lists s))(nat_str now \<mapsto> (if str_truthy bid then 1 else 0))
         \<and> new_list_name (rl_step bid s (CreateList now)) = []
         \<and> \<not> show_create_form (rl_step bid s (CreateList now))
         \<and> modal_open (rl_step bid s (CreateList now))"
proof -
  have "nat_str now \<notin> set (map rl_id (reading_lists s))" using assms(4,5) by (rule ids_below_fresh)
  with rl_counts_snoc_fresh [of "new_list now (new_list_name s) bid" "reading_lists s"] assms(1-3)
  show ?thesis by (simp add: create_new_list_def new_list_def)
qed

theorem create_list_refines_witness:
  "rl_counts (reading_lists (rl_step (Some ''7'')
      (rl_init\<lparr>modal_open := True, show_create_form := True, new_list_name := ''Poetry''\<rparr>)
      (CreateList 1000))) (nat_str 1000) = Some 1"
proof -
  let ?s = "rl_init\<lparr>modal_open := True, show_create_form := True, new_list_name := ''Poetry''\<rparr>"
  have h: "modal_open ?s" "show_create_form ?s" "\<not> js_blank (new_list_name ?s)"
    "ids_below 3 (reading_lists ?s)" "(3::nat) < 1000"
    by (simp_all add: js_blank_iff is_js_space_def rl_init_def mock_ids_below)
  from create_list_refines [OF h, of "Some ''7''"] show ?thesis by (simp add: str_truthy_def)
qed


lemma rl_step_numeral:
  "list_all (\<lambda>l. is_numeral (rl_id l)) (reading_lists s)
   \<Longrightarrow> list_all (\<lambda>l. is_numeral (rl_id l)) (reading_lists (rl_step bid s e))"
  by (cases e) (auto simp: create_new_list_def add_to_list_def delete_list_def new_list_def
      list_all_iff map_where_def)

text \<open>
  C35.  Every reading-list id, in every run from the mock lists, is a decimal numeral, the
  form \<^verbatim>\<open>Date.now().toString()\<close> gives it.
\<close>

theorem rl_ids_numeral:
  "list_all (\<lambda>l. is_numeral (rl_id l)) (reading_lists (rl_run bid rl_init es))"
proof -
  have "list_all (\<lambda>l. is_numeral (rl_id l)) (reading_lists s)
        \<Longrightarrow> list_all (\<lambda>l. is_numeral (rl_id l)) (reading_lists (rl_run bid s es))" for s
    by (induction es arbitrary: s) (simp_all add: rl_step_numeral)
  moreover have "list_all (\<lambda>l. is_numeral (rl_id l)) (reading_lists rl_init)"
    unfolding rl_init_def mock_reading_lists_def by code_simp
  ultimately show ?thesis .
qed

end
