(* ===== verification/BookCard.thy ===== *)
theory BookCard
  imports Numbers Catalog
begin

text \<open>
  The book card, \<^verbatim>\<open>components/BookCard.tsx\<close>, and the grid of cards of
  \<^verbatim>\<open>components/BookGrid.tsx\<close>.  \<^verbatim>\<open>new Date()\<close> and \<^verbatim>\<open>new Date(date)\<close>
  are inputs, the two times in milliseconds (\<open>now\<close>, \<open>up\<close>); the grid reads each book's
  upload time through the parse function \<open>parse\<close>.  The day count is
  \<^verbatim>\<open>Math.ceil(Math.abs(now - up) / 86400000)\<close>; \<open>diff_days\<close> reads the quotient as an
  exact rational.  For differences below \<open>2^53\<close> ms the double subtraction is exact and
  the rounded double quotient lies strictly between the same two integers as the exact
  one (its rounding error is below \<open>1/86400000\<close>), so the ceiling is the same.
  \<^verbatim>\<open>formatViews\<close> (\<open>format_views\<close>) divides by \<open>10^6\<close> or \<open>10^3\<close> in doubles and prints
  with \<^verbatim>\<open>toFixed(1)\<close> (theory \<open>Numbers\<close>).  The card (\<open>book_card\<close>) is the record of what
  it displays.  Its like, share and bookmark buttons stop the click and do nothing.
\<close>

definition ms_per_day :: int where
  "ms_per_day = 1000 * 60 * 60 * 24"

definition diff_days :: "int \<Rightarrow> int \<Rightarrow> nat" where
  "diff_days now up = nat \<lceil>(of_int \<bar>now - up\<bar> :: rat) / of_int ms_per_day\<rceil>"

definition plural :: "nat \<Rightarrow> string" where
  "plural k = (if k > 1 then ''s'' else [])"

definition format_relative_date :: "int \<Rightarrow> int \<Rightarrow> string" where
  "format_relative_date now up =
     (let d = diff_days now up in
      if d = 1 then ''1 day ago''
      else if d < 7 then nat_str d @ '' days ago''
      else if d < 30 then nat_str (d div 7) @ '' week'' @ plural (d div 7) @ '' ago''
      else nat_str (d div 30) @ '' month'' @ plural (d div 30) @ '' ago'')"

definition card_tag_badges :: "string list \<Rightarrow> string list" where
  "card_tag_badges ts = js_slice ts 0 3"

definition card_more_badge :: "string list \<Rightarrow> string option" where
  "card_more_badge ts =
     (if length ts > 3 then Some (''+'' @ nat_str (length ts - 3) @ '' more'') else None)"

definition format_views :: "nat \<Rightarrow> string" where
  "format_views v =
     (let x = int v in
      if 1000000 \<le> x then js_to_fixed1 (js_round x 1000000) @ ''M''
      else if 1000 \<le> x then js_to_fixed1 (js_round x 1000) @ ''K''
      else nat_str v)"

record card_view =
  card_duration :: string
  card_heart_filled :: bool
  card_bookmark_filled :: bool
  card_title :: string
  card_byline :: string
  card_uploader :: string
  card_views_label :: string
  card_date_label :: string
  card_description :: string
  card_badges :: "string list"
  card_more :: "string option"

definition book_card :: "int \<Rightarrow> int \<Rightarrow> bool \<Rightarrow> bool \<Rightarrow> book \<Rightarrow> card_view" where
  "book_card now up is_liked is_bookmarked b =
     \<lparr>card_duration = book_duration b, card_heart_filled = is_liked,
      card_bookmark_filled = is_bookmarked, card_title = book_title b,
      card_byline = ''by '' @ book_author b, card_uploader = book_uploader b,
      card_views_label = format_views (book_views b) @ '' views'',
      card_date_label = format_relative_date now up, card_description = book_description b,
      card_badges = card_tag_badges (book_tags b), card_more = card_more_badge (book_tags b)\<rparr>"

text \<open>
  \<^verbatim>\<open>BookGrid\<close> spreads each book into the card's props.  The catalog's book record has no
  \<^verbatim>\<open>isLiked\<close> or \<^verbatim>\<open>isBookmarked\<close> field, so the card's defaults (\<open>False\<close>) apply.
\<close>

definition grid_cards :: "int \<Rightarrow> (string \<Rightarrow> int) \<Rightarrow> book list \<Rightarrow> card_view list" where
  "grid_cards now parse books = map (\<lambda>b. book_card now (parse (book_upload_date b)) False False b) books"

subsection \<open>Helper facts\<close>

lemma ceiling_of_int_div:
  assumes "0 < b"
  shows "\<lceil>(of_int a :: rat) / of_int b\<rceil> = (a + b - 1) div b"
proof (rule ceiling_unique)
  let ?q = "(a + b - 1) div b" and ?r = "(a + b - 1) mod b"
  have d: "a + b - 1 = ?q * b + ?r" by (rule div_mult_mod_eq [symmetric])
  have r: "0 \<le> ?r" "?r < b" using assms by simp_all
  have "?q * b - b < a" using d r by linarith
  then have i1: "(?q - 1) * b < a" by (simp add: algebra_simps)
  have i2: "a \<le> ?q * b" using d r by linarith
  have b: "(0::rat) < of_int b" using assms by simp
  from i1 have "(of_int (?q - 1) :: rat) * of_int b < of_int a"
    by (metis of_int_less_iff of_int_mult)
  with b show "of_int ?q - 1 < (of_int a :: rat) / of_int b"
    by (simp add: pos_less_divide_eq)
  from i2 have "(of_int a :: rat) \<le> of_int ?q * of_int b"
    by (metis of_int_le_iff of_int_mult)
  with b show "(of_int a :: rat) / of_int b \<le> of_int ?q"
    by (simp add: pos_divide_le_eq)
qed

lemma format_views_unit:
  assumes "0 < v" "int v < b * 2 ^ t" "t \<le> 48" "0 < b" "b = 10 * int u" "u dvd v"
  shows "js_to_fixed1 (js_round (int v) b) = nat_str (v div (10 * u)) @ ''.'' @ nat_str (v div u mod 10)"
proof -
  obtain c where c: "v = u * c" using assms(6) by blast
  have "10 * int v = int c * b" using assms(5) c by simp
  then have "js_to_fixed1 (js_round (int v) b) = nat_str (c div 10) @ ''.'' @ nat_str (c mod 10)"
    using to_fixed1_exact [of "int v" b "int c", OF _ assms(4) _ assms(2,3)] assms(1) by simp
  moreover have "0 < u" using assms(4,5) by simp
  then have "v div (10 * u) = c div 10" "v div u = c"
    using c by (simp_all add: mult.commute [of 10 u])
  ultimately show ?thesis by simp
qed

subsection \<open>Properties of the card\<close>

text \<open>
  The day count of the card, the ceiling of a rational quotient in the code, equals
  the integer formula \<open>(|now - up| + 86399999) div 86400000\<close>.
\<close>

theorem diff_days_int: "diff_days now up = (nat \<bar>now - up\<bar> + 86399999) div 86400000"
proof -
  have "\<lceil>(of_int \<bar>now - up\<bar> :: rat) / of_int 86400000\<rceil> = (\<bar>now - up\<bar> + 86399999) div 86400000"
    using ceiling_of_int_div [of 86400000 "\<bar>now - up\<bar>"] by simp
  then show ?thesis unfolding diff_days_def ms_per_day_def by (simp add: nat_div_distrib)
qed

text \<open>
  C37.  The relative date rounds every elapsed time up to whole days, reads the distance
  without its sign, and counts in 30-day months without years: an upload up to one day
  old (but not of this very millisecond) reads "1 day ago", one of the same instant
  "0 days ago", a future date reads like a past one, and anything older than 360 days
  reads as twelve or more months.
\<close>

theorem relative_date_labels:
  "(0 < \<bar>now - up\<bar> \<and> \<bar>now - up\<bar> \<le> 86400000 \<longrightarrow> format_relative_date now up = ''1 day ago'')
   \<and> (now = up \<longrightarrow> format_relative_date now up = ''0 days ago'')
   \<and> format_relative_date up now = format_relative_date now up
   \<and> (360 * 86400000 < \<bar>now - up\<bar> \<longrightarrow>
        (\<exists>k \<ge> 12. format_relative_date now up = nat_str k @ '' months ago''))"
proof -
  have D: "diff_days now up = (nat \<bar>now - up\<bar> + 86399999) div 86400000" by (rule diff_days_int)
  have one: "format_relative_date now up = ''1 day ago''" if "0 < \<bar>now - up\<bar>" "\<bar>now - up\<bar> \<le> 86400000"
  proof -
    have "(nat \<bar>now - up\<bar> + 86399999) div 86400000 = 1" using that by (intro div_nat_eqI) auto
    then show ?thesis by (simp add: format_relative_date_def D)
  qed
  have zero: "format_relative_date up up = ''0 days ago''"
  proof -
    have "nat_str 0 = ''0''" by code_simp
    then show ?thesis by (simp add: format_relative_date_def diff_days_int)
  qed
  have sym: "diff_days up now = diff_days now up" by (simp add: diff_days_def abs_minus_commute)
  have months: "\<exists>k \<ge> 12. format_relative_date now up = nat_str k @ '' months ago''"
    if "360 * 86400000 < \<bar>now - up\<bar>"
  proof -
    have "361 * 86400000 \<le> nat \<bar>now - up\<bar> + 86399999" using that by linarith
    then have "361 \<le> diff_days now up" unfolding D by (simp add: less_eq_div_iff_mult_less_eq)
    then have "30 \<le> diff_days now up" "12 \<le> diff_days now up div 30" by auto
    then show ?thesis by (auto simp: format_relative_date_def plural_def Let_def)
  qed
  show ?thesis using one zero months by (auto simp: format_relative_date_def sym)
qed

theorem relative_date_labels_witness:
  "format_relative_date 60000 0 = ''1 day ago''"
proof -
  have "0 < \<bar>(60000::int) - 0\<bar> \<and> \<bar>(60000::int) - 0\<bar> \<le> 86400000" by simp
  with conjunct1 [OF relative_date_labels [of "60000::int" 0]] show ?thesis by blast
qed

text \<open>
  C24.  A view count below \<open>2^53\<close> that is a multiple of the unit of its last printed
  digit (100 below a million, 100000 from a million on) prints as its exact value in
  thousands or millions with one decimal: the double quotient and \<^verbatim>\<open>toFixed(1)\<close> lose
  nothing there.
\<close>

theorem format_views_exact:
  assumes "1000 \<le> v" "v < 2 ^ 53" "u = (if 1000000 \<le> v then 100000 else 100)" "u dvd v"
  shows "format_views v =
    nat_str (v div (10 * u)) @ ''.'' @ nat_str (v div u mod 10) @ (if 1000000 \<le> v then ''M'' else ''K'')"
proof (cases "1000000 \<le> v")
  case True
  then have "js_to_fixed1 (js_round (int v) 1000000) = nat_str (v div (10 * u)) @ ''.'' @ nat_str (v div u mod 10)"
    using assms by (intro format_views_unit [where t = 34]) simp_all
  with True show ?thesis by (simp add: format_views_def)
next
  case False
  then have "js_to_fixed1 (js_round (int v) 1000) = nat_str (v div (10 * u)) @ ''.'' @ nat_str (v div u mod 10)"
    using assms by (intro format_views_unit [where t = 10]) simp_all
  with False assms(1) show ?thesis by (simp add: format_views_def)
qed

theorem format_views_exact_witness:
  "format_views 12500 = nat_str 12 @ ''.'' @ nat_str 5 @ ''K''
   \<and> format_views 2400000 = nat_str 2 @ ''.'' @ nat_str 4 @ ''M''"
  using format_views_exact [of 12500 100] format_views_exact [of 2400000 100000] by simp

text \<open>
  C30.  Between a thousand and a million views \<^verbatim>\<open>formatViews\<close> prints the count rounded to
  the nearest hundred, in thousands with one decimal, for every count that is not exactly
  halfway between two hundreds: the double quotient and \<^verbatim>\<open>toFixed(1)\<close> round as decimal
  arithmetic does there.  So every count from 999951 to 999999 prints "1000.0K" and not
  "1.0M": the switch to millions comes after the rounding.
\<close>

theorem format_views_rounds:
  assumes "1000 \<le> v" "v < 1000000" "v mod 100 \<noteq> 50"
  shows "format_views v = nat_str ((v + 50) div 1000) @ ''.'' @ nat_str ((v + 50) div 100 mod 10) @ ''K''
         \<and> (999950 \<le> v \<longrightarrow> format_views v = ''1000.0K'')"
proof -
  define N where "N = (v + 50) div 100"
  have "(v + 50) mod 100 \<noteq> 0" using assms(3) by presburger
  moreover have dm: "100 * N + (v + 50) mod 100 = v + 50"
    unfolding N_def using div_mult_mod_eq [of "v + 50" 100] by (simp add: mult.commute)
  moreover have "(v + 50) mod 100 < 100" by simp
  ultimately have lo: "100 * N < v + 50" and hi: "v + 50 < 100 * N + 100" by linarith+
  have "js_to_fixed1 (js_round (int v) 1000) = nat_str (nat (int N) div 10) @ ''.'' @ nat_str (nat (int N) mod 10)"
    using lo hi assms(1,2) by (intro to_fixed1_near [where t = 10]) simp_all
  moreover have "N div 10 = (v + 50) div 1000" by (simp add: N_def div_mult2_eq)
  ultimately have f: "format_views v = nat_str ((v + 50) div 1000) @ ''.'' @ nat_str ((v + 50) div 100 mod 10) @ ''K''"
    using assms(1,2) by (simp add: format_views_def N_def)
  moreover have "format_views v = ''1000.0K''" if "999950 \<le> v"
  proof -
    have "v \<noteq> 999950" using assms(3) by auto
    then have "999951 \<le> v" using that by linarith
    then have "(v + 50) div 1000 = 1000" "(v + 50) div 100 = 10000"
      using assms(2) by (intro div_nat_eqI; simp)+
    moreover have "nat_str 1000 = ''1000''" "nat_str 0 = ''0''" by code_simp+
    ultimately show ?thesis using f by simp
  qed
  ultimately show ?thesis by blast
qed

theorem format_views_rounds_witness:
  "format_views 999960 = ''1000.0K'' \<and> format_views 12345 = nat_str 12 @ ''.'' @ nat_str 3 @ ''K''"
proof -
  have a: "1000 \<le> (999960::nat)" "(999960::nat) < 1000000" "(999960::nat) mod 100 \<noteq> 50" by simp_all
  have b: "1000 \<le> (12345::nat)" "(12345::nat) < 1000000" "(12345::nat) mod 100 \<noteq> 50" by simp_all
  from conjunct2 [OF format_views_rounds [OF a]] conjunct1 [OF format_views_rounds [OF b]] show ?thesis
    by simp
qed

text \<open>
  At the halfway counts the double decides: 1150 is stored below 1.15 and prints "1.1K",
  1250 is exact and \<^verbatim>\<open>toFixed\<close> rounds the tie up to "1.3K", and 999950 prints "1000.0K".
\<close>

theorem format_views_edges:
  "format_views 999949 = ''999.9K'' \<and> format_views 999950 = ''1000.0K''
   \<and> format_views 999999 = ''1000.0K'' \<and> format_views 1000000 = ''1.0M''
   \<and> format_views 1150 = ''1.1K'' \<and> format_views 1250 = ''1.3K'' \<and> format_views 999 = ''999''"
  by code_simp

end
