(* ===== verification/Recommendations.thy ===== *)
theory Recommendations
  imports BookCard
begin

text \<open>
  The "Up Next" panel, \<^verbatim>\<open>components/BookRecommendations.tsx\<close>: a card for every
  catalog book other than the open one (\<open>recommendations\<close>, theory \<open>Catalog\<close>), in
  catalog order, whose click reports the book's id to the reader
  (\<open>select_recommendation\<close>, theory \<open>Reader\<close>).  A card (\<open>rec_card\<close>) shows the duration
  badge \<open>format_duration\<close>, the title, the uploader with the first character of the name
  as avatar fallback, the view count through the panel's own copy of
  \<^verbatim>\<open>formatViews\<close> (\<open>rec_format_views\<close>, the same code as the card's \<open>format_views\<close>),
  the raw upload date, the first tag (\<^verbatim>\<open>book.tags[0]\<close>, \<^verbatim>\<open>undefined\<close> for a book
  without tags, which renders an empty badge) and a thumbs-up count
  \<^verbatim>\<open>Math.floor(book.views * 0.05)\<close> (\<open>thumbs_up\<close>), computed in doubles.
\<close>

definition rec_format_views :: "nat \<Rightarrow> string" where
  "rec_format_views v =
     (let x = int v in
      if 1000000 \<le> x then js_to_fixed1 (js_round x 1000000) @ ''M''
      else if 1000 \<le> x then js_to_fixed1 (js_round x 1000) @ ''K''
      else nat_str v)"

definition thumbs_up :: "nat \<Rightarrow> nat" where
  "thumbs_up v = nat (js_floor (js_mul (int v) (js_round 1 20)))"

record rec_card =
  rec_duration :: string
  rec_title :: string
  rec_avatar_fallback :: string
  rec_uploader :: string
  rec_views :: string
  rec_date :: string
  rec_tag :: "string option"
  rec_thumbs :: string

definition rec_card_of :: "book \<Rightarrow> rec_card" where
  "rec_card_of b =
     \<lparr>rec_duration = format_duration (book_total_pages b), rec_title = book_title b,
      rec_avatar_fallback = js_char_at (book_uploader b) 0, rec_uploader = book_uploader b,
      rec_views = rec_format_views (book_views b), rec_date = book_upload_date b,
      rec_tag = js_index (book_tags b) 0, rec_thumbs = nat_str (thumbs_up (book_views b))\<rparr>"

definition rec_panel :: "book list \<Rightarrow> id \<Rightarrow> rec_card list" where
  "rec_panel cat current_id = map rec_card_of (recommendations cat current_id)"

subsection \<open>The panel's view count and thumbs-up count\<close>

text \<open>
  C25.  Below \<open>2^40\<close> views the thumbs-up count computed in doubles,
  \<^verbatim>\<open>Math.floor(views * 0.05)\<close>, is exactly \<open>views div 20\<close>: the literal \<^verbatim>\<open>0.05\<close> lies
  above \<open>1/20\<close>, so no multiple of 20 falls short, and the error stays far below the
  distance to the next integer.
\<close>

theorem thumbs_up_div:
  assumes "v < 2 ^ 40"
  shows "thumbs_up v = v div 20"
proof (cases "v = 0")
  case True
  then show ?thesis
    by (simp add: thumbs_up_def js_mul_def js_round_one_twentieth) (simp add: js_round_def js_floor_def)
next
  case False
  define a where "a = int v * 7205759403792794"
  have v: "0 < int v" "int v < 2 ^ 40" using False assms by simp_all
  have "js_mul (int v) (js_round 1 20) = js_round a (2 ^ 57)"
    by (simp add: js_mul_def js_round_one_twentieth a_def)
  moreover have "js_floor (js_round a (2 ^ 57)) = int v div 20"
  proof (rule js_floor_round [where t = 36])
    define q where "q = int v div 20"
    define r where "r = int v mod 20"
    have vq: "int v = 20 * q + r" "0 \<le> r" "r < 20" by (simp_all add: q_def r_def)
    show "int v div 20 * 2 ^ 57 \<le> a"
      using vq unfolding a_def q_def [symmetric] by (simp add: algebra_simps)
    show "2 ^ 57 < ((int v div 20 + 1) * 2 ^ 57 - a) * 2 ^ (52 - 36)"
      using vq v unfolding a_def q_def [symmetric] by (simp add: algebra_simps)
  qed (use v in \<open>simp_all add: a_def\<close>)
  ultimately show ?thesis by (simp add: thumbs_up_def zdiv_int [symmetric])
qed

theorem thumbs_up_div_witness: "thumbs_up 12345678 = 617283"
  using thumbs_up_div [of 12345678] by simp

end
