(* ===== verification/FlipBook.thy ===== *)
theory FlipBook
  imports Reader
begin

text \<open>
  The widget state of \<^verbatim>\<open>components/FlipBook.tsx\<close> beside the reading state of theory
  \<open>Reader\<close>: \<^verbatim>\<open>showControls\<close> and \<^verbatim>\<open>isMobile\<close> (\<open>flip_ui\<close>), with the window's resize
  listener that the mount effect registers and its cleanup removes (\<open>resize_listener\<close>).
  The wrapper handles \<^verbatim>\<open>mouseenter\<close> and \<^verbatim>\<open>touchstart\<close> by showing the controls and
  \<^verbatim>\<open>mouseleave\<close> and \<^verbatim>\<open>touchend\<close> by hiding them; it is focusable (\<^verbatim>\<open>tabIndex={0}\<close>)
  but has no focus handler, so focus events reach it and change nothing
  (\<open>flip_ui_step\<close>).  \<^verbatim>\<open>isMobile\<close> is \<^verbatim>\<open>window.innerWidth < 768\<close>, read once by the
  mount effect (\<open>flip_mount\<close>) and again on every resize while the listener is
  registered.  The layout props of \<^verbatim>\<open>HTMLFlipBook\<close> follow \<^verbatim>\<open>isMobile\<close>
  (\<open>flip_layout\<close>), and the control bar (\<open>flip_controls\<close>) shows the buttons' disabled
  flags, the play or pause icon, the volume icon, the page label and the progress bar,
  opaque while \<^verbatim>\<open>showControls\<close> holds (CSS \<^verbatim>\<open>group-hover\<close> also shows it under a
  hovering mouse, which the mouse events track).
\<close>

record flip_ui =
  show_controls :: bool
  is_mobile :: bool
  resize_listener :: bool

datatype pointer_event = MouseEnter | MouseLeave | TouchStart | TouchEnd | FocusIn | FocusOut

datatype flip_ui_event = Pointer pointer_event | WindowResize nat | UnmountFlip

definition flip_ui_init :: flip_ui where
  "flip_ui_init = \<lparr>show_controls = False, is_mobile = False, resize_listener = False\<rparr>"

definition check_mobile :: "nat \<Rightarrow> bool" where
  "check_mobile inner_width \<longleftrightarrow> inner_width < 768"

definition flip_mount :: "nat \<Rightarrow> flip_ui \<Rightarrow> flip_ui" where
  "flip_mount inner_width s = s\<lparr>is_mobile := check_mobile inner_width, resize_listener := True\<rparr>"

fun flip_ui_step :: "flip_ui \<Rightarrow> flip_ui_event \<Rightarrow> flip_ui" where
  "flip_ui_step s (Pointer MouseEnter) = s\<lparr>show_controls := True\<rparr>"
| "flip_ui_step s (Pointer TouchStart) = s\<lparr>show_controls := True\<rparr>"
| "flip_ui_step s (Pointer MouseLeave) = s\<lparr>show_controls := False\<rparr>"
| "flip_ui_step s (Pointer TouchEnd) = s\<lparr>show_controls := False\<rparr>"
| "flip_ui_step s (Pointer FocusIn) = s"
| "flip_ui_step s (Pointer FocusOut) = s"
| "flip_ui_step s (WindowResize w) =
     (if resize_listener s then s\<lparr>is_mobile := check_mobile w\<rparr> else s)"
| "flip_ui_step s UnmountFlip = s\<lparr>resize_listener := False\<rparr>"

definition flip_ui_run :: "flip_ui \<Rightarrow> flip_ui_event list \<Rightarrow> flip_ui" where
  "flip_ui_run s es = foldl flip_ui_step s es"

record flip_layout =
  fl_width :: nat
  fl_height :: nat
  fl_min_width :: nat
  fl_max_width :: nat
  fl_min_height :: nat
  fl_max_height :: nat
  fl_portrait :: bool

definition flip_layout :: "bool \<Rightarrow> flip_layout" where
  "flip_layout mobile =
     \<lparr>fl_width = (if mobile then 350 else 700), fl_height = (if mobile then 500 else 700),
      fl_min_width = (if mobile then 200 else 400), fl_max_width = (if mobile then 400 else 1200),
      fl_min_height = (if mobile then 300 else 400), fl_max_height = (if mobile then 700 else 1533),
      fl_portrait = mobile\<rparr>"

datatype play_icon = PlayIcon | PauseIcon

datatype volume_icon = VolumeOn | VolumeOff

record controls_view =
  ctl_prev_disabled :: bool
  ctl_play_icon :: play_icon
  ctl_next_disabled :: bool
  ctl_volume_icon :: volume_icon
  ctl_label :: string
  ctl_progress :: rat
  ctl_opaque :: bool

definition flip_controls :: "reader \<Rightarrow> flip_ui \<Rightarrow> controls_view" where
  "flip_controls s u =
     \<lparr>ctl_prev_disabled = prev_disabled s,
      ctl_play_icon = (if is_reading s then PauseIcon else PlayIcon),
      ctl_next_disabled = next_disabled s,
      ctl_volume_icon = (if is_muted s then VolumeOff else VolumeOn),
      ctl_label = ''Page '' @ nat_str (displayed_page s) @ '' / '' @ nat_str (total_pages s),
      ctl_progress = progress s, ctl_opaque = show_controls u\<rparr>"

text \<open>The last mouse or touch event of a sequence, and the last resize.\<close>

definition last_pointer :: "flip_ui_event list \<Rightarrow> flip_ui_event option" where
  "last_pointer es =
     find (\<lambda>e. e \<in> {Pointer MouseEnter, Pointer MouseLeave, Pointer TouchStart, Pointer TouchEnd})
       (rev es)"

definition last_resize :: "flip_ui_event list \<Rightarrow> nat option" where
  "last_resize es =
     Option.bind (find (\<lambda>e. case e of WindowResize _ \<Rightarrow> True | _ \<Rightarrow> False) (rev es))
       (\<lambda>e. case e of WindowResize w \<Rightarrow> Some w | _ \<Rightarrow> None)"

subsection \<open>Runs of the widget\<close>

lemma flip_ui_run_snoc [simp]: "flip_ui_run s (es @ [e]) = flip_ui_step (flip_ui_run s es) e"
  by (simp add: flip_ui_run_def)

lemma flip_ui_run_Nil [simp]: "flip_ui_run s [] = s"
  by (simp add: flip_ui_run_def)

lemma last_pointer_snoc:
  "last_pointer (es @ [e]) =
     (if e \<in> {Pointer MouseEnter, Pointer MouseLeave, Pointer TouchStart, Pointer TouchEnd}
      then Some e else last_pointer es)"
  by (simp add: last_pointer_def)

lemma last_resize_snoc:
  "last_resize (es @ [e]) = (case e of WindowResize w \<Rightarrow> Some w | _ \<Rightarrow> last_resize es)"
  by (cases e) (simp_all add: last_resize_def)

lemma flip_ui_run_state:
  assumes "resize_listener s" "UnmountFlip \<notin> set es"
  shows "show_controls (flip_ui_run s es) =
           (case last_pointer es of None \<Rightarrow> show_controls s
            | Some e \<Rightarrow> e \<in> {Pointer MouseEnter, Pointer TouchStart})
         \<and> is_mobile (flip_ui_run s es) =
           (case last_resize es of None \<Rightarrow> is_mobile s | Some w \<Rightarrow> check_mobile w)
         \<and> resize_listener (flip_ui_run s es)"
  using assms(2)
proof (induction es rule: rev_induct)
  case Nil
  then show ?case using assms(1) by (simp add: last_pointer_def last_resize_def)
next
  case (snoc e es)
  then have IH: "show_controls (flip_ui_run s es) =
           (case last_pointer es of None \<Rightarrow> show_controls s
            | Some e \<Rightarrow> e \<in> {Pointer MouseEnter, Pointer TouchStart})"
    "is_mobile (flip_ui_run s es) =
           (case last_resize es of None \<Rightarrow> is_mobile s | Some w \<Rightarrow> check_mobile w)"
    "resize_listener (flip_ui_run s es)" and e: "e \<noteq> UnmountFlip" by auto
  show ?case
  proof (cases e)
    case (Pointer p)
    then show ?thesis using IH by (cases p) (simp_all add: last_pointer_snoc last_resize_snoc)
  next
    case (WindowResize w)
    then show ?thesis using IH by (simp add: last_pointer_snoc last_resize_snoc)
  qed (use e in simp)
qed

lemma flip_layout_bounds:
  "fl_min_width (flip_layout m) \<le> fl_width (flip_layout m) \<and> fl_width (flip_layout m) \<le> fl_max_width (flip_layout m)
   \<and> fl_min_height (flip_layout m) \<le> fl_height (flip_layout m) \<and> fl_height (flip_layout m) \<le> fl_max_height (flip_layout m)"
  by (cases m) (simp_all add: flip_layout_def)

subsection \<open>Properties of the widget\<close>

text \<open>
  C19.  Over mouse, touch and resize events after the mount effect, as long as the widget
  stays mounted, the control bar is shown on hover and tap and hidden again: it is opaque
  exactly when the last mouse or touch event was \<^verbatim>\<open>mouseenter\<close> or
  \<^verbatim>\<open>touchstart\<close>; the portrait layout is used exactly when the last window width (the
  mount width if no resize came) is below 768, and the chosen layout keeps its width
  within its bounds.
\<close>

theorem flip_controls_follow_events:
  assumes "UnmountFlip \<notin> set es" "Pointer FocusIn \<notin> set es" "Pointer FocusOut \<notin> set es"
  shows "ctl_opaque (flip_controls r (flip_ui_run (flip_mount w flip_ui_init) es)) =
           (last_pointer es \<in> {Some (Pointer MouseEnter), Some (Pointer TouchStart)})
         \<and> fl_portrait (flip_layout (is_mobile (flip_ui_run (flip_mount w flip_ui_init) es))) =
           ((case last_resize es of None \<Rightarrow> w | Some w' \<Rightarrow> w') < 768)
         \<and> fl_width (flip_layout (is_mobile (flip_ui_run (flip_mount w flip_ui_init) es)))
             \<le> fl_max_width (flip_layout (is_mobile (flip_ui_run (flip_mount w flip_ui_init) es)))"
proof -
  have "resize_listener (flip_mount w flip_ui_init)" by (simp add: flip_mount_def)
  from flip_ui_run_state [OF this assms(1)] flip_layout_bounds show ?thesis
    by (auto simp: flip_controls_def flip_layout_def flip_mount_def flip_ui_init_def check_mobile_def
        split: option.splits)
qed

theorem flip_controls_follow_events_witness:
  "\<not> ctl_opaque (flip_controls
        \<lparr>reader_book = ''b1'', reader_title = ''Dune'', current_page = 1, total_pages = 3,
         is_reading = False, is_muted = False, reading_speed = 1, interval = None\<rparr>
        (flip_ui_run (flip_mount 1024 flip_ui_init)
          [Pointer MouseEnter, WindowResize 500, Pointer TouchEnd]))
   \<and> fl_portrait (flip_layout (is_mobile (flip_ui_run (flip_mount 1024 flip_ui_init)
        [Pointer MouseEnter, WindowResize 500, Pointer TouchEnd])))"
  using flip_controls_follow_events [of "[Pointer MouseEnter, WindowResize 500, Pointer TouchEnd]"
      "\<lparr>reader_book = ''b1'', reader_title = ''Dune'', current_page = 1, total_pages = 3,
         is_reading = False, is_muted = False, reading_speed = 1, interval = None\<rparr>" 1024]
  by (simp add: last_pointer_def last_resize_def)

end
