(* ===== verification/FlipProps.thy ===== *)
theory FlipProps
  imports FlipBook BookCard Recommendations Dates
begin

text \<open>
  The props that carry the reading state down to the widget.  The book page passes the
  catalog book and its \<^verbatim>\<open>bookState\<close> to \<^verbatim>\<open>BookReader\<close> (\<open>reader_props\<close>,
  \<open>book_reader_props\<close>); \<^verbatim>\<open>BookReader\<close> computes \<^verbatim>\<open>progress\<close> from them and passes
  them on, with its own \<^verbatim>\<open>isReading\<close>, \<^verbatim>\<open>isMuted\<close>, \<^verbatim>\<open>isLiked\<close>, \<^verbatim>\<open>isDisliked\<close> and
  \<^verbatim>\<open>isSubscribed\<close>, to \<^verbatim>\<open>FlipBook\<close> (\<open>flip_props\<close>, \<open>reader_flip_props\<close>).  The callback
  props are the handlers of theory \<open>Reader\<close> (\<open>reader_handle\<close>) and are left out of the
  records.  \<^verbatim>\<open>BookReader\<close> also passes its own copies of \<^verbatim>\<open>formatViews\<close> and
  \<^verbatim>\<open>formatDate\<close> (\<open>reader_format_views\<close>, \<open>reader_format_date\<close>: en-US short month);
  \<^verbatim>\<open>pages\<close> is not passed and takes its default \<^verbatim>\<open>[]\<close>.  \<^verbatim>\<open>FlipBook\<close> renders
  its pages and its control bar from the props alone (\<open>flip_props_pages\<close>,
  \<open>flip_props_controls\<close>); the theory shows that this is the view \<open>flip_controls\<close> that
  theory \<open>FlipBook\<close> reads off the reading state.
\<close>

record reader_props =
  rp_book_id :: id
  rp_title :: string
  rp_author :: string
  rp_uploader :: string
  rp_uploader_avatar :: string
  rp_description :: string
  rp_tags :: "string list"
  rp_views :: nat
  rp_upload_date :: string
  rp_current_page :: nat
  rp_total_pages :: nat

definition book_reader_props :: "book \<Rightarrow> nat \<Rightarrow> nat \<Rightarrow> reader_props" where
  "book_reader_props b cur tot =
     \<lparr>rp_book_id = book_id b, rp_title = book_title b, rp_author = book_author b,
      rp_uploader = book_uploader b, rp_uploader_avatar = book_uploader_avatar b,
      rp_description = book_description b, rp_tags = book_tags b, rp_views = book_views b,
      rp_upload_date = book_upload_date b, rp_current_page = cur, rp_total_pages = tot\<rparr>"

record flip_props =
  fp_book_id :: id
  fp_title :: string
  fp_author :: string
  fp_current_page :: nat
  fp_total_pages :: nat
  fp_pages :: "string list"
  fp_progress :: rat
  fp_is_reading :: bool
  fp_is_muted :: bool
  fp_is_liked :: bool
  fp_is_disliked :: bool
  fp_views :: nat
  fp_upload_date :: string
  fp_format_views :: "nat \<Rightarrow> string"
  fp_format_date :: "string \<Rightarrow> string"
  fp_uploader :: "string option"
  fp_uploader_avatar :: "string option"
  fp_is_subscribed :: "bool option"
  fp_description :: "string option"

definition reader_format_views :: "nat \<Rightarrow> string" where
  "reader_format_views v =
     (let x = int v in
      if 1000000 \<le> x then js_to_fixed1 (js_round x 1000000) @ ''M''
      else if 1000 \<le> x then js_to_fixed1 (js_round x 1000) @ ''K''
      else nat_str v)"

definition month_short_name :: "nat \<Rightarrow> string" where
  "month_short_name m =
     [''Jan'', ''Feb'', ''Mar'', ''Apr'', ''May'', ''Jun'', ''Jul'', ''Aug'', ''Sep'', ''Oct'',
      ''Nov'', ''Dec''] ! (m - 1)"

definition reader_format_date :: "int \<Rightarrow> string \<Rightarrow> string" where
  "reader_format_date tz s =
     (case parse_iso_date s of
        None \<Rightarrow> ''Invalid Date''
      | Some day \<Rightarrow>
          (case civil_from_days (local_day tz day) of (y, m, d) \<Rightarrow>
             month_short_name m @ '' '' @ nat_str d @ '', '' @ nat_str (nat y)))"

definition reader_progress :: "reader_props \<Rightarrow> rat" where
  "reader_progress p = (of_nat (rp_current_page p) / of_nat (rp_total_pages p)) * 100"

definition reader_flip_props :: "int \<Rightarrow> reader_props \<Rightarrow> reader \<Rightarrow> bool \<Rightarrow> bool \<Rightarrow> bool \<Rightarrow> flip_props" where
  "reader_flip_props tz p s liked disliked subscribed =
     \<lparr>fp_book_id = rp_book_id p, fp_title = rp_title p, fp_author = rp_author p,
      fp_current_page = rp_current_page p, fp_total_pages = rp_total_pages p, fp_pages = [],
      fp_progress = reader_progress p, fp_is_reading = is_reading s, fp_is_muted = is_muted s,
      fp_is_liked = liked, fp_is_disliked = disliked, fp_views = rp_views p,
      fp_upload_date = rp_upload_date p, fp_format_views = reader_format_views,
      fp_format_date = reader_format_date tz, fp_uploader = Some (rp_uploader p),
      fp_uploader_avatar = Some (rp_uploader_avatar p), fp_is_subscribed = Some subscribed,
      fp_description = Some (rp_description p)\<rparr>"

definition flip_props_pages :: "flip_props \<Rightarrow> string list" where
  "flip_props_pages p = flip_book_pages (fp_pages p) (fp_total_pages p) (fp_title p)"

definition flip_props_controls :: "flip_props \<Rightarrow> flip_ui \<Rightarrow> controls_view" where
  "flip_props_controls p u =
     \<lparr>ctl_prev_disabled = (fp_current_page p = 0),
      ctl_play_icon = (if fp_is_reading p then PauseIcon else PlayIcon),
      ctl_next_disabled = (int (fp_current_page p) \<ge> int (fp_total_pages p) - 1),
      ctl_volume_icon = (if fp_is_muted p then VolumeOff else VolumeOn),
      ctl_label = ''Page '' @ nat_str (fp_current_page p + 1) @ '' / '' @ nat_str (fp_total_pages p),
      ctl_progress = fp_progress p, ctl_opaque = show_controls u\<rparr>"

subsection \<open>The widget renders the reading state\<close>

text \<open>
  When the book page's \<^verbatim>\<open>bookState\<close> is the reader's page and page count and the book is
  the one the reader opened, the pages and the control bar that \<^verbatim>\<open>FlipBook\<close> renders from
  its props are the placeholder pages of the reader and \<open>flip_controls\<close>, whatever the
  like, dislike and subscribe flags and the time zone: the widget reads none of the props
  it is given for them, nor the views, the date, the two formatters, the uploader or the
  description.
\<close>

lemma flip_props_render:
  assumes "book_title b = reader_title s"
  shows "flip_props_pages (reader_flip_props tz (book_reader_props b (current_page s) (total_pages s)) s l d sub)
           = flip_book_pages [] (total_pages s) (reader_title s)
         \<and> flip_props_controls (reader_flip_props tz (book_reader_props b (current_page s) (total_pages s)) s l d sub) u
           = flip_controls s u"
  using assms
  by (simp add: flip_props_pages_def flip_props_controls_def reader_flip_props_def
      book_reader_props_def reader_progress_def flip_controls_def prev_disabled_def
      next_disabled_def displayed_page_def progress_def)

text \<open>
  \<^verbatim>\<open>BookReader\<close>'s copy of \<^verbatim>\<open>formatViews\<close> is the function of the book card and of
  the recommendation panel, and its \<^verbatim>\<open>formatDate\<close> prints the same local day as the
  profile's, with the month abbreviated.
\<close>

lemma format_views_copies: "reader_format_views = format_views \<and> rec_format_views = format_views"
  by (simp add: fun_eq_iff reader_format_views_def format_views_def rec_format_views_def)

lemma reader_format_date_short:
  "reader_format_date 0 ''2022-03-15'' = ''Mar 15, 2022''
   \<and> to_locale_date_long 0 ''2022-03-15'' = ''March 15, 2022''
   \<and> reader_format_date (-300) ''2022-03-15'' = ''Mar 14, 2022''"
  by code_simp

end
