(* ===== verification/CommentTimes.thy ===== *)
theory CommentTimes
  imports Comments BookCard Dates
begin

text \<open>
  The age of a comment, \<^verbatim>\<open>formatTimestamp\<close> of \<^verbatim>\<open>components/CommentSection.tsx\<close>.
  \<^verbatim>\<open>new Date()\<close> and \<^verbatim>\<open>new Date(timestamp)\<close> are inputs, the two times in milliseconds
  (\<open>now\<close>, \<open>t\<close>), and \<open>tz\<close> is the offset of the user's time zone in minutes east of UTC.
  The hour and day counts are \<^verbatim>\<open>Math.ceil\<close> of exact quotients, as for the book card
  (theory \<open>BookCard\<close>); an age of a week or more prints \<^verbatim>\<open>toLocaleDateString()\<close> with the
  default en-US options, the numeric month, day and year of the local date
  (\<open>locale_date_numeric\<close>).
\<close>

definition locale_date_numeric :: "int \<Rightarrow> int \<Rightarrow> string" where
  "locale_date_numeric tz t =
     (case civil_from_days ((t + tz * 60000) div 86400000) of (y, m, d) \<Rightarrow>
        nat_str m @ ''/'' @ nat_str d @ ''/'' @ nat_str (nat y))"

definition format_timestamp :: "int \<Rightarrow> int \<Rightarrow> int \<Rightarrow> string" where
  "format_timestamp tz now t =
     (let diff_time = \<bar>now - t\<bar>;
          diff_hours = nat \<lceil>(of_int diff_time :: rat) / of_int (1000 * 60 * 60)\<rceil>
      in if diff_hours < 24 then nat_str diff_hours @ ''h ago''
         else let diff_days = nat \<lceil>(of_int diff_time :: rat) / of_int (1000 * 60 * 60 * 24)\<rceil> in
           if diff_days < 7 then nat_str diff_days @ ''d ago''
           else locale_date_numeric tz t)"

subsection \<open>The labels\<close>

lemma format_timestamp_int:
  "format_timestamp tz now t =
     (let diff_hours = (nat \<bar>now - t\<bar> + 3599999) div 3600000 in
      if diff_hours < 24 then nat_str diff_hours @ ''h ago''
      else let diff_days = (nat \<bar>now - t\<bar> + 86399999) div 86400000 in
        if diff_days < 7 then nat_str diff_days @ ''d ago'' else locale_date_numeric tz t)"
proof -
  have h: "nat \<lceil>(of_int \<bar>now - t\<bar> :: rat) / of_int (1000 * 60 * 60)\<rceil> = (nat \<bar>now - t\<bar> + 3599999) div 3600000"
    using ceiling_of_int_div [of 3600000 "\<bar>now - t\<bar>"] by (simp add: nat_div_distrib)
  have d: "nat \<lceil>(of_int \<bar>now - t\<bar> :: rat) / of_int (1000 * 60 * 60 * 24)\<rceil> = (nat \<bar>now - t\<bar> + 86399999) div 86400000"
    using ceiling_of_int_div [of 86400000 "\<bar>now - t\<bar>"] by (simp add: nat_div_distrib)
  show ?thesis unfolding format_timestamp_def Let_def h d ..
qed

text \<open>
  C38.  A comment's age is rounded up to whole hours: every comment younger than an hour
  but not posted in the same millisecond reads "1h ago" (never minutes or "just now"),
  and one stamped with the reader's own clock reading reads "0h ago".
\<close>

theorem format_timestamp_first_hour:
  "(0 < \<bar>now - t\<bar> \<and> \<bar>now - t\<bar> \<le> 3600000 \<longrightarrow> format_timestamp tz now t = ''1h ago'')
   \<and> format_timestamp tz t t = ''0h ago''"
proof -
  have "(nat \<bar>now - t\<bar> + 3599999) div 3600000 = 1" if "0 < \<bar>now - t\<bar>" "\<bar>now - t\<bar> \<le> 3600000"
    using that by (intro div_nat_eqI) auto
  moreover have "nat_str (Suc 0) = ''1''" "nat_str 0 = ''0''" by code_simp+
  ultimately show ?thesis by (simp add: format_timestamp_int)
qed

theorem format_timestamp_first_hour_witness:
  "format_timestamp 0 1700000060000 1700000000000 = ''1h ago''"
proof -
  have "0 < \<bar>(1700000060000::int) - 1700000000000\<bar> \<and> \<bar>(1700000060000::int) - 1700000000000\<bar> \<le> 3600000"
    by simp
  with conjunct1 [OF format_timestamp_first_hour [of "1700000060000::int" 1700000000000 0]] show ?thesis
    by blast
qed

end
