(* ===== verification/PageViews.thy ===== *)
theory PageViews
  imports Pages ReadingLists
begin

text \<open>
  The rendered profile and upload pages.  \<^verbatim>\<open>app/profile/page.tsx\<close> shows the sidebar,
  the header card of theory \<open>Pages\<close>, the four tab triggers and the panel of the active
  tab (\<open>profile_view\<close>).  The upload page of \<^verbatim>\<open>app/upload/page.tsx\<close> shows the sidebar
  entries and the highlighted one, the card heading, the labels of the two file drop
  zones (the chosen file's name or the prompt), the controlled inputs, the tag badges with
  their remove buttons, the category \<^verbatim>\<open>select\<close> and the submit button.  A controlled
  \<^verbatim>\<open>select\<close> whose value matches no option shows its first option, "Select category".
  The reading-list dialog of \<^verbatim>\<open>ReadingListModal.tsx\<close> renders nothing while closed and
  otherwise its title, the create form or the button that opens it, a card per list and
  the empty state (\<open>rl_view\<close>).
\<close>

definition category_options :: "(string \<times> string) list" where
  "category_options =
     [('''', ''Select category''), (''fiction'', ''Fiction''), (''non-fiction'', ''Non-Fiction''),
      (''science'', ''Science''), (''technology'', ''Technology''), (''history'', ''History''),
      (''biography'', ''Biography''), (''children'', ''Children's Books''),
      (''educational'', ''Educational'')]"

definition category_label :: "string \<Rightarrow> string" where
  "category_label v =
     (case map_of category_options v of Some l \<Rightarrow> l | None \<Rightarrow> snd (hd category_options))"

record upload_view =
  uv_sidebar :: "id list"
  uv_highlighted :: "id list"
  uv_heading :: "string \<times> string"
  uv_book_label :: string
  uv_cover_label :: string
  uv_title :: string
  uv_author :: string
  uv_description :: string
  uv_tag_input :: string
  uv_badges :: "string list"
  uv_category :: string
  uv_button_label :: string
  uv_button_disabled :: bool

definition upload_view :: "upload_page \<Rightarrow> upload_view" where
  "upload_view p =
     \<lparr>uv_sidebar = sidebar_visible_ids (sidebar_open p),
      uv_highlighted = sidebar_highlighted (sidebar_open p) (current_nav p),
      uv_heading = (''Upload Your Book'', ''Share your book with the BookTube community''),
      uv_book_label = (case book_file (form p) of Some n \<Rightarrow> n
                       | None \<Rightarrow> ''Click to upload your book (PDF, EPUB, MOBI)''),
      uv_cover_label = (case thumbnail (form p) of Some n \<Rightarrow> n
                        | None \<Rightarrow> ''Click to upload book cover''),
      uv_title = title (form p), uv_author = author (form p),
      uv_description = description (form p), uv_tag_input = tag_input p,
      uv_badges = tags (form p), uv_category = category_label (category (form p)),
      uv_button_label = (if is_uploading p then ''Uploading...'' else ''Upload Book''),
      uv_button_disabled = is_uploading p\<rparr>"

record profile_view =
  pv_sidebar :: "id list"
  pv_highlighted :: "id list"
  pv_header :: profile_header
  pv_tabs :: "(profile_tab \<times> string) list"
  pv_active :: profile_tab
  pv_panel :: tab_panel

definition profile_view :: "int \<Rightarrow> book list \<Rightarrow> profile_page \<Rightarrow> profile_view" where
  "profile_view tz cat p =
     \<lparr>pv_sidebar = sidebar_visible_ids (prof_sidebar_open p),
      pv_highlighted = sidebar_highlighted (prof_sidebar_open p) (prof_nav p),
      pv_header = profile_header tz p,
      pv_tabs = [(TabBooks, ''Books''), (TabLiked, ''Liked''), (TabSaved, ''Saved''),
                 (TabPlaylists, ''Playlists'')],
      pv_active = active_tab p, pv_panel = profile_tab_panel cat (active_tab p)\<rparr>"






subsection \<open>The rendered pages\<close>

text \<open>
  The book cards of the profile page are exactly the ones that open a book: a click on a
  book id navigates by the client router exactly when the active panel shows a grid with
  that id, and the Reading Lists panel shows no grid and opens nothing.
\<close>

lemma profile_cards_open_books:
  "(snd (profile_step cat p (ProfBookClick bid)) = ClientPush (BookRoute bid)) =
     (\<exists>ids. tp_content (pv_panel (profile_view tz cat p)) = TabGrid ids \<and> bid \<in> set ids)
   \<and> snd (profile_step cat p (ProfBookClick bid)) \<in> {NoNav, ClientPush (BookRoute bid)}
   \<and> (active_tab p = TabPlaylists \<longrightarrow> tp_content (pv_panel (profile_view tz cat p)) = NoReadingLists
        \<and> snd (profile_step cat p (ProfBookClick bid)) = NoNav)"
  by (cases "active_tab p")
     (simp_all add: profile_view_def profile_tab_panel_def tab_books_def grid_ids_def)

lemma upload_view_init:
  "upload_view upload_init =
     \<lparr>uv_sidebar = sidebar_visible_ids True, uv_highlighted = [],
      uv_heading = (''Upload Your Book'', ''Share your book with the BookTube community''),
      uv_book_label = ''Click to upload your book (PDF, EPUB, MOBI)'',
      uv_cover_label = ''Click to upload book cover'', uv_title = [], uv_author = [],
      uv_description = [], uv_tag_input = [], uv_badges = [], uv_category = ''Select category'',
      uv_button_label = ''Upload Book'', uv_button_disabled = False\<rparr>"
  by code_simp





end
