(* ===== verification/Spec2Isabelle.thy ===== *)
theory Spec2Isabelle
  imports Shell Navigation ReadingLists Recommendations FlipProps CommentTimes PageViews
begin

text \<open>
  \<^bold>\<open>BookTube: a verification library of the client in \<^verbatim>\<open>src/src\<close>.\<close>

  The program is a Next.js/React client with in-memory mock data: a catalog of books, a
  book page (reader with page flipping and an auto-read timer, comment thread,
  recommendations), a navigation bar (search overlay, notification center), a
  reading-list dialog, an upload page, and home and profile pages.  All state is local component state changed by
  event handlers; the only asynchrony is the auto-read \<^verbatim>\<open>setInterval\<close> and the upload
  \<^verbatim>\<open>setTimeout\<close>.  The library is a shallow embedding: each state is a \<open>record\<close>, each
  handler a HOL function from state to state, each component's user actions a
  \<open>datatype\<close> of events with a step function whose guards are the render conditions of
  the sources (a button that is not rendered cannot be clicked), and a run is a fold of
  the step over an event list.  Everything is executable; the witnesses evaluate the
  definitions by \<open>simp\<close> or \<open>code_simp\<close>.

  \<^bold>\<open>Theories.\<close>
  \<^item> \<open>Prelude\<close>: the \<^verbatim>\<open>prev.map(x => x.id === id ? ... : x)\<close> update (\<open>map_where\<close>) and
    JavaScript truthiness (\<open>or_default\<close> for \<^verbatim>\<open>x || d\<close>, \<open>truthy\<close>), with their lemmas.
  \<^item> \<open>Js_Builtins\<close>: \<^verbatim>\<open>trim\<close>, \<^verbatim>\<open>toLowerCase\<close>, \<^verbatim>\<open>includes\<close>, \<^verbatim>\<open>[...new Set(xs)]\<close> and
    decimal \<^verbatim>\<open>toString\<close> of a natural number (\<open>nat_str\<close>, with its inverse \<open>str_nat\<close>),
    \<^verbatim>\<open>xs[i]\<close> and \<^verbatim>\<open>charAt\<close>, on ASCII characters.
  \<^item> \<open>Numbers\<close>: JavaScript doubles as far as the views compute with them: a double is a
    mantissa and a binary scale; division of integers and the product of an integer and
    a double round to nearest even at 53 bits (\<open>js_round\<close>, \<open>js_mul\<close>), with
    \<^verbatim>\<open>Math.floor\<close> (\<open>js_floor\<close>) and \<^verbatim>\<open>toFixed(1)\<close> (\<open>js_to_fixed1\<close>) from the ECMAScript
    definitions, all in integer arithmetic.
  \<^item> \<open>Dates\<close>: \<^verbatim>\<open>new Date('YYYY-MM-DD')\<close> (midnight UTC) and
    \<^verbatim>\<open>toLocaleDateString('en-US', ...)\<close> with a long month, through the proleptic
    Gregorian day-number conversions \<open>days_from_civil\<close> and \<open>civil_from_days\<close>; the
    user's time-zone offset is an input.  A string naming a day past the end of its month
    is Invalid Date, as the ECMAScript date-time format prescribes; engines differ there
    (V8 rolls such days over), so no claim depends on that branch: the sources only parse
    valid dates.
  \<^item> \<open>Catalog\<close>: the \<open>book\<close> record (from the spec's data model: \<^verbatim>\<open>src/data\<close> is not part
    of the sources), \<^verbatim>\<open>find\<close> by id, the recommendation filter and \<^verbatim>\<open>formatDuration\<close>
    of \<^verbatim>\<open>BookRecommendations.tsx\<close>.  The catalog is a parameter of every operation.
  \<^item> \<open>Reader\<close>: \<^verbatim>\<open>bookState\<close> of \<^verbatim>\<open>app/book/[bookId]/page.tsx\<close>, the state of
    \<^verbatim>\<open>BookReader.tsx\<close> and the buttons of \<^verbatim>\<open>FlipBook.tsx\<close> in one record \<open>reader\<close>.
    The \<^verbatim>\<open>useEffect\<close> that owns the interval is \<open>commit_effect\<close>: after each handler, if
    its dependencies changed, the old interval is cleared and a new one is installed with
    the values it captures (\<open>timer\<close>).  \<open>reader_reachable\<close> is the inductive set of states
    reachable from opening a catalog book.
  \<^item> \<open>Comments\<close>: the \<^verbatim>\<open>Comment\<close> tree of \<^verbatim>\<open>CommentSection.tsx\<close>, the handlers of
    page.tsx that change it and the drafts of CommentSection, with \<open>thread_step\<close>; the
    abstract view is the spec's three-valued vote (\<open>vote\<close>).  Generated ids carry
    the clock value they were made at (\<open>id_clock\<close>), which gives the distinct-id
    invariant of the tree.
  \<^item> \<open>CommentTimes\<close>: the age label \<^verbatim>\<open>formatTimestamp\<close> of a comment card, hours
    and days as \<^verbatim>\<open>Math.ceil\<close> of the elapsed time and the numeric local date after a
    week, with the two clock readings as inputs (\<open>format_timestamp\<close>).
  \<^item> \<open>Search\<close>: the filter effect of \<^verbatim>\<open>SearchResults.tsx\<close>, its category header and
    result view as the component would render them inside a react-router Router.
  \<^item> \<open>Notifications\<close>: \<^verbatim>\<open>NotificationCenter.tsx\<close>, its mock list and handlers.
  \<^item> \<open>Navigation\<close>: \<^verbatim>\<open>Navigation.tsx\<close>, owning the search box and both overlays, with the
    notification center as a child (\<open>CenterAction\<close>) and the bell badge.  Mounting the
    search overlay is \<open>nav_overlay\<close>: \<^verbatim>\<open>SearchResults\<close> calls \<^verbatim>\<open>useNavigate()\<close> first, and
    with no react-router Router anywhere in the app that call throws, so its render is the
    error value \<open>Inl UseNavigateOutsideRouter\<close> (\<open>search_results_render\<close>).
  \<^item> \<open>ReadingLists\<close>: \<^verbatim>\<open>ReadingListModal.tsx\<close>, with the abstraction \<open>rl_counts\<close> from the
    list of reading lists to a map from id to count.
  \<^item> \<open>Upload\<close>: \<^verbatim>\<open>app/upload/page.tsx\<close> with the part of the router it needs: the
    application state \<open>upload_app\<close> holds the route, the page state, a mount counter and the
    queue of pending timeouts, because the upload callback outlives the page.
  \<^item> \<open>Sidebar\<close>: \<^verbatim>\<open>Sidebar.tsx\<close>, which entries are rendered and highlighted.
  \<^item> \<open>Pages\<close>: the home page (\<^verbatim>\<open>app/page.tsx\<close>) and the profile page
    (\<^verbatim>\<open>app/profile/page.tsx\<close>) with their book grids (\<^verbatim>\<open>BookGrid.tsx\<close>); a step returns
    the page state and a navigation effect (none, client push or full document load).  The
    profile's header card (\<open>profile_header\<close>, with \<^verbatim>\<open>formatNumber\<close> and \<^verbatim>\<open>formatDate\<close>)
    and its four tab panels, and the rendered home page (\<open>home_view\<close>), are views of the
    page state.
  \<^item> \<open>BookCard\<close>: \<^verbatim>\<open>BookCard.tsx\<close> as the record of what it displays (\<open>book_card\<close>): the
    view count of \<^verbatim>\<open>formatViews\<close> (\<open>format_views\<close>, over \<open>Numbers\<close>), the relative upload
    date and the tag badges; \<open>grid_cards\<close> is the grid of \<^verbatim>\<open>BookGrid.tsx\<close>.
  \<^item> \<open>Recommendations\<close>: the "Up Next" cards of \<^verbatim>\<open>BookRecommendations.tsx\<close>, with its own
    copy of \<^verbatim>\<open>formatViews\<close> and the thumbs-up count \<^verbatim>\<open>Math.floor(book.views * 0.05)\<close>.
  \<^item> \<open>FlipBook\<close>: the widget state of \<^verbatim>\<open>FlipBook.tsx\<close> (\<^verbatim>\<open>showControls\<close>,
    \<^verbatim>\<open>isMobile\<close>, the resize listener of its mount effect), its layout props and the
    control bar rendered from the reader state.
  \<^item> \<open>FlipProps\<close>: the props records of \<^verbatim>\<open>BookReader\<close> and \<^verbatim>\<open>FlipBook\<close> and the
    elements that fill them (\<open>book_reader_props\<close>, \<open>reader_flip_props\<close>), with the pages
    and the control bar \<^verbatim>\<open>FlipBook\<close> renders from its props; \<open>flip_props_render\<close> shows
    they are the views the other theories read off the reading state; \<^verbatim>\<open>BookReader\<close>'s
    \<^verbatim>\<open>formatViews\<close> and \<^verbatim>\<open>formatDate\<close> are props \<^verbatim>\<open>FlipBook\<close> never reads.
  \<^item> \<open>PageViews\<close>: the rendered profile page (\<open>profile_view\<close>: sidebar, header, tab
    triggers, active panel) and upload form (\<open>upload_view\<close>: file labels, inputs, tag
    badges, category select, submit button), and the reading-list dialog
    (\<open>rl_view\<close>).
  \<^item> \<open>App\<close>: the pages composed over the router core of \<open>Upload\<close>: the route decides
    which page receives an event, a route change remounts the new page, and the book page is
    either the not-found view or the reader of \<open>Reader\<close> with the thread of \<open>Comments\<close>.
  \<^item> \<open>Shell\<close>: \<^verbatim>\<open>app/layout.tsx\<close> and \<^verbatim>\<open>ClientProviders.tsx\<close>: the provider stack
    with the fixed light theme and the query client of each document (\<open>root_layout\<close>),
    run beside the application (\<open>shell_step\<close>): client navigations keep it, a full
    document load mounts a new one.  Which events load a document (\<open>event_reloads\<close>)
    is read off the sources event by event: a page event does when its step returns a
    \<open>FullLoad\<close> effect, and the upload page, the bar's buttons and the upload timeout
    only call \<^verbatim>\<open>router.push\<close>.
  The root theory holds the facts that span components (the invariant of the whole
  application and the not-found path as claims; book navigation against pending uploads
  and the lifetime of the shell as lemmas) and the one-book catalog its witnesses run on.

  \<^bold>\<open>What is proved.\<close>  Each component theory ends with its properties, every one after a
  text naming its claim:
  \<^item> invariants preserved by every event, by rule induction on \<open>reader_reachable\<close> or by
    induction on the event list: reader bounds and interval consistency, well-formed votes
    in the whole comment tree, distinct and numeric reading-list ids, at most one pending
    upload per page instance with distinct trimmed tags, distinct comment and reply ids
    under increasing clocks, unread count below the bell badge,
    search overlay shown only for a non-blank query, and all of them together over every
    run of the composed application (\<open>app_invariant\<close>);
  \<^item> refinements: the like and dislike updates implement the three-valued vote, the
    reading-list handlers implement updates of the id-to-count map, and the upload tag list
    implements the spec's tag set;
  \<^item> functional behaviour of handlers on every branch, the rejected inputs included (blank
    comments and replies, invalid uploads as \<open>Inl MissingInformation\<close>, the not-found
    book page);
  \<^item> termination of auto-read, as a bounded number of interval ticks, and liveness of the
    upload timeouts: after as many timeouts as are pending, none is left;
  \<^item> equivalences of code computed in doubles with integer formulas: the card's day count
    (\<^verbatim>\<open>Math.ceil\<close> of a quotient) and the thumbs-up count, which is exactly
    \<open>views div 20\<close> below \<open>2^40\<close> views; \<^verbatim>\<open>formatViews\<close> prints every count that is a
    multiple of its last printed unit exactly, and below a million every count not halfway
    between two hundreds as the count rounded to the nearest hundred (rounding lemmas
    \<open>rne_div_bounds\<close>, \<open>to_fixed1_exact\<close>, \<open>to_fixed1_near\<close> and \<open>js_floor_round\<close> of
    \<open>Numbers\<close>);
  \<^item> round trips and bounds: \<^verbatim>\<open>h:mm\<close> durations parse back, progress is between 0
    and 100, day numbers and civil dates convert without loss (\<open>civil_roundtrip\<close>), so
    the profile prints a valid date-only string as the date it names at or east of UTC
    and as the day before west of it;
  \<^item> error paths: the search overlay, mounted by every non-blank keystroke, fails to
    render (\<open>search_overlay_throws\<close>);
  \<^item> the widget of \<^verbatim>\<open>FlipBook.tsx\<close>: over mouse, touch and resize events after mount,
    the control bar follows the last mouse or touch event and the layout the last window
    width (focus events change nothing, a lemma behind a finding);
  \<^item> views agree with handlers: the profile's shown cards are exactly the ids whose click
    opens a book (\<open>profile_cards_open_books\<close>), and over any run the upload button is
    disabled exactly while the page's own upload is pending (\<open>upload_view_run\<close>), and
    a reading-list card is clickable or deletable exactly when that handler acts
    (\<open>rl_view_buttons\<close>);
  \<^item> the defects the model exposes (listed as findings in the project manifest): the
    next button stops one page early, page flips are 0-based, the page label passes the
    page count, votes on replies are ignored, selecting a recommendation keeps the old
    book, \<^verbatim>\<open>formatDuration\<close> is ambiguous, the bell badge is constant, the search overlay
    cannot render and its query would not be trimmed, a pending upload timeout redirects after the page was left unless a book
    was opened from the home page (a full load), the card's relative date rounds up to a
    day and a comment's age to an hour (a fresh comment reads "1h ago"), the sidebar navigates only from the profile page's home entry, \<^verbatim>\<open>formatViews\<close>
    prints 999950 to 999999 as "1000.0K" and rounds halves by their double value, keyboard
    focus never shows the reader's controls, the profile's join date is a day early west
    of UTC, and its book count is a constant.

  \<^bold>\<open>Bounds and fuel.\<close>  No handler loops: every recursion is structural over a list or a
  comment tree, so no fuel is needed.  The one unbounded behaviour, auto-read, advances one
  page per tick and stops at the last page; its termination is the theorem that
  \<open>Suc (total_pages - current_page)\<close> ticks reach a state that further ticks leave
  unchanged.  Times (\<^verbatim>\<open>Date.now()\<close>, ISO timestamps) are inputs carried by the events.
  Doubles are exact on the integers the sources divide (view counts below \<open>2^53\<close>); the
  theorems on them hold below \<open>2^53\<close> views (formatting) and \<open>2^40\<close> views (thumbs-up,
  where the error of \<^verbatim>\<open>0.05\<close> must stay below the distance to the next integer).  Time
  zones are offsets in minutes; the profile theorem covers the offsets in use, UTC-12 to
  UTC+14.

  \<^bold>\<open>Not modelled.\<close>  Styling, icons and \<^verbatim>\<open>globals.css\<close>; the providers' library
  internals (next-themes, react-query, the tooltip provider), of which the sources use
  nothing but the mounted instances; toasts, which only show messages, through
  \<^verbatim>\<open>hooks/use-toast\<close>, which is not among the sources; the callback props, which are
  the handlers they name; locales other than en-US and dates outside
  the date-only ISO form, which the sources do not use; the book-level like,
  dislike and bookmark flags of \<^verbatim>\<open>BookReader.tsx\<close>, which no rendered button changes
  (its subscribe flag is an input of the channel bar \<open>reader_channel\<close>);
  the navigation bar's overlays inside the composed application (they are per-page state,
  modelled once in \<open>Navigation\<close>); the flip animation of \<^verbatim>\<open>react-pageflip\<close>, which is
  represented only by the 0-based page index it reports; and the Next.js router itself,
  whose push and full load are modelled from their documented behaviour.
\<close>


text \<open>A one-book catalog used by the witnesses: the book is uploaded by the profile's user,
  so it appears on the home page and in the profile's "Books" tab.\<close>

definition demo_book :: book where
  "demo_book = \<lparr>book_id = ''1'', book_title = ''T'', book_author = ''A'',
      book_cover_image = '''', book_description = '''', book_uploader = ''BookLover123'',
      book_uploader_avatar = '''', book_views = 0, book_upload_date = '''', book_duration = '''',
      book_tags = [], book_total_pages = 3, book_current_page = None\<rparr>"

definition demo_submit :: "app_event list" where
  "demo_submit = [AtUpload (InputChange FTitle ''T''), AtUpload (InputChange FAuthor ''A''),
      AtUpload (FileChosen FBook ''b.pdf''), AtUpload Submit]"

section \<open>Properties across components\<close>

text \<open>
  C5.  Every state the application reaches, over all its pages, from any route, keeps the
  invariants of its parts: at most one pending upload per upload-page instance with the
  page's "Uploading..." matching it, and on a shown book the reader invariant (positive page
  count, page within it, no stale auto-read interval) and well-formed votes in the whole
  comment tree, provided the catalog and the initial comments are well formed.
\<close>

theorem app_invariant:
  "list_all book_wf cat \<Longrightarrow> list_all comment_wf cs \<Longrightarrow> app_inv (app_run cat cs (boot cat cs r) es)"
  by (rule app_run_inv) (simp_all add: boot_inv)

theorem app_invariant_witness:
  "list_all book_wf [demo_book] \<and> list_all comment_wf []
   \<and> app_inv (app_run [demo_book] [] (boot [demo_book] [] HomeRoute)
       [AtHome (HomeBookClick ''1''), AtBook (ReaderEv NextClick)])"
proof -
  have h: "list_all book_wf [demo_book]" "list_all comment_wf ([] :: comment list)"
    by (simp_all add: demo_book_def book_wf_def start_page_def page_count_def)
  from app_invariant [OF h] h show ?thesis by blast
qed

text \<open>
  Opening a book from the home page is a full document load, which drops every pending
  upload timeout; opening it from the profile page is a client push, which keeps them, so
  the upload's later redirect to the home route takes the user off the book.
\<close>

theorem book_click_routes:
  "(location (core st) = HomeRoute \<and> bid \<in> set (home_grid_ids cat) \<longrightarrow>
      location (core (app_step cat cs st (AtHome (HomeBookClick bid)))) = BookRoute bid
      \<and> timers (core (app_step cat cs st (AtHome (HomeBookClick bid)))) = [])
   \<and> (location (core st) = ProfileRoute \<and> bid \<in> set (grid_ids (tab_books cat (active_tab (profile st)))) \<longrightarrow>
      location (core (app_step cat cs st (AtProfile (ProfBookClick bid)))) = BookRoute bid
      \<and> timers (core (app_step cat cs st (AtProfile (ProfBookClick bid)))) = timers (core st))"
  by (simp add: apply_nav_def)

theorem book_click_routes_witness:
  "timers (core (app_step [demo_book] []
      (app_run [demo_book] [] (boot [demo_book] [] UploadRoute) (demo_submit @ [NavProfileButton]))
      (AtProfile (ProfBookClick ''1'')))) \<noteq> []
   \<and> location (core (app_run [demo_book] [] (boot [demo_book] [] UploadRoute)
      (demo_submit @ [NavProfileButton, AtProfile (ProfBookClick ''1''), UploadTimeout]))) = HomeRoute"
proof -
  let ?st = "app_run [demo_book] [] (boot [demo_book] [] UploadRoute) (demo_submit @ [NavProfileButton])"
  have l: "location (core ?st) = ProfileRoute"
    and m: "''1'' \<in> set (grid_ids (tab_books [demo_book] (active_tab (profile ?st))))"
    and t: "timers (core ?st) \<noteq> []"
    unfolding demo_book_def demo_submit_def by code_simp+
  have r: "location (core (app_run [demo_book] [] (boot [demo_book] [] UploadRoute)
      (demo_submit @ [NavProfileButton, AtProfile (ProfBookClick ''1''), UploadTimeout]))) = HomeRoute"
    unfolding demo_book_def demo_submit_def by code_simp
  from book_click_routes [of ?st "''1''" "[demo_book]" "[]"] l m t r show ?thesis by simp
qed

text \<open>
  C22.  The error path of the book page: on an id the catalog does not hold, the page
  renders only "Book Not Found"; every event but its "Back to Home" button and a pending
  upload timeout leaves the application unchanged (the navigation bar is not rendered),
  and the button leads to the home route.
\<close>

theorem not_found_page:
  assumes "location (core st) = BookRoute bid" "bp_view (book_pg st) = NotFound bid'"
  shows "(\<forall>e. e \<noteq> AtBook BackHome \<and> e \<noteq> UploadTimeout \<longrightarrow> app_step cat cs st e = st)
         \<and> location (core (app_step cat cs st (AtBook BackHome))) = HomeRoute"
proof -
  have "app_step cat cs st e = st" if "e \<noteq> AtBook BackHome" "e \<noteq> UploadTimeout" for e
    using that assms
    by (cases e) (auto simp: book_step_def apply_nav_def navigation_rendered_def)
  moreover have "location (core (app_step cat cs st (AtBook BackHome))) = HomeRoute"
    using assms by (simp add: book_step_def apply_nav_def)
  ultimately show ?thesis by blast
qed

theorem not_found_page_witness:
  "app_step [demo_book] [] (boot [demo_book] [] (BookRoute ''9'')) NavUploadButton
     = boot [demo_book] [] (BookRoute ''9'')
   \<and> location (core (app_step [demo_book] [] (boot [demo_book] [] (BookRoute ''9'')) (AtBook BackHome)))
     = HomeRoute"
proof -
  have l: "location (core (boot [demo_book] [] (BookRoute ''9''))) = BookRoute ''9''"
    and v: "bp_view (book_pg (boot [demo_book] [] (BookRoute ''9''))) = NotFound ''9''"
    unfolding demo_book_def by code_simp+
  note nf = not_found_page [OF l v, of "[demo_book]" "[]"]
  from spec [OF conjunct1 [OF nf], of NavUploadButton] conjunct2 [OF nf]
  show ?thesis by (simp del: app_step.simps)
qed

text \<open>
  The application shell lives as long as the document: over any run from boot the
  shell is the English, light-themed root layout of some document whose query client is
  the one its mount created, and it is replaced only by a book click on the home page (the
  one full document load of the sources); every other page event and every client
  navigation keeps it.
\<close>

theorem shell_reloads_only_from_home:
  "(\<exists>n \<le> length es. snd (shell_run cat cs (shell_boot cat cs r) es) = root_layout n)
   \<and> (snd (shell_step cat cs (st, sh) e) \<noteq> sh \<longrightarrow>
        location (core st) = HomeRoute \<and> (\<exists>bid. e = AtHome (HomeBookClick bid) \<and> bid \<in> set (home_grid_ids cat)))"
proof -
  have "\<exists>m. snd (shell_run cat cs (shell_boot cat cs r) es) = root_layout m \<and> 0 \<le> m \<and> m \<le> 0 + length es"
    by (rule shell_run_layout) (simp add: shell_boot_def)
  moreover have "snd (shell_step cat cs (st, sh) e) \<noteq> sh \<longrightarrow>
        location (core st) = HomeRoute \<and> (\<exists>bid. e = AtHome (HomeBookClick bid) \<and> bid \<in> set (home_grid_ids cat))"
    using shell_step_keeps event_reloads_home_click by blast
  ultimately show ?thesis by auto
qed

theorem shell_reloads_only_from_home_witness:
  "snd (shell_step [demo_book] [] (boot [demo_book] [] HomeRoute, root_layout 0) (AtHome (HomeBookClick ''1'')))
     \<noteq> root_layout 0
   \<and> location (core (boot [demo_book] [] HomeRoute)) = HomeRoute"
proof -
  have r: "snd (shell_step [demo_book] [] (boot [demo_book] [] HomeRoute, root_layout 0) (AtHome (HomeBookClick ''1'')))
     \<noteq> root_layout 0"
    unfolding demo_book_def by code_simp
  from conjunct2 [OF shell_reloads_only_from_home [of _ "[demo_book]" "[]" HomeRoute
      "boot [demo_book] [] HomeRoute" "root_layout 0" "AtHome (HomeBookClick ''1'')"]] r
  show ?thesis by blast
qed

end
